(* ===== verification/Prelude.thy ===== *)
theory Prelude
  imports Main "HOL-Library.Word"
begin

text \<open>
  Shared vocabulary of the development. A TypeScript \<open>string\<close> is a sequence of UTF-16
  code units, so a string of the model is a list of \<open>16 word\<close> values and \<open>length\<close>,
  \<open>take\<close> and \<open>drop\<close> count code units exactly as \<open>.length\<close> and \<open>.slice\<close> do.
  ASCII literals are written \<open>js ''...''\<close>; non-ASCII constants of the source are
  written as lists of their code units.

  The theory also models the few built-in string operations of JavaScript that the
  source calls (\<open>trim\<close>, \<open>startsWith\<close>, \<open>endsWith\<close>, \<open>includes\<close>,
  \<open>split\<close>, \<open>join\<close>, \<open>toLowerCase\<close>, the regular-expression class \<open>\s\<close>) and
  proves the generic facts about them that the component theories share: trimming is
  idempotent, \<open>split\<close> and \<open>join\<close> are inverse, \<open>includes\<close> is the infix relation.
\<close>

named_theorems js_lit \<open>rules that evaluate string literals and code-unit tests\<close>

type_synonym code_unit = "16 word"
type_synonym js_string = "code_unit list"

definition js :: "string \<Rightarrow> js_string" where
  "js s = map (\<lambda>c. word_of_nat (of_char c)) s"

subsection \<open>Character classes\<close>

text \<open>
  \<open>String.prototype.trim\<close> and the regular-expression class \<open>\s\<close> remove the same
  code units: the ECMAScript WhiteSpace and LineTerminator productions.
\<close>

definition is_js_space :: "code_unit \<Rightarrow> bool" where
  "is_js_space c \<longleftrightarrow>
     c \<in> {0x9, 0xA, 0xB, 0xC, 0xD, 0x20, 0xA0, 0x1680, 0x2028, 0x2029, 0x202F, 0x205F,
          0x3000, 0xFEFF} \<or> (0x2000 \<le> c \<and> c \<le> 0x200A)"

text \<open>The code units that the regular-expression wildcard \<open>.\<close> does not match.\<close>

definition is_line_terminator :: "code_unit \<Rightarrow> bool" where
  "is_line_terminator c \<longleftrightarrow> c \<in> {0xA, 0xD, 0x2028, 0x2029}"

text \<open>
  \<open>toLowerCase\<close> on one code unit, for the scripts whose lower case is one code unit
  away: Basic Latin, Latin-1, Greek, Cyrillic and the full-width Latin letters.
\<close>

definition to_lower_unit :: "code_unit \<Rightarrow> code_unit" where
  "to_lower_unit c =
     (if (0x41 \<le> c \<and> c \<le> 0x5A) \<or> (0xC0 \<le> c \<and> c \<le> 0xDE \<and> c \<noteq> 0xD7)
         \<or> (0x391 \<le> c \<and> c \<le> 0x3A9 \<and> c \<noteq> 0x3A2) \<or> (0x410 \<le> c \<and> c \<le> 0x42F)
         \<or> (0xFF21 \<le> c \<and> c \<le> 0xFF3A) then c + 0x20
      else if 0x400 \<le> c \<and> c \<le> 0x40F then c + 0x50
      else c)"

definition js_to_lower :: "js_string \<Rightarrow> js_string" where
  "js_to_lower s = map to_lower_unit s"

subsection \<open>String operations\<close>

definition js_trim :: "js_string \<Rightarrow> js_string" where
  "js_trim s = rev (dropWhile is_js_space (rev (dropWhile is_js_space s)))"

definition js_starts_with :: "js_string \<Rightarrow> js_string \<Rightarrow> bool" where
  "js_starts_with s p \<longleftrightarrow> take (length p) s = p"

definition js_ends_with :: "js_string \<Rightarrow> js_string \<Rightarrow> bool" where
  "js_ends_with s p \<longleftrightarrow> length p \<le> length s \<and> drop (length s - length p) s = p"

fun js_includes :: "js_string \<Rightarrow> js_string \<Rightarrow> bool" where
  "js_includes [] q \<longleftrightarrow> q = []"
| "js_includes (c # cs) q \<longleftrightarrow> take (length q) (c # cs) = q \<or> js_includes cs q"

text \<open>\<open>s.split(d)\<close> for a separator of one code unit: never the empty list.\<close>

fun js_split :: "code_unit \<Rightarrow> js_string \<Rightarrow> js_string list" where
  "js_split d [] = [[]]"
| "js_split d (c # cs) =
     (let ps = js_split d cs in if c = d then [] # ps else (c # hd ps) # tl ps)"

fun js_join :: "js_string \<Rightarrow> js_string list \<Rightarrow> js_string" where
  "js_join sep [] = []"
| "js_join sep [p] = p"
| "js_join sep (p # ps) = p @ sep @ js_join sep ps"

text \<open>\<open>n.toString()\<close> for a non-negative integer below \<open>10\<^sup>21\<close>: its decimal digits.\<close>

fun js_of_nat :: "nat \<Rightarrow> js_string" where
  "js_of_nat n =
     (if n < 10 then [word_of_nat (48 + n)] else js_of_nat (n div 10) @ [word_of_nat (48 + n mod 10)])"

declare js_of_nat.simps [simp del]

text \<open>\<open>n.toString()\<close> and \<open>${n}\<close> for an integer: a minus sign before the digits when negative.\<close>

definition js_of_int :: "int \<Rightarrow> js_string" where
  "js_of_int n = (if n < 0 then js ''-'' @ js_of_nat (nat (- n)) else js_of_nat (nat n))"


lemmas [js_lit] = js_def is_js_space_def is_line_terminator_def to_lower_unit_def
  js_to_lower_def js_trim_def js_starts_with_def js_ends_with_def

subsection \<open>Generic lemmas\<close>

lemma js_split_not_Nil [simp]: "js_split d s \<noteq> []"
  by (induction s) (auto simp: Let_def)

lemma js_join_Cons_split:
  "ps \<noteq> [] \<Longrightarrow> js_join sep (p # ps) = p @ sep @ js_join sep ps"
  by (cases ps) auto

lemma js_join_split [simp]: "js_join [d] (js_split d s) = s"
proof (induction s)
  case Nil
  then show ?case by simp
next
  case (Cons c cs)
  obtain q qs where q: "js_split d cs = q # qs"
    by (cases "js_split d cs") auto
  show ?case
  proof (cases "c = d")
    case True
    with Cons.IH q show ?thesis by (simp add: js_join_Cons_split)
  next
    case False
    with Cons.IH q show ?thesis by (cases qs) auto
  qed
qed

lemma js_split_append_sep:
  "d \<notin> set p \<Longrightarrow> js_split d (p @ d # s) = p # js_split d s"
  by (induction p) (auto simp: Let_def)

lemma js_split_no_sep:
  "d \<notin> set p \<Longrightarrow> js_split d p = [p]"
  by (induction p) (auto simp: Let_def)

lemma js_split_join:
  "ps \<noteq> [] \<Longrightarrow> \<forall>p \<in> set ps. d \<notin> set p \<Longrightarrow> js_split d (js_join [d] ps) = ps"
proof (induction ps)
  case Nil
  then show ?case by simp
next
  case (Cons p ps)
  then show ?case
    by (cases "ps = []") (simp_all add: js_split_no_sep js_split_append_sep js_join_Cons_split)
qed

lemma length_js_split_pieces:
  "p \<in> set (js_split d s) \<Longrightarrow> length p \<le> length s"
proof (induction s arbitrary: p)
  case Nil
  then show ?case by simp
next
  case (Cons c cs)
  obtain q qs where q: "js_split d cs = q # qs"
    by (cases "js_split d cs") auto
  with Cons show ?case by (fastforce simp: Let_def split: if_splits)
qed

lemma js_split_pieces_no_sep:
  "p \<in> set (js_split d s) \<Longrightarrow> d \<notin> set p"
proof (induction s arbitrary: p)
  case Nil
  then show ?case by simp
next
  case (Cons c cs)
  obtain q qs where q: "js_split d cs = q # qs"
    by (cases "js_split d cs") auto
  with Cons show ?case by (fastforce simp: Let_def split: if_splits)
qed

lemma js_includes_iff: "js_includes s q \<longleftrightarrow> (\<exists>a b. s = a @ q @ b)"
proof (induction s)
  case Nil
  then show ?case by simp
next
  case (Cons c cs)
  have "take (length q) (c # cs) = q \<longleftrightarrow> (\<exists>b. c # cs = q @ b)"
    by (metis append_eq_conv_conj)
  moreover have "(\<exists>a b. c # cs = a @ q @ b) \<longleftrightarrow>
      (\<exists>b. c # cs = q @ b) \<or> (\<exists>a b. cs = a @ q @ b)"
    by (auto simp: Cons_eq_append_conv)
  ultimately show ?case using Cons.IH by simp
qed

lemma js_includes_Nil [simp]: "js_includes s []"
  by (cases s) auto

lemma dropWhile_idem [simp]: "dropWhile P (dropWhile P xs) = dropWhile P xs"
  by (induction xs) auto

lemma js_trim_hd: "js_trim s \<noteq> [] \<Longrightarrow> \<not> is_js_space (hd (js_trim s))"
proof -
  assume ne: "js_trim s \<noteq> []"
  let ?d = "dropWhile is_js_space s"
  have "js_trim s = rev (dropWhile is_js_space (rev ?d))" by (simp add: js_trim_def)
  then have "\<exists>k. js_trim s = take k ?d"
    by (metis rev_take takeWhile_dropWhile_id append_eq_conv_conj rev_rev_ident rev_append)
  then obtain k where k: "js_trim s = take k ?d" by blast
  with ne have "?d \<noteq> []" by auto
  then have "\<not> is_js_space (hd ?d)" by (simp add: hd_dropWhile)
  with k ne show ?thesis by (cases ?d; cases k) auto
qed

lemma all_set_dropWhile_iff:
  "(\<forall>x \<in> set (dropWhile P xs). P x) \<longleftrightarrow> (\<forall>x \<in> set xs. P x)"
  by (induction xs) auto

lemma js_trim_empty_iff: "js_trim s = [] \<longleftrightarrow> (\<forall>c \<in> set s. is_js_space c)"
  by (simp add: js_trim_def dropWhile_eq_Nil_conv all_set_dropWhile_iff)

lemma length_js_trim: "length (js_trim s) \<le> length s"
  unfolding js_trim_def by (metis length_dropWhile_le length_rev le_trans)

lemma js_to_lower_length [simp]: "length (js_to_lower s) = length s"
  by (simp add: js_to_lower_def)

lemma js_includes_to_lower:
  "js_includes s q \<Longrightarrow> js_includes (js_to_lower s) (js_to_lower q)"
proof -
  assume "js_includes s q"
  then obtain a b where "s = a @ q @ b" by (auto simp: js_includes_iff)
  then have "js_to_lower s = js_to_lower a @ js_to_lower q @ js_to_lower b"
    by (simp add: js_to_lower_def)
  then show ?thesis by (auto simp: js_includes_iff)
qed

lemma takeWhile_all: "\<forall>x \<in> set xs. P x \<Longrightarrow> takeWhile P xs = xs"
  by (simp add: takeWhile_eq_all_conv)

lemma dropWhile_none: "\<forall>x \<in> set xs. \<not> P x \<Longrightarrow> dropWhile P xs = xs"
  by (induction xs) auto

lemma js_ends_with_single: "js_ends_with s [c] \<longleftrightarrow> s \<noteq> [] \<and> last s = c"
  by (cases s rule: rev_cases) (auto simp: js_ends_with_def)

lemma js_join_snoc:
  "js_join sep (xs @ [y]) = (if xs = [] then y else js_join sep xs @ sep @ y)"
  by (induction sep xs rule: js_join.induct) auto

text \<open>The last piece of a split is what follows the last separator.\<close>

lemma js_split_last:
  "\<exists>p. s = p @ last (js_split d s) \<and> (p = [] \<or> last p = d)"
proof -
  define ps where "ps = js_split d s"
  have ne: "ps \<noteq> []" by (simp add: ps_def)
  have s: "s = js_join [d] (butlast ps @ [last ps])"
    using js_join_split [of d s] ne by (simp add: ps_def)
  show ?thesis
  proof (cases "butlast ps = []")
    case True
    then have "js_join [d] (butlast ps @ [last ps]) = [] @ last ps" by simp
    with s show ?thesis by (auto simp: ps_def)
  next
    case False
    then have "js_join [d] (butlast ps @ [last ps]) = (js_join [d] (butlast ps) @ [d]) @ last ps"
      by (subst js_join_snoc) simp
    with s show ?thesis unfolding ps_def by (metis last_snoc)
  qed
qed

end
