(* ===== verification/Sessions.thy ===== *)
theory Sessions
  imports Prelude "HOL-Library.Multiset"
begin

text \<open>
  The session store of \<open>src/src/main.ts\<close>: the interfaces \<open>Message\<close> and
  \<open>ChatSession\<close>, the module-level variables \<open>sessions\<close>,
  \<open>currentSessionId\<close>, \<open>isSending\<close>, the text of the input box, and the
  \<open>localStorage\<close> entry under \<open>SESSIONS_KEY\<close>, gathered in the record \<open>app\<close>.
  Each function of the source that changes them is one definition here that takes the
  state and returns the new one; \<open>Date.now()\<close> and the random id suffix
  \<open>Math.random().toString(36).slice(2, 8)\<close> are parameters. The DOM rendering calls
  (\<open>renderSidebar\<close>, \<open>renderHeader\<close>, \<open>renderMessages\<close>) change no state and
  are left out of the operations. \<open>src/src_old/main.ts\<close> has the same functions, with
  the same text, except that it has no \<open>deleteSession\<close> and no \<open>searchChat\<close>.
\<close>

subsection \<open>Data\<close>

datatype role = User | Assistant

record message =
  role :: role
  content :: js_string
  msg_created_at :: int

record chat_session =
  session_id :: js_string
  title :: js_string
  messages :: "message list"
  created_at :: int
  updated_at :: int

text \<open>
  What \<open>localStorage.getItem(SESSIONS_KEY)\<close> can hold, as \<open>loadSessions\<close> sees it:
  the empty string (falsy), a JSON array of sessions (what \<open>saveSessions\<close> writes),
  valid JSON that is not an array, or text \<open>JSON.parse\<close> rejects. \<open>None\<close> of the
  option is the absent key.
\<close>

datatype stored_blob =
    Empty_String
  | Sessions_Json "chat_session list"
  | Other_Json
  | Invalid_Json

record app =
  sessions :: "chat_session list"
  current_session_id :: "js_string option"
  is_sending :: bool
  user_input :: js_string
  stored_sessions :: "stored_blob option"

text \<open>The state of the module before \<open>DOMContentLoaded\<close>, over a given storage.\<close>

definition init_app :: "stored_blob option \<Rightarrow> app" where
  "init_app blob =
     \<lparr>sessions = [], current_session_id = None, is_sending = False, user_input = [],
      stored_sessions = blob\<rparr>"

text \<open>A failure that escapes a handler.\<close>

datatype app_error = Type_Error

subsection \<open>Constants of the source\<close>

definition new_chat_title :: js_string where
  "new_chat_title = [0x65B0, 0x3057, 0x3044, 0x30C1, 0x30E3, 0x30C3, 0x30C8]"

definition untitled_title :: js_string where
  "untitled_title = [0x7121, 0x984C, 0x306E, 0x30C1, 0x30E3, 0x30C3, 0x30C8]"

definition no_reply_text :: js_string where
  "no_reply_text = [0xFF08] @ js ''LM Studio '' @ [0x304B, 0x3089, 0x306E, 0x5FDC, 0x7B54,
     0x304C, 0x53D6, 0x5F97, 0x3067, 0x304D, 0x307E, 0x305B, 0x3093, 0x3067, 0x3057, 0x305F,
     0xFF09]"

definition upstream_error_text :: js_string where
  "upstream_error_text = js ''LM Studio '' @ [0x3078, 0x306E, 0x30EA, 0x30AF, 0x30A8, 0x30B9,
     0x30C8, 0x3067, 0x30A8, 0x30E9, 0x30FC, 0x304C, 0x767A, 0x751F, 0x3057, 0x307E, 0x3057,
     0x305F, 0x3002, 0xA, 0x30FB] @ js ''LM Studio '' @ [0x306E, 0x30B5, 0x30FC, 0x30D0,
     0x30FC, 0x304C, 0x8D77, 0x52D5, 0x3057, 0x3066, 0x3044, 0x308B, 0x304B, 0xA, 0x30FB,
     0x300C] @ js ''CORS '' @ [0x3092, 0x6709, 0x52B9, 0x306B, 0x3059, 0x308B, 0x300D,
     0x304C] @ js '' ON '' @ [0x304B, 0xA, 0x30FB] @ js ''API '' @ [0x30D9, 0x30FC, 0x30B9]
     @ js ''URL'' @ [0x3068, 0x30E2, 0x30C7, 0x30EB] @ js ''ID'' @ [0x304C, 0x6B63, 0x3057,
     0x3044, 0x304B, 0xA, 0x3092, 0x78BA, 0x8A8D, 0x3057, 0x3066, 0x304F, 0x3060, 0x3055,
     0x3044, 0x3002]"

subsection \<open>List helpers with the source's semantics\<close>

text \<open>\<open>sessions.find(s => s.id === id)\<close>.\<close>

definition find_session :: "js_string \<Rightarrow> chat_session list \<Rightarrow> chat_session option" where
  "find_session i ss = find (\<lambda>s. session_id s = i) ss"

text \<open>\<open>splice(findIndex(...), 1)\<close>: the first session with the id is removed.\<close>

fun remove_session :: "js_string \<Rightarrow> chat_session list \<Rightarrow> chat_session list" where
  "remove_session i [] = []"
| "remove_session i (s # ss) = (if session_id s = i then ss else s # remove_session i ss)"

text \<open>
  Mutating the object \<open>find\<close> returned: the first session with the id is replaced, the
  others are the same objects as before.
\<close>

fun update_session ::
  "js_string \<Rightarrow> (chat_session \<Rightarrow> chat_session) \<Rightarrow> chat_session list \<Rightarrow> chat_session list" where
  "update_session i f [] = []"
| "update_session i f (s # ss) =
     (if session_id s = i then f s # ss else s # update_session i f ss)"

text \<open>
  \<open>sessions.sort((a, b) => b.updatedAt - a.updatedAt)\<close>. \<open>Array.prototype.sort\<close>
  is stable, and a stable sort by a key is unique, so it is \<open>sort_key\<close> on the negated
  key (\<open>sort_key\<close> is the library's stable insertion sort).
\<close>

definition sort_by_recency :: "chat_session list \<Rightarrow> chat_session list" where
  "sort_by_recency ss = sort_key (\<lambda>s. - updated_at s) ss"

subsection \<open>Persistence\<close>

text \<open>\<open>saveSessions\<close>: the whole array is written as one JSON snapshot.\<close>

definition save_sessions :: "app \<Rightarrow> app" where
  "save_sessions st = st\<lparr>stored_sessions := Some (Sessions_Json (sessions st))\<rparr>"

subsection \<open>Creating, selecting and deleting sessions\<close>

text \<open>\<open>`session_${now}_${random}`\<close>.\<close>

definition new_session_id :: "int \<Rightarrow> js_string \<Rightarrow> js_string" where
  "new_session_id now rnd = js ''session_'' @ js_of_int now @ js ''_'' @ rnd"

definition new_session :: "js_string \<Rightarrow> int \<Rightarrow> js_string \<Rightarrow> chat_session" where
  "new_session t now rnd =
     \<lparr>session_id = new_session_id now rnd, title = t, messages = [], created_at = now,
      updated_at = now\<rparr>"

text \<open>\<open>createNewSession\<close>: \<open>unshift\<close>, then \<open>saveSessions\<close>; the session is returned.\<close>

definition create_new_session :: "js_string \<Rightarrow> int \<Rightarrow> js_string \<Rightarrow> app \<Rightarrow> chat_session \<times> app" where
  "create_new_session t now rnd st =
     (let s = new_session t now rnd
      in (s, save_sessions (st\<lparr>sessions := s # sessions st\<rparr>)))"

text \<open>The click handler of the new-chat button.\<close>

definition new_chat :: "int \<Rightarrow> js_string \<Rightarrow> app \<Rightarrow> app" where
  "new_chat now rnd st =
     (let (s, st') = create_new_session new_chat_title now rnd st
      in st'\<lparr>current_session_id := Some (session_id s)\<rparr>)"

definition get_current_session :: "app \<Rightarrow> chat_session option" where
  "get_current_session st =
     (case current_session_id st of None \<Rightarrow> None | Some i \<Rightarrow> find_session i (sessions st))"

definition select_session :: "js_string \<Rightarrow> app \<Rightarrow> app" where
  "select_session i st =
     (if current_session_id st = Some i then st else st\<lparr>current_session_id := Some i\<rparr>)"

text \<open>
  \<open>deleteSession\<close>: an unknown id returns before anything changes; otherwise the first
  session with the id is removed; an emptied list gets a fresh session, which is selected;
  deleting the selected session sorts the rest by recency and selects the first.
\<close>

definition delete_session :: "js_string \<Rightarrow> int \<Rightarrow> js_string \<Rightarrow> app \<Rightarrow> app" where
  "delete_session i now rnd st =
     (if find_session i (sessions st) = None then st
      else
        (let st1 = st\<lparr>sessions := remove_session i (sessions st)\<rparr>;
             st2 = (if sessions st1 = [] then
                      (let (s, st') = create_new_session new_chat_title now rnd st1
                       in st'\<lparr>current_session_id := Some (session_id s)\<rparr>)
                    else if current_session_id st1 = Some i then
                      (let ss = sort_by_recency (sessions st1)
                       in st1\<lparr>sessions := ss, current_session_id := Some (session_id (hd ss))\<rparr>)
                    else st1)
         in save_sessions st2))"

subsection \<open>Loading\<close>

text \<open>
  \<open>loadSessions\<close>. An absent key or the empty string leaves \<open>sessions\<close> as it was;
  unparsable text is caught and gives the empty list; valid JSON that is not an array is
  stored in \<open>sessions\<close> unchecked, and the next line (\<open>sessions.length\<close>,
  \<open>sessions.sort\<close> or \<open>sessions.unshift\<close>) throws outside the \<open>try\<close>. The
  arrays are taken to hold session objects.
\<close>

definition load_sessions :: "int \<Rightarrow> js_string \<Rightarrow> app \<Rightarrow> app_error + app" where
  "load_sessions now rnd st =
     (case stored_sessions st of
        Some Other_Json \<Rightarrow> Inl Type_Error
      | blob \<Rightarrow>
          (let ss = (case blob of Some (Sessions_Json xs) \<Rightarrow> xs
                                | Some Invalid_Json \<Rightarrow> []
                                | _ \<Rightarrow> sessions st);
               st1 = st\<lparr>sessions := ss\<rparr>
           in if ss = [] then
                (let (s, st') = create_new_session new_chat_title now rnd st1
                 in Inr (st'\<lparr>current_session_id := Some (session_id s)\<rparr>))
              else
                (let ss' = sort_by_recency ss
                 in Inr (st1\<lparr>sessions := ss', current_session_id := Some (session_id (hd ss'))\<rparr>))))"

subsection \<open>Search\<close>

text \<open>The query: \<open>keyword.trim().toLowerCase()\<close>.\<close>

definition search_query :: "js_string \<Rightarrow> js_string" where
  "search_query keyword = js_to_lower (js_trim keyword)"

text \<open>The \<open>filter\<close> callback of \<open>searchChat\<close>; an empty title is falsy.\<close>

definition session_matches :: "js_string \<Rightarrow> chat_session \<Rightarrow> bool" where
  "session_matches q s \<longleftrightarrow>
     (title s \<noteq> [] \<and> js_includes (js_to_lower (title s)) q)
     \<or> list_ex (\<lambda>m. js_includes (js_to_lower (content m)) q) (messages s)"

text \<open>
  What \<open>window.prompt\<close> gave back when several sessions match: nothing (cancelled or
  empty), a string whose \<open>Number\<close> is an integer, or one whose \<open>Number\<close> is not.
\<close>

datatype prompt_answer = No_Answer | Answer_Integer int | Answer_Not_Integer

datatype search_outcome =
    Search_Ignored | Search_No_Match | Search_Jumped | Search_Cancelled
  | Search_Bad_Number | Search_Chosen

definition search_chat :: "js_string \<Rightarrow> prompt_answer \<Rightarrow> app \<Rightarrow> search_outcome \<times> app" where
  "search_chat keyword answer st =
     (let q = search_query keyword in
      if q = [] then (Search_Ignored, st)
      else
        (let matched = filter (session_matches q) (sessions st) in
         if length matched = 0 then (Search_No_Match, st)
         else if length matched = 1 then
           (Search_Jumped, st\<lparr>current_session_id := Some (session_id (hd matched))\<rparr>)
         else
           (case answer of
              No_Answer \<Rightarrow> (Search_Cancelled, st)
            | Answer_Not_Integer \<Rightarrow> (Search_Bad_Number, st)
            | Answer_Integer n \<Rightarrow>
                if n < 1 \<or> n > int (length matched) then (Search_Bad_Number, st)
                else (Search_Chosen,
                      st\<lparr>current_session_id := Some (session_id (matched ! nat (n - 1)))\<rparr>))))"

subsection \<open>Sending a message\<close>

text \<open>\<open>text.replace(/\s+/g, " ")\<close>: every maximal run of white space becomes one space.\<close>

function collapse_ws :: "js_string \<Rightarrow> js_string" where
  "collapse_ws [] = []"
| "collapse_ws (c # cs) =
     (if is_js_space c then 0x20 # collapse_ws (dropWhile is_js_space cs)
      else c # collapse_ws cs)"
  by pat_completeness auto
termination
  by (relation "measure length") (auto simp: le_imp_less_Suc length_dropWhile_le)

text \<open>The title of a session's first message: 30 code units of the collapsed text.\<close>

definition derive_title :: "js_string \<Rightarrow> js_string" where
  "derive_title text = (let t = take 30 (collapse_ws text) in if t = [] then new_chat_title else t)"

text \<open>
  \<open>session.messages.push({role, content, createdAt: t}); session.updatedAt = t\<close>, the
  pair of statements both branches of \<open>handleSend\<close> run on the session object.
\<close>

definition push_message :: "role \<Rightarrow> js_string \<Rightarrow> int \<Rightarrow> chat_session \<Rightarrow> chat_session" where
  "push_message r text t s =
     s\<lparr>messages := messages s @ [\<lparr>role = r, content = text, msg_created_at = t\<rparr>],
       updated_at := t\<rparr>"

text \<open>The title update of a session's first message.\<close>

definition title_first_message :: "js_string \<Rightarrow> chat_session \<Rightarrow> chat_session" where
  "title_first_message text s =
     (if messages s = [] then s\<lparr>title := derive_title text\<rparr> else s)"

text \<open>
  \<open>handleSend\<close> up to its \<open>await\<close>: the guards, the title of a first message, the
  user message, the cleared input box, \<open>saveSessions\<close> and \<open>isSending = true\<close>.
  The second component is the id of the session object the suspended handler holds,
  \<open>None\<close> when the handler returned early.
\<close>

definition handle_send :: "int \<Rightarrow> app \<Rightarrow> app \<times> js_string option" where
  "handle_send now st =
     (if is_sending st then (st, None)
      else
        (case get_current_session st of
           None \<Rightarrow> (st, None)
         | Some s \<Rightarrow>
             (let text = js_trim (user_input st) in
              if text = [] then (st, None)
              else
                (let upd = (\<lambda>x. push_message User text now (title_first_message text x));
                     st1 = st\<lparr>sessions := update_session (session_id s) upd (sessions st),
                              user_input := []\<rparr>
                 in ((save_sessions st1)\<lparr>is_sending := True\<rparr>, Some (session_id s))))))"

text \<open>
  What \<open>sendToLmStudio\<close> delivered: it threw (a network error, a status that is not
  \<open>ok\<close>, a body that is not JSON), or it returned
  \<open>data.choices?.[0]?.message?.content\<close>, possibly missing.
\<close>

datatype completion = Completion_Failed | Completion "js_string option"

definition reply_text :: "completion \<Rightarrow> js_string" where
  "reply_text r =
     (case r of
        Completion_Failed \<Rightarrow> upstream_error_text
      | Completion None \<Rightarrow> no_reply_text
      | Completion (Some c) \<Rightarrow> c)"

text \<open>
  \<open>handleSend\<close> after its \<open>await\<close>, in the \<open>try\<close> or the \<open>catch\<close> branch and
  the \<open>finally\<close>: the assistant message goes to the session object the handler holds,
  found by its id, and the whole array is saved.
\<close>

definition finish_send :: "js_string \<Rightarrow> completion \<Rightarrow> int \<Rightarrow> app \<Rightarrow> app" where
  "finish_send sid r t2 st =
     (let st1 = st\<lparr>sessions :=
                   update_session sid (push_message Assistant (reply_text r) t2) (sessions st)\<rparr>
      in (save_sessions st1)\<lparr>is_sending := False\<rparr>)"

subsection \<open>Observations and invariants\<close>

text \<open>The order in which \<open>renderSidebar\<close> lists the sessions: a sorted copy.\<close>

definition list_by_recency :: "app \<Rightarrow> chat_session list" where
  "list_by_recency st = sort_by_recency (sessions st)"

text \<open>
  The store invariant of the specification: the selection is the id of a session of the
  list (so the list is not empty).
\<close>

definition current_ok :: "app \<Rightarrow> bool" where
  "current_ok st \<longleftrightarrow> list_ex (\<lambda>s. current_session_id st = Some (session_id s)) (sessions st)"

text \<open>The array a stored value holds, if it holds one.\<close>

fun stored_list :: "stored_blob option \<Rightarrow> chat_session list option" where
  "stored_list (Some (Sessions_Json xs)) = Some xs"
| "stored_list _ = None"

text \<open>The stored snapshot holds the sessions in memory (in some order).\<close>

definition persisted_ok :: "app \<Rightarrow> bool" where
  "persisted_ok st \<longleftrightarrow> map_option mset (stored_list (stored_sessions st)) = Some (mset (sessions st))"

lemmas store_defs = save_sessions_def create_new_session_def new_chat_def select_session_def
  delete_session_def get_current_session_def current_ok_def persisted_ok_def
  list_by_recency_def sort_by_recency_def find_session_def new_session_def

subsection \<open>Lemmas on the list helpers\<close>

lemma find_session_None_iff:
  "find_session i ss = None \<longleftrightarrow> \<not> list_ex (\<lambda>s. session_id s = i) ss"
  by (auto simp: find_session_def find_None_iff list_ex_iff)

lemma find_session_Some: "find_session i ss = Some s \<Longrightarrow> s \<in> set ss \<and> session_id s = i"
  by (auto simp: find_session_def find_Some_iff)

lemma set_remove_session: "set (remove_session i ss) \<subseteq> set ss"
  by (induction ss) auto

lemma remove_session_keeps:
  "x \<in> set ss \<Longrightarrow> session_id x \<noteq> i \<Longrightarrow> x \<in> set (remove_session i ss)"
  by (induction ss) auto

definition keeps_id :: "(chat_session \<Rightarrow> chat_session) \<Rightarrow> bool" where
  "keeps_id f \<longleftrightarrow> (\<forall>s. session_id (f s) = session_id s)"

lemma keeps_id_push_title [simp]:
  "keeps_id (push_message r t n)" "keeps_id (\<lambda>x. push_message r t n (title_first_message t' x))"
  by (simp_all add: keeps_id_def push_message_def title_first_message_def)

lemma update_session_ids:
  "keeps_id f \<Longrightarrow> map session_id (update_session i f ss) = map session_id ss"
  by (induction ss) (auto simp: keeps_id_def)

lemma list_ex_id_iff: "list_ex (\<lambda>s. session_id s = j) ss \<longleftrightarrow> j \<in> set (map session_id ss)"
  by (auto simp: list_ex_iff)

lemma list_ex_update_session:
  "keeps_id f \<Longrightarrow> list_ex (\<lambda>s. session_id s = j) (update_session i f ss)
     \<longleftrightarrow> list_ex (\<lambda>s. session_id s = j) ss"
  by (simp add: list_ex_id_iff update_session_ids)

lemma find_update_session:
  "keeps_id f \<Longrightarrow> find_session i (update_session i f ss) = map_option f (find_session i ss)"
  by (induction ss) (auto simp: find_session_def keeps_id_def)

lemma update_session_absent:
  "find_session i ss = None \<Longrightarrow> update_session i f ss = ss"
  by (induction ss) (auto simp: find_session_def)

lemma update_session_other:
  "keeps_id f \<Longrightarrow> j \<noteq> i \<Longrightarrow> find_session j (update_session i f ss) = find_session j ss"
  by (induction ss) (auto simp: find_session_def keeps_id_def)

subsection \<open>Lemmas on sorting\<close>

lemma sort_by_recency_sorted:
  "sorted_wrt (\<lambda>a b. updated_at b \<le> updated_at a) (sort_by_recency ss)"
  using sorted_sort_key [of "\<lambda>s. - updated_at s" ss]
  by (simp add: sort_by_recency_def sorted_map)

lemma sort_by_recency_mset [simp]: "mset (sort_by_recency ss) = mset ss"
  by (simp add: sort_by_recency_def)

lemma sort_by_recency_set [simp]: "set (sort_by_recency ss) = set ss"
  by (simp add: sort_by_recency_def)

lemma sort_by_recency_stable:
  "filter (\<lambda>s. updated_at s = t) (sort_by_recency ss) = filter (\<lambda>s. updated_at s = t) ss"
  using sort_key_stable [of "\<lambda>s. - updated_at s" "- t" ss]
  by (simp add: sort_by_recency_def)

lemma sort_by_recency_Nil [simp]: "sort_by_recency ss = [] \<longleftrightarrow> ss = []"
  by (metis sort_by_recency_set set_empty)

text \<open>The head of the sorted list: greatest \<open>updatedAt\<close>, first of its equals.\<close>

lemma hd_sort_by_recency:
  assumes "ss \<noteq> []"
  defines "c \<equiv> hd (sort_by_recency ss)"
  shows "c \<in> set ss" and "\<forall>y \<in> set ss. updated_at y \<le> updated_at c"
    and "c = hd (filter (\<lambda>y. updated_at y = updated_at c) ss)"
proof -
  let ?l = "sort_by_recency ss"
  from assms have ne: "?l \<noteq> []" by simp
  then obtain rest where l: "?l = c # rest" unfolding c_def by (cases ?l) auto
  have set_l: "set ss = insert c (set rest)"
    using l sort_by_recency_set [of ss] by simp
  then show "c \<in> set ss" by simp
  have "\<forall>y \<in> set rest. updated_at y \<le> updated_at c"
    using sort_by_recency_sorted [of ss] l by simp
  with set_l show "\<forall>y \<in> set ss. updated_at y \<le> updated_at c" by simp
  have "filter (\<lambda>y. updated_at y = updated_at c) ?l = c # filter (\<lambda>y. updated_at y = updated_at c) rest"
    by (simp add: l)
  then show "c = hd (filter (\<lambda>y. updated_at y = updated_at c) ss)"
    using sort_by_recency_stable [of "updated_at c" ss] by simp
qed

subsection \<open>Lemmas on titles\<close>

lemma collapse_ws_Nil_iff [simp]: "collapse_ws s = [] \<longleftrightarrow> s = []"
  by (cases s) auto

lemma collapse_ws_spaces: "list_all (\<lambda>c. is_js_space c \<longrightarrow> c = 0x20) (collapse_ws s)"
  by (induction s rule: collapse_ws.induct) auto

lemma collapse_ws_hd_dropWhile:
  "collapse_ws (dropWhile is_js_space cs) = c # r \<Longrightarrow> \<not> is_js_space c"
proof -
  assume eq: "collapse_ws (dropWhile is_js_space cs) = c # r"
  then obtain d ds where d: "dropWhile is_js_space cs = d # ds" by (cases "dropWhile is_js_space cs") auto
  then have "\<not> is_js_space d" by (metis hd_dropWhile list.distinct(1) list.sel(1))
  with eq d show ?thesis by simp
qed

lemma collapse_ws_single: "successively (\<lambda>a b. \<not> (is_js_space a \<and> is_js_space b)) (collapse_ws s)"
proof (induction s rule: collapse_ws.induct)
  case (2 c cs)
  show ?case
  proof (cases "is_js_space c")
    case True
    with "2.IH"(1) show ?thesis
      by (cases "collapse_ws (dropWhile is_js_space cs)")
         (auto simp: successively_Cons dest: collapse_ws_hd_dropWhile)
  next
    case False
    with "2.IH"(2) show ?thesis by (cases "collapse_ws cs") (auto simp: successively_Cons)
  qed
qed simp

lemma successively_take: "successively P xs \<Longrightarrow> successively P (take n xs)"
  by (metis append_take_drop_id successively_append_iff)

text \<open>The session a send goes to: found by its id after \<open>handleSend\<close>, with the message.\<close>

lemma handle_send_session:
  assumes "\<not> is_sending st" and "get_current_session st = Some s"
    and "js_trim (user_input st) \<noteq> []"
  shows "snd (handle_send now st) = Some (session_id s)
    \<and> find_session (session_id s) (sessions (fst (handle_send now st)))
        = Some (push_message User (js_trim (user_input st)) now
                  (title_first_message (js_trim (user_input st)) s))"
proof -
  have found: "find_session (session_id s) (sessions st) = Some s"
    using assms(2) find_session_Some [of _ "sessions st" s]
    by (auto simp: get_current_session_def split: option.splits)
  show ?thesis
    using assms found by (simp add: handle_send_def Let_def save_sessions_def find_update_session)
qed

subsection \<open>Properties of the store operations\<close>

text \<open>
  C2. Recency order: the sidebar lists every session once, by \<open>updatedAt\<close> from the
  most recent down, and sessions with equal \<open>updatedAt\<close> keep their order in the
  array (a stable sort).
\<close>

theorem list_by_recency_stable_sort:
  "mset (list_by_recency st) = mset (sessions st)
   \<and> sorted_wrt (\<lambda>a b. updated_at b \<le> updated_at a) (list_by_recency st)
   \<and> filter (\<lambda>s. updated_at s = t) (list_by_recency st) = filter (\<lambda>s. updated_at s = t) (sessions st)"
  by (simp add: list_by_recency_def sort_by_recency_sorted sort_by_recency_stable)

text \<open>
  C3. Deleting the only session leaves exactly one session, a fresh one, and selects it.
\<close>

theorem delete_only_session:
  assumes "sessions st = [x]"
  shows "sessions (delete_session (session_id x) now rnd st) = [new_session new_chat_title now rnd]
         \<and> current_session_id (delete_session (session_id x) now rnd st) = Some (new_session_id now rnd)"
  using assms by (simp add: store_defs Let_def)

theorem delete_only_session_witness:
  "sessions (delete_session (js ''a'') 7 (js ''r'')
     \<lparr>sessions = [new_session (js ''t'') 1 (js ''q'')\<lparr>session_id := js ''a''\<rparr>],
      current_session_id = Some (js ''a''), is_sending = False, user_input = [],
      stored_sessions = None\<rparr>) = [new_session new_chat_title 7 (js ''r'')]"
  using delete_only_session [of "\<lparr>sessions = [new_session (js ''t'') 1 (js ''q'')\<lparr>session_id := js ''a''\<rparr>],
      current_session_id = Some (js ''a''), is_sending = False, user_input = [],
      stored_sessions = None\<rparr>" "new_session (js ''t'') 1 (js ''q'')\<lparr>session_id := js ''a''\<rparr>" 7 "js ''r''"]
  by simp

text \<open>
  C4. Deleting the selected session selects, among the remaining sessions, one with the
  greatest \<open>updatedAt\<close>, and the first of those in the array.
\<close>

theorem delete_current_selects_recent:
  assumes "current_session_id st = Some i" and "list_ex (\<lambda>s. session_id s = i) (sessions st)"
    and "remove_session i (sessions st) \<noteq> []"
  shows "\<exists>c \<in> set (remove_session i (sessions st)).
           current_session_id (delete_session i now rnd st) = Some (session_id c)
           \<and> (\<forall>y \<in> set (remove_session i (sessions st)). updated_at y \<le> updated_at c)
           \<and> c = hd (filter (\<lambda>y. updated_at y = updated_at c) (remove_session i (sessions st)))"
proof -
  let ?r = "remove_session i (sessions st)"
  have found: "find_session i (sessions st) \<noteq> None"
    using assms(2) by (simp add: find_session_None_iff)
  have "current_session_id (delete_session i now rnd st) = Some (session_id (hd (sort_by_recency ?r)))"
    using assms(1,3) found by (auto simp: delete_session_def save_sessions_def Let_def)
  with hd_sort_by_recency [OF assms(3)] show ?thesis by blast
qed


theorem delete_current_selects_recent_witness:
  "current_session_id (delete_session (js ''a'') 9 (js ''r'')
     \<lparr>sessions = [(new_session [] 1 [])\<lparr>session_id := js ''a''\<rparr>,
                  (new_session [] 5 [])\<lparr>session_id := js ''b''\<rparr>,
                  (new_session [] 5 [])\<lparr>session_id := js ''c''\<rparr>],
      current_session_id = Some (js ''a''), is_sending = False, user_input = [],
      stored_sessions = None\<rparr>) = Some (js ''b'')"
  using delete_current_selects_recent [of
     "\<lparr>sessions = [(new_session [] 1 [])\<lparr>session_id := js ''a''\<rparr>,
                  (new_session [] 5 [])\<lparr>session_id := js ''b''\<rparr>,
                  (new_session [] 5 [])\<lparr>session_id := js ''c''\<rparr>],
      current_session_id = Some (js ''a''), is_sending = False, user_input = [],
      stored_sessions = None\<rparr>" "js ''a''" 9 "js ''r''"]
  by (simp add: store_defs js_lit)

text \<open>Deleting an id no session has changes nothing: deletion is idempotent.\<close>

theorem delete_unknown_noop:
  "\<not> list_ex (\<lambda>s. session_id s = i) (sessions st) \<Longrightarrow> delete_session i now rnd st = st"
  by (simp add: delete_session_def find_session_None_iff)

theorem delete_unknown_noop_witness:
  "delete_session (js ''b'') 3 [] (init_app None\<lparr>sessions := [new_session [] 1 (js ''a'')]\<rparr>)
     = init_app None\<lparr>sessions := [new_session [] 1 (js ''a'')]\<rparr>"
  using delete_unknown_noop [of "js ''b''" "init_app None\<lparr>sessions := [new_session [] 1 (js ''a'')]\<rparr>" 3 "[]"]
  by (simp add: init_app_def new_session_def new_session_id_def js_lit)

text \<open>
  C5. Sending from the input box: when no reply is pending, a session is selected and the
  trimmed input is not empty, the selected session (and no other) gets the title of a first
  message and the user message with \<open>updatedAt\<close> set to the send time; the input box
  is cleared, the array is saved, a reply is awaited for that session.
\<close>

theorem handle_send_appends:
  assumes "\<not> is_sending st" and "get_current_session st = Some s"
    and "js_trim (user_input st) \<noteq> []"
  defines "text \<equiv> js_trim (user_input st)"
  shows "snd (handle_send now st) = Some (session_id s)
    \<and> find_session (session_id s) (sessions (fst (handle_send now st)))
        = Some (push_message User text now (title_first_message text s))
    \<and> (\<forall>j. j \<noteq> session_id s \<longrightarrow>
          find_session j (sessions (fst (handle_send now st))) = find_session j (sessions st))
    \<and> user_input (fst (handle_send now st)) = []
    \<and> is_sending (fst (handle_send now st))
    \<and> stored_sessions (fst (handle_send now st))
        = Some (Sessions_Json (sessions (fst (handle_send now st))))"
proof -
  have found: "find_session (session_id s) (sessions st) = Some s"
    using assms(2) find_session_Some [of _ "sessions st" s]
    by (auto simp: get_current_session_def split: option.splits)
  show ?thesis
    using assms found
    by (simp add: handle_send_def Let_def save_sessions_def find_update_session update_session_other)
qed

theorem handle_send_appends_witness:
  "snd (handle_send 9 \<lparr>sessions = [new_session [] 1 (js ''a'')],
      current_session_id = Some (new_session_id 1 (js ''a'')), is_sending = False,
      user_input = js '' hi '', stored_sessions = None\<rparr>) = Some (new_session_id 1 (js ''a''))"
  using handle_send_appends [of "\<lparr>sessions = [new_session [] 1 (js ''a'')],
      current_session_id = Some (new_session_id 1 (js ''a'')), is_sending = False,
      user_input = js '' hi '', stored_sessions = None\<rparr>" "new_session [] 1 (js ''a'')" 9]
  by (simp add: get_current_session_def find_session_def new_session_def js_lit)

text \<open>
  C7. While a reply is pending, sending does nothing at all: no second message, no second
  request.
\<close>

theorem handle_send_busy: "is_sending st \<Longrightarrow> handle_send now st = (st, None)"
  by (simp add: handle_send_def)

theorem handle_send_busy_witness:
  "handle_send 5 (init_app None\<lparr>is_sending := True, user_input := js ''x''\<rparr>)
     = (init_app None\<lparr>is_sending := True, user_input := js ''x''\<rparr>, None)"
  using handle_send_busy [of "init_app None\<lparr>is_sending := True, user_input := js ''x''\<rparr>" 5]
  by (simp add: init_app_def)

text \<open>
  C6. When the reply arrives, the assistant message (the reply, the fallback text, or the
  diagnostic message when the request failed) is appended to the session that was selected
  when the message was sent, whatever was selected since; no other session changes, the
  array is saved and sending is enabled again.
\<close>

theorem finish_send_routes:
  assumes "find_session sid (sessions st) = Some s"
  shows "find_session sid (sessions (finish_send sid r t2 st))
           = Some (push_message Assistant (reply_text r) t2 s)
    \<and> (\<forall>j. j \<noteq> sid \<longrightarrow> find_session j (sessions (finish_send sid r t2 st)) = find_session j (sessions st))
    \<and> current_session_id (finish_send sid r t2 st) = current_session_id st
    \<and> \<not> is_sending (finish_send sid r t2 st)
    \<and> stored_sessions (finish_send sid r t2 st) = Some (Sessions_Json (sessions (finish_send sid r t2 st)))"
  using assms
  by (simp add: finish_send_def save_sessions_def find_update_session update_session_other)

theorem finish_send_routes_witness:
  "find_session (js ''b'') (sessions (finish_send (js ''b'') Completion_Failed 4
      (init_app None\<lparr>sessions := [(new_session [] 1 [])\<lparr>session_id := js ''b''\<rparr>]\<rparr>)))
   = Some (push_message Assistant upstream_error_text 4 ((new_session [] 1 [])\<lparr>session_id := js ''b''\<rparr>))"
  using finish_send_routes [of "js ''b''"
      "init_app None\<lparr>sessions := [(new_session [] 1 [])\<lparr>session_id := js ''b''\<rparr>]\<rparr>"
      "(new_session [] 1 [])\<lparr>session_id := js ''b''\<rparr>" Completion_Failed 4]
  by (simp add: init_app_def find_session_def reply_text_def)

text \<open>
  C26. Title of a first message: the text with every run of white space collapsed to one
  space, cut to 30 code units; it has no white space but single spaces. The placeholder
  fallback never applies to a non-empty text.
\<close>

theorem derive_title_spec:
  assumes "t \<noteq> []"
  shows "derive_title t = take 30 (collapse_ws t)
    \<and> length (derive_title t) \<le> 30
    \<and> list_all (\<lambda>c. is_js_space c \<longrightarrow> c = 0x20) (derive_title t)
    \<and> successively (\<lambda>a b. \<not> (is_js_space a \<and> is_js_space b)) (derive_title t)"
proof -
  have eq: "derive_title t = take 30 (collapse_ws t)"
    using assms by (simp add: derive_title_def Let_def)
  have "list_all (\<lambda>c. is_js_space c \<longrightarrow> c = 0x20) (take 30 (collapse_ws t))"
    using collapse_ws_spaces [of t] by (auto simp: list_all_iff dest: in_set_takeD)
  moreover have "successively (\<lambda>a b. \<not> (is_js_space a \<and> is_js_space b)) (take 30 (collapse_ws t))"
    by (rule successively_take [OF collapse_ws_single])
  ultimately show ?thesis using eq by simp
qed

theorem derive_title_spec_witness:
  "derive_title (js_trim (js ''  hello   world  '')) = js ''hello world''"
  using derive_title_spec [of "js ''hello   world''"]
  by (simp add: js_lit)

text \<open>
  A query that is empty after trimming is ignored: nothing is matched and nothing
  changes, whatever the store holds.
\<close>

theorem search_blank_query_ignored:
  "js_trim keyword = [] \<Longrightarrow> search_chat keyword answer st = (Search_Ignored, st)"
  by (simp add: search_chat_def search_query_def js_to_lower_def)

theorem search_blank_query_ignored_witness:
  "search_chat (js ''   '') No_Answer (init_app None) = (Search_Ignored, init_app None)"
  using search_blank_query_ignored [of "js ''   ''" No_Answer "init_app None"]
  by (simp add: js_lit)

text \<open>
  A single match is selected at once; its position is the one in the array, and the
  answer to the prompt plays no part.
\<close>

theorem search_single_match_selects:
  assumes "search_query keyword \<noteq> []"
    and "filter (session_matches (search_query keyword)) (sessions st) = [s]"
  shows "search_chat keyword answer st
           = (Search_Jumped, st\<lparr>current_session_id := Some (session_id s)\<rparr>)"
  using assms by (simp add: search_chat_def Let_def)

theorem search_single_match_selects_witness:
  "search_chat (js ''weather'') No_Answer
     (init_app None\<lparr>sessions := [(new_session (js ''Weather'') 1 (js ''a''))]\<rparr>)
   = (Search_Jumped, (init_app None\<lparr>sessions := [(new_session (js ''Weather'') 1 (js ''a''))]\<rparr>)
        \<lparr>current_session_id := Some (new_session_id 1 (js ''a''))\<rparr>)"
  using search_single_match_selects [of "js ''weather''"
      "init_app None\<lparr>sessions := [(new_session (js ''Weather'') 1 (js ''a''))]\<rparr>"
      "new_session (js ''Weather'') 1 (js ''a'')" No_Answer]
  by (simp add: search_query_def session_matches_def init_app_def new_session_def js_lit)

text \<open>
  C27. Loading recovers from an absent key, an empty string, unparsable text and an empty
  array alike: the store holds one fresh session, selected and saved.
\<close>

theorem load_sessions_recovers:
  assumes "blob = None \<or> blob = Some Empty_String \<or> blob = Some Invalid_Json
           \<or> blob = Some (Sessions_Json [])"
  shows "load_sessions now rnd (init_app blob)
    = Inr \<lparr>sessions = [new_session new_chat_title now rnd],
           current_session_id = Some (new_session_id now rnd), is_sending = False,
           user_input = [],
           stored_sessions = Some (Sessions_Json [new_session new_chat_title now rnd])\<rparr>"
  using assms
  by (auto simp: load_sessions_def init_app_def create_new_session_def save_sessions_def
                 new_session_def Let_def)

theorem load_sessions_recovers_witness:
  "load_sessions 3 (js ''z'') (init_app (Some Invalid_Json))
    = Inr \<lparr>sessions = [new_session new_chat_title 3 (js ''z'')],
           current_session_id = Some (new_session_id 3 (js ''z'')), is_sending = False,
           user_input = [],
           stored_sessions = Some (Sessions_Json [new_session new_chat_title 3 (js ''z'')])\<rparr>"
  using load_sessions_recovers [of "Some Invalid_Json" 3 "js ''z''"] by simp

subsection \<open>Behaviours the specification does not describe\<close>

text \<open>
  A stored value that is valid JSON but not an array (\<open>null\<close>, a number, an
  object, a string) is not caught: \<open>loadSessions\<close> throws a \<open>TypeError\<close> instead of
  falling back to an empty collection.
\<close>

theorem load_sessions_non_array_throws:
  "stored_sessions st = Some Other_Json \<Longrightarrow> load_sessions now rnd st = Inl Type_Error"
  by (simp add: load_sessions_def)

theorem load_sessions_non_array_throws_witness:
  "load_sessions 1 [] (init_app (Some Other_Json)) = Inl Type_Error"
  using load_sessions_non_array_throws [of "init_app (Some Other_Json)" 1 "[]"]
  by (simp add: init_app_def)

text \<open>
  C28. A reply that arrives after its session was deleted is dropped: the handler appends
  it to the detached object and saves an array without it.
\<close>

theorem finish_send_deleted_session_drops_reply:
  "find_session sid (sessions st) = None \<Longrightarrow>
   sessions (finish_send sid r t2 st) = sessions st \<and> \<not> is_sending (finish_send sid r t2 st)"
  by (simp add: finish_send_def save_sessions_def update_session_absent)

theorem finish_send_deleted_session_drops_reply_witness:
  "sessions (finish_send (js ''gone'') (Completion (Some (js ''hi''))) 5
      (init_app None\<lparr>sessions := [new_session [] 1 (js ''a'')], is_sending := True\<rparr>))
   = [new_session [] 1 (js ''a'')]"
  using finish_send_deleted_session_drops_reply [of "js ''gone''"
      "init_app None\<lparr>sessions := [new_session [] 1 (js ''a'')], is_sending := True\<rparr>"]
  by (simp add: init_app_def find_session_def new_session_def new_session_id_def js_lit)

text \<open>
  A whitespace-only message is not sent: the handler returns before the session, its
  title or the input box change.
\<close>

theorem handle_send_blank_ignored:
  "js_trim (user_input st) = [] \<Longrightarrow> handle_send now st = (st, None)"
  by (simp add: handle_send_def split: option.splits)

theorem handle_send_blank_ignored_witness:
  "handle_send 2 (init_app None\<lparr>sessions := [new_session [] 1 []],
      current_session_id := Some (new_session_id 1 []), user_input := js '' \<newline> ''\<rparr>)
   = (init_app None\<lparr>sessions := [new_session [] 1 []],
      current_session_id := Some (new_session_id 1 []), user_input := js '' \<newline> ''\<rparr>, None)"
  using handle_send_blank_ignored [of "init_app None\<lparr>sessions := [new_session [] 1 []],
      current_session_id := Some (new_session_id 1 []), user_input := js '' \<newline> ''\<rparr>" 2]
  by (simp add: init_app_def js_lit)

text \<open>
  The 30-unit cut counts UTF-16 code units, so a character outside the Basic
  Multilingual Plane at the cut leaves half a surrogate pair at the end of the title.
\<close>

theorem derive_title_splits_surrogate_pair:
  "derive_title (js ''aaaaaaaaaaaaaaaaaaaaaaaaaaaaa'' @ [0xD83D, 0xDE00])
     = js ''aaaaaaaaaaaaaaaaaaaaaaaaaaaaa'' @ [0xD83D]"
  by (simp add: derive_title_def js_lit)

text \<open>
  The multiple-match list of the search follows the order of the array, not the
  recency order: here answer 1 selects the older session, though the sidebar lists the
  newer one first.
\<close>

theorem search_order_is_array_order:
  "search_chat (js ''x'') (Answer_Integer 1)
      (init_app None\<lparr>sessions := [new_session (js ''x'') 1 (js ''a''), new_session (js ''x'') 2 (js ''b'')]\<rparr>)
    = (Search_Chosen,
       init_app None\<lparr>sessions := [new_session (js ''x'') 1 (js ''a''), new_session (js ''x'') 2 (js ''b'')],
                     current_session_id := Some (new_session_id 1 (js ''a''))\<rparr>)
   \<and> hd (list_by_recency (init_app None\<lparr>sessions :=
        [new_session (js ''x'') 1 (js ''a''), new_session (js ''x'') 2 (js ''b'')]\<rparr>))
      = new_session (js ''x'') 2 (js ''b'')"
  by (simp add: search_chat_def search_query_def session_matches_def list_by_recency_def
      sort_by_recency_def init_app_def new_session_def js_lit Let_def)

end
