(* ===== verification/Store_Machine.thy ===== *)
theory Store_Machine
  imports Sessions
begin

text \<open>
  The session store as a machine driven by the events of \<open>src/src/main.ts\<close>: the
  handlers that \<open>setupEvents\<close> and \<open>renderSidebar\<close> install, and the resumption of
  \<open>handleSend\<close> when the request it awaits settles. The state pairs the module state
  with the suspended \<open>handleSend\<close>: the id of the session object it holds, or
  \<open>None\<close> when no request is pending. Each event carries what the environment
  provides: \<open>Date.now()\<close>, the random id suffix, a typed text, the prompt's answer, the
  outcome of the request. The run starts with \<open>loadSessions\<close> at
  \<open>DOMContentLoaded\<close>, over whatever the storage holds.
\<close>

record sys =
  app_st :: app
  pending :: "js_string option"

datatype event =
    New_Chat int js_string
  | Delete js_string int js_string
  | Select js_string
  | Search js_string prompt_answer
  | Type_Input js_string
  | Send int
  | Reply completion int

fun step :: "sys \<Rightarrow> event \<Rightarrow> sys" where
  "step s (New_Chat now rnd) = s\<lparr>app_st := new_chat now rnd (app_st s)\<rparr>"
| "step s (Delete i now rnd) = s\<lparr>app_st := delete_session i now rnd (app_st s)\<rparr>"
| "step s (Select i) = s\<lparr>app_st := select_session i (app_st s)\<rparr>"
| "step s (Search k a) = s\<lparr>app_st := snd (search_chat k a (app_st s))\<rparr>"
| "step s (Type_Input t) = s\<lparr>app_st := (app_st s)\<lparr>user_input := t\<rparr>\<rparr>"
| "step s (Send now) =
     (let (st', p) = handle_send now (app_st s)
      in \<lparr>app_st = st', pending = (case p of None \<Rightarrow> pending s | Some i \<Rightarrow> Some i)\<rparr>)"
| "step s (Reply r t2) =
     (case pending s of
        None \<Rightarrow> s
      | Some sid \<Rightarrow> \<lparr>app_st = finish_send sid r t2 (app_st s), pending = None\<rparr>)"

text \<open>
  When an event can happen: the sidebar offers only listed sessions; a reply needs a
  pending request; the clock does not run behind the stored timestamps; and a generated id
  (time and random suffix) is not the id of a session of the store or of the pending
  request. The last two are assumptions on the environment: \<open>Date.now()\<close> is not
  monotonic and the suffix is random.
\<close>

definition clock_ok :: "int \<Rightarrow> sys \<Rightarrow> bool" where
  "clock_ok t s \<longleftrightarrow> list_all (\<lambda>x. updated_at x \<le> t) (sessions (app_st s))"

text \<open>A time no stored \<open>updatedAt\<close> exceeds: the clock may always reach it.\<close>

definition clock_bound :: "chat_session list \<Rightarrow> int" where
  "clock_bound ss = foldr (\<lambda>x m. max (updated_at x) m) ss 0"

definition fresh_id :: "js_string \<Rightarrow> sys \<Rightarrow> bool" where
  "fresh_id i s \<longleftrightarrow> \<not> list_ex (\<lambda>x. session_id x = i) (sessions (app_st s)) \<and> pending s \<noteq> Some i"

fun event_ok :: "sys \<Rightarrow> event \<Rightarrow> bool" where
  "event_ok s (New_Chat now rnd) \<longleftrightarrow> clock_ok now s \<and> fresh_id (new_session_id now rnd) s"
| "event_ok s (Delete i now rnd) \<longleftrightarrow> clock_ok now s \<and> fresh_id (new_session_id now rnd) s"
| "event_ok s (Select i) \<longleftrightarrow> list_ex (\<lambda>x. session_id x = i) (sessions (app_st s))"
| "event_ok s (Search k a) \<longleftrightarrow> True"
| "event_ok s (Type_Input t) \<longleftrightarrow> True"
| "event_ok s (Send now) \<longleftrightarrow> clock_ok now s"
| "event_ok s (Reply r t2) \<longleftrightarrow> pending s \<noteq> None \<and> clock_ok t2 s"

inductive reachable :: "stored_blob option \<Rightarrow> sys \<Rightarrow> bool" where
  start: "load_sessions now rnd (init_app blob) = Inr st \<Longrightarrow>
          reachable blob \<lparr>app_st = st, pending = None\<rparr>"
| step: "reachable blob s \<Longrightarrow> event_ok s e \<Longrightarrow> reachable blob (step s e)"

subsection \<open>Invariants of single operations\<close>

lemma current_ok_user_input [simp]: "current_ok (st\<lparr>user_input := t\<rparr>) = current_ok st"
  by (simp add: current_ok_def)

lemma current_ok_iff:
  "current_ok st \<longleftrightarrow> (\<exists>x \<in> set (sessions st). current_session_id st = Some (session_id x))"
  by (simp add: current_ok_def list_ex_iff)

lemma current_ok_new_chat: "current_ok (new_chat now rnd st)"
  by (simp add: new_chat_def create_new_session_def save_sessions_def current_ok_def Let_def)

lemma current_ok_select:
  "list_ex (\<lambda>x. session_id x = i) (sessions st) \<Longrightarrow> current_ok (select_session i st)"
  by (auto simp: select_session_def current_ok_iff list_ex_iff)

lemma current_ok_delete: "current_ok st \<Longrightarrow> current_ok (delete_session i now rnd st)"
proof -
  assume ok: "current_ok st"
  then obtain x where x: "x \<in> set (sessions st)" and j: "current_session_id st = Some (session_id x)"
    by (auto simp: current_ok_iff)
  let ?r = "remove_session i (sessions st)"
  show ?thesis
  proof (cases "find_session i (sessions st) = None")
    case True
    with ok show ?thesis by (simp add: delete_session_def)
  next
    case False
    show ?thesis
    proof (cases "?r = []")
      case True
      with False show ?thesis
        by (auto simp: delete_session_def create_new_session_def save_sessions_def current_ok_def
            Let_def)
    next
      case ne: False
      show ?thesis
      proof (cases "session_id x = i")
        case True
        from ne have "hd (sort_by_recency ?r) \<in> set (sort_by_recency ?r)"
          by (simp del: sort_by_recency_set)
        with False ne True j show ?thesis
          by (auto simp: delete_session_def save_sessions_def current_ok_iff Let_def)
      next
        case other: False
        with x have "x \<in> set ?r" by (auto intro: remove_session_keeps)
        with False ne other j show ?thesis
          by (auto simp: delete_session_def save_sessions_def current_ok_iff Let_def)
      qed
    qed
  qed
qed

lemma current_ok_search: "current_ok st \<Longrightarrow> current_ok (snd (search_chat k a st))"
proof -
  assume ok: "current_ok st"
  let ?m = "filter (session_matches (search_query k)) (sessions st)"
  have hd_m: "?m \<noteq> [] \<Longrightarrow> hd ?m \<in> set (sessions st)"
    using hd_in_set [of ?m] by auto
  have nth_m: "n < length ?m \<Longrightarrow> ?m ! n \<in> set (sessions st)" for n
    using nth_mem [of n ?m] by auto
  show ?thesis
    using ok hd_m nth_m [of "nat (_ - 1)"]
    by (auto simp: search_chat_def current_ok_iff Let_def split: prompt_answer.splits)
qed

lemma sessions_ids_handle_send:
  "map session_id (sessions (fst (handle_send now st))) = map session_id (sessions st)"
  by (simp add: handle_send_def Let_def save_sessions_def update_session_ids split: option.splits)

lemma sessions_ids_finish_send:
  "map session_id (sessions (finish_send sid r t2 st)) = map session_id (sessions st)"
  by (simp add: finish_send_def Let_def save_sessions_def update_session_ids)

lemma current_ok_ids:
  "map session_id (sessions st') = map session_id (sessions st) \<Longrightarrow>
   current_session_id st' = current_session_id st \<Longrightarrow> current_ok st \<Longrightarrow> current_ok st'"
  by (simp add: current_ok_def list_ex_iff) (metis image_iff list.set_map)

lemma current_ok_handle_send: "current_ok st \<Longrightarrow> current_ok (fst (handle_send now st))"
  by (rule current_ok_ids [OF sessions_ids_handle_send])
     (simp_all add: handle_send_def Let_def save_sessions_def split: option.splits)

lemma current_ok_finish_send: "current_ok st \<Longrightarrow> current_ok (finish_send sid r t2 st)"
  by (rule current_ok_ids [OF sessions_ids_finish_send])
     (simp_all add: finish_send_def Let_def save_sessions_def)

lemma list_ex_hd: "xs \<noteq> [] \<Longrightarrow> list_ex (\<lambda>s. f (hd xs) = f s) xs"
  by (cases xs) auto

lemma current_ok_load: "load_sessions now rnd st = Inr st' \<Longrightarrow> current_ok st'"
  by (auto simp: load_sessions_def create_new_session_def save_sessions_def current_ok_def
      Let_def list_ex_hd split: option.splits stored_blob.splits if_splits)

lemma app_st_step_send: "app_st (step s (Send now)) = fst (handle_send now (app_st s))"
  by (simp add: case_prod_beta)

lemma pending_step_send:
  "pending (step s (Send now)) =
     (case snd (handle_send now (app_st s)) of None \<Rightarrow> pending s | Some i \<Rightarrow> Some i)"
  by (simp add: case_prod_beta)

lemmas step_send_simps = app_st_step_send pending_step_send

declare step.simps(6) [simp del]

text \<open>The selection invariant is kept by every event that can happen.\<close>

lemma current_ok_step:
  "current_ok (app_st s) \<Longrightarrow> event_ok s e \<Longrightarrow> current_ok (app_st (step s e))"
  by (cases e)
     (auto simp: step_send_simps current_ok_new_chat current_ok_select current_ok_delete
        current_ok_search current_ok_handle_send current_ok_finish_send split: option.splits)

subsubsection \<open>Persistence\<close>

lemma persisted_ok_save [simp]: "persisted_ok (save_sessions st)"
  by (simp add: persisted_ok_def save_sessions_def)

lemma persisted_ok_fields [simp]:
  "persisted_ok (st\<lparr>current_session_id := c\<rparr>) = persisted_ok st"
  "persisted_ok (st\<lparr>is_sending := b\<rparr>) = persisted_ok st"
  "persisted_ok (st\<lparr>user_input := t\<rparr>) = persisted_ok st"
  by (simp_all add: persisted_ok_def)

lemma persisted_ok_step:
  "persisted_ok (app_st s) \<Longrightarrow> persisted_ok (app_st (step s e))"
proof (cases e)
  case (New_Chat now rnd)
  then show ?thesis by (simp add: new_chat_def create_new_session_def Let_def)
next
  case (Delete i now rnd)
  assume ok: "persisted_ok (app_st s)"
  with Delete show ?thesis by (simp add: delete_session_def Let_def case_prod_beta)
next
  case (Send now)
  assume ok: "persisted_ok (app_st s)"
  with Send show ?thesis
    by (simp add: step_send_simps handle_send_def Let_def split: option.splits)
next
  case (Reply r t2)
  assume ok: "persisted_ok (app_st s)"
  with Reply show ?thesis by (simp add: finish_send_def Let_def split: option.splits)
qed (auto simp: select_session_def search_chat_def Let_def split: prompt_answer.splits)

lemma persisted_ok_load:
  "load_sessions now rnd (init_app blob) = Inr st \<Longrightarrow> persisted_ok st"
  by (auto simp: load_sessions_def init_app_def create_new_session_def Let_def persisted_ok_def
      save_sessions_def split: option.splits stored_blob.splits if_splits)

subsubsection \<open>The pending request and the send button\<close>

definition sending_ok :: "sys \<Rightarrow> bool" where
  "sending_ok s \<longleftrightarrow> (is_sending (app_st s) \<longleftrightarrow> pending s \<noteq> None)"

lemma is_sending_handle_send:
  "snd (handle_send now st) = None \<Longrightarrow> is_sending (fst (handle_send now st)) = is_sending st"
  "snd (handle_send now st) \<noteq> None \<Longrightarrow> is_sending (fst (handle_send now st)) \<and> \<not> is_sending st"
  by (auto simp: handle_send_def Let_def save_sessions_def split: option.splits if_splits)

lemma sending_ok_step: "sending_ok s \<Longrightarrow> sending_ok (step s e)"
proof (cases e)
  case (Send now)
  assume ok: "sending_ok s"
  show ?thesis
  proof (cases "snd (handle_send now (app_st s))")
    case None
    with ok Send is_sending_handle_send(1) [of now "app_st s"] show ?thesis
      by (simp add: sending_ok_def step_send_simps)
  next
    case (Some i)
    with Send is_sending_handle_send(2) [of now "app_st s"] show ?thesis
      by (simp add: sending_ok_def step_send_simps)
  qed
next
  case (Reply r t2)
  assume ok: "sending_ok s"
  with Reply show ?thesis
    by (auto simp: sending_ok_def finish_send_def Let_def save_sessions_def split: option.splits)
qed (auto simp: sending_ok_def new_chat_def create_new_session_def save_sessions_def Let_def
       select_session_def delete_session_def search_chat_def case_prod_beta
       split: prompt_answer.splits)

lemma sending_ok_load:
  "load_sessions now rnd (init_app blob) = Inr st \<Longrightarrow> sending_ok \<lparr>app_st = st, pending = None\<rparr>"
  by (auto simp: sending_ok_def load_sessions_def init_app_def create_new_session_def
      save_sessions_def Let_def split: option.splits stored_blob.splits if_splits)

lemma clock_ok_bound: "clock_ok (clock_bound (sessions (app_st s))) s"
proof -
  have "list_all (\<lambda>x. updated_at x \<le> clock_bound ss) ss" for ss
    by (induction ss) (auto simp: clock_bound_def list_all_iff)
  then show ?thesis by (simp add: clock_ok_def)
qed

subsubsection \<open>Distinct ids and timestamps\<close>

definition sessions_wf :: "chat_session list \<Rightarrow> bool" where
  "sessions_wf ss \<longleftrightarrow> distinct (map session_id ss) \<and> list_all (\<lambda>x. created_at x \<le> updated_at x) ss"

text \<open>What the stored array must satisfy for the store to start well-formed.\<close>

definition stored_wf :: "stored_blob option \<Rightarrow> bool" where
  "stored_wf blob \<longleftrightarrow> (case stored_list blob of None \<Rightarrow> True | Some xs \<Rightarrow> sessions_wf xs)"

lemma push_message_fields [simp]:
  "session_id (push_message r c t x) = session_id x"
  "created_at (push_message r c t x) = created_at x"
  "updated_at (push_message r c t x) = t"
  by (simp_all add: push_message_def)

lemma title_first_message_fields [simp]:
  "session_id (title_first_message c x) = session_id x"
  "created_at (title_first_message c x) = created_at x"
  "updated_at (title_first_message c x) = updated_at x"
  by (simp_all add: title_first_message_def)

lemma sessions_wf_update:
  assumes "sessions_wf ss" and "list_all (\<lambda>x. updated_at x \<le> t) ss"
    and "\<And>x. session_id (f x) = session_id x \<and> created_at (f x) = created_at x \<and> updated_at (f x) = t"
  shows "sessions_wf (update_session i f ss)"
proof -
  have ids: "map session_id (update_session i f ss) = map session_id ss"
    using assms(3) by (simp add: update_session_ids keeps_id_def)
  have "list_all (\<lambda>x. created_at x \<le> updated_at x) (update_session i f ss)"
    using assms by (induction ss) (auto simp: sessions_wf_def)
  with ids assms(1) show ?thesis by (simp add: sessions_wf_def)
qed

lemma map_id_remove_session: "map session_id (remove_session i ss) = remove1 i (map session_id ss)"
  by (induction ss) auto

lemma sessions_wf_remove: "sessions_wf ss \<Longrightarrow> sessions_wf (remove_session i ss)"
  using set_remove_session [of i ss]
  by (auto simp: sessions_wf_def map_id_remove_session list_all_iff)

lemma sessions_wf_sort: "sessions_wf (sort_by_recency ss) = sessions_wf ss"
proof -
  have "mset (map session_id (sort_by_recency ss)) = mset (map session_id ss)" by simp
  then have "distinct (map session_id (sort_by_recency ss)) = distinct (map session_id ss)"
    by (rule mset_eq_imp_distinct_iff)
  then show ?thesis by (simp add: sessions_wf_def list_all_iff)
qed

lemma sessions_wf_new:
  "sessions_wf ss \<Longrightarrow> \<not> list_ex (\<lambda>x. session_id x = new_session_id now rnd) ss \<Longrightarrow>
   sessions_wf (new_session t now rnd # ss)"
  by (auto simp: sessions_wf_def new_session_def list_ex_iff)

lemma sessions_wf_single [simp]: "sessions_wf [x] \<longleftrightarrow> created_at x \<le> updated_at x"
  by (simp add: sessions_wf_def)

lemma sessions_wf_step:
  assumes "sessions_wf (sessions (app_st s))" and "event_ok s e"
  shows "sessions_wf (sessions (app_st (step s e)))"
proof (cases e)
  case (New_Chat now rnd)
  with assms show ?thesis
    by (simp add: new_chat_def create_new_session_def save_sessions_def Let_def fresh_id_def
        sessions_wf_new)
next
  case (Delete i now rnd)
  have r: "sessions_wf (remove_session i (sessions (app_st s)))"
    using assms(1) by (rule sessions_wf_remove)
  with Delete assms show ?thesis
    by (auto simp: delete_session_def create_new_session_def save_sessions_def Let_def
        fresh_id_def sessions_wf_sort case_prod_beta new_session_def)
next
  case (Send now)
  with assms show ?thesis
    by (auto simp: step_send_simps handle_send_def Let_def save_sessions_def clock_ok_def
        intro!: sessions_wf_update split: option.splits)
next
  case (Reply r t2)
  with assms show ?thesis
    by (auto simp: finish_send_def Let_def save_sessions_def clock_ok_def
        intro!: sessions_wf_update split: option.splits)
qed (use assms in \<open>auto simp: select_session_def search_chat_def Let_def split: prompt_answer.splits\<close>)

lemma sessions_wf_load:
  "stored_wf blob \<Longrightarrow> load_sessions now rnd (init_app blob) = Inr st \<Longrightarrow> sessions_wf (sessions st)"
  by (auto simp: load_sessions_def init_app_def create_new_session_def save_sessions_def Let_def
      stored_wf_def sessions_wf_sort new_session_def
      split: option.splits stored_blob.splits if_splits)

subsection \<open>Invariants of every reachable state\<close>

text \<open>A state reached by loading an empty storage (used by the witnesses below).\<close>

lemma reachable_loaded_empty:
  "reachable None \<lparr>app_st = \<lparr>sessions = [new_session new_chat_title 1 (js ''r'')],
             current_session_id = Some (new_session_id 1 (js ''r'')), is_sending = False,
             user_input = [],
             stored_sessions = Some (Sessions_Json [new_session new_chat_title 1 (js ''r'')])\<rparr>, pending = None\<rparr>"
  by (rule reachable.start [of 1 "js ''r''"])
     (simp add: load_sessions_def init_app_def create_new_session_def save_sessions_def
       new_session_def Let_def)

lemma reachable_new_chat_after_load:
  "reachable None (step \<lparr>app_st = \<lparr>sessions = [new_session new_chat_title 1 (js ''r'')],
             current_session_id = Some (new_session_id 1 (js ''r'')), is_sending = False,
             user_input = [],
             stored_sessions = Some (Sessions_Json [new_session new_chat_title 1 (js ''r'')])\<rparr>, pending = None\<rparr> (New_Chat 5 (js ''x'')))"
  by (rule reachable.step [OF reachable_loaded_empty])
     (simp add: clock_ok_def fresh_id_def new_session_def new_session_id_def js_of_int_def
       js_of_nat.simps js_lit)

text \<open>
  C1. In every reachable state the selection is the id of a session of the list; in
  particular the list is never empty.
\<close>

theorem reachable_current_ok: "reachable blob s \<Longrightarrow> current_ok (app_st s)"
proof (induction rule: reachable.induct)
  case (start now rnd blob st)
  then show ?case by (simp add: current_ok_load)
next
  case (step blob s e)
  then show ?case by (simp add: current_ok_step)
qed

theorem reachable_current_ok_witness:
  "current_ok (app_st (step \<lparr>app_st = \<lparr>sessions = [new_session new_chat_title 1 (js ''r'')],
             current_session_id = Some (new_session_id 1 (js ''r'')), is_sending = False,
             user_input = [],
             stored_sessions = Some (Sessions_Json [new_session new_chat_title 1 (js ''r'')])\<rparr>, pending = None\<rparr> (New_Chat 5 (js ''x''))))"
  using reachable_current_ok [OF reachable_new_chat_after_load] .

text \<open>
  C8. In every reachable state the stored snapshot holds exactly the sessions in memory
  (as a multiset): no structural change is left unsaved.
\<close>

theorem reachable_persisted_ok: "reachable blob s \<Longrightarrow> persisted_ok (app_st s)"
proof (induction rule: reachable.induct)
  case (start now rnd blob st)
  then show ?case by (simp add: persisted_ok_load)
next
  case (step blob s e)
  then show ?case by (simp add: persisted_ok_step)
qed

theorem reachable_persisted_ok_witness:
  "persisted_ok (app_st (step \<lparr>app_st = \<lparr>sessions = [new_session new_chat_title 1 (js ''r'')],
             current_session_id = Some (new_session_id 1 (js ''r'')), is_sending = False,
             user_input = [],
             stored_sessions = Some (Sessions_Json [new_session new_chat_title 1 (js ''r'')])\<rparr>, pending = None\<rparr> (New_Chat 5 (js ''x''))))"
  using reachable_persisted_ok [OF reachable_new_chat_after_load] .

text \<open>
  C9. In every reachable state the send button is disabled exactly while a request is
  pending.
\<close>

theorem reachable_sending_ok: "reachable blob s \<Longrightarrow> sending_ok s"
proof (induction rule: reachable.induct)
  case (start now rnd blob st)
  then show ?case by (rule sending_ok_load)
next
  case (step blob s e)
  then show ?case by (simp add: sending_ok_step)
qed

theorem reachable_sending_ok_witness:
  "sending_ok (step \<lparr>app_st = \<lparr>sessions = [new_session new_chat_title 1 (js ''r'')],
             current_session_id = Some (new_session_id 1 (js ''r'')), is_sending = False,
             user_input = [],
             stored_sessions = Some (Sessions_Json [new_session new_chat_title 1 (js ''r'')])\<rparr>, pending = None\<rparr> (New_Chat 5 (js ''x'')))"
  using reachable_sending_ok [OF reachable_new_chat_after_load] .

text \<open>
  C10. Started from well-formed stored data, and with the clock and the random ids
  behaving, every reachable state has distinct session ids and every session has
  \<open>createdAt \<le> updatedAt\<close>.
\<close>

theorem reachable_sessions_wf:
  "stored_wf blob \<Longrightarrow> reachable blob s \<Longrightarrow> sessions_wf (sessions (app_st s))"
proof -
  have "reachable b t \<Longrightarrow> stored_wf b \<longrightarrow> sessions_wf (sessions (app_st t))" for b t
  proof (induction rule: reachable.induct)
    case (start now rnd blob st)
    then show ?case using sessions_wf_load by simp
  next
    case (step blob s e)
    then show ?case by (simp add: sessions_wf_step)
  qed
  then show "stored_wf blob \<Longrightarrow> reachable blob s \<Longrightarrow> sessions_wf (sessions (app_st s))"
    by blast
qed

theorem reachable_sessions_wf_witness:
  "sessions_wf (sessions (app_st (step \<lparr>app_st = \<lparr>sessions = [new_session new_chat_title 1 (js ''r'')],
             current_session_id = Some (new_session_id 1 (js ''r'')), is_sending = False,
             user_input = [],
             stored_sessions = Some (Sessions_Json [new_session new_chat_title 1 (js ''r'')])\<rparr>, pending = None\<rparr> (New_Chat 5 (js ''x'')))))"
  using reachable_sessions_wf [OF _ reachable_new_chat_after_load] by (simp add: stored_wf_def)

text \<open>
  C17. Liveness of the send button: from every reachable state some event that can happen
  (the reply arriving, or any typing when nothing is pending) leads to a reachable state in
  which no request is pending and sending is enabled; the client never stays stuck with
  the button disabled.
\<close>

theorem reachable_send_reenabled:
  assumes "reachable blob s"
  shows "\<exists>e. event_ok s e \<and> reachable blob (step s e)
             \<and> \<not> is_sending (app_st (step s e)) \<and> pending (step s e) = None"
proof -
  have ok: "sending_ok s"
    using assms by (induction rule: reachable.induct) (simp_all add: sending_ok_load sending_ok_step)
  show ?thesis
  proof (cases "pending s")
    case None
    let ?e = "Type_Input (user_input (app_st s))"
    have "step s ?e = s" by simp
    with None ok assms show ?thesis
      by (intro exI [of _ ?e]) (simp add: sending_ok_def)
  next
    case (Some sid)
    let ?e = "Reply Completion_Failed (clock_bound (sessions (app_st s)))"
    have "event_ok s ?e" using Some clock_ok_bound by simp
    moreover have "\<not> is_sending (app_st (step s ?e)) \<and> pending (step s ?e) = None"
      using Some by (simp add: finish_send_def)
    ultimately show ?thesis
      using assms by (blast intro: reachable.step)
  qed
qed

theorem reachable_send_reenabled_witness:
  "\<exists>e. event_ok \<lparr>app_st = \<lparr>sessions = [new_session new_chat_title 1 (js ''r'')],
             current_session_id = Some (new_session_id 1 (js ''r'')), is_sending = False,
             user_input = [],
             stored_sessions = Some (Sessions_Json [new_session new_chat_title 1 (js ''r'')])\<rparr>, pending = None\<rparr> e
       \<and> \<not> is_sending (app_st (step \<lparr>app_st = \<lparr>sessions = [new_session new_chat_title 1 (js ''r'')],
             current_session_id = Some (new_session_id 1 (js ''r'')), is_sending = False,
             user_input = [],
             stored_sessions = Some (Sessions_Json [new_session new_chat_title 1 (js ''r'')])\<rparr>, pending = None\<rparr> e))"
  using reachable_send_reenabled [OF reachable_loaded_empty] by blast

end
