(* ===== verification/Settings.thy ===== *)
theory Settings
  imports Complex_Main Prelude
begin

text \<open>
  The settings of \<open>src/src/main.ts\<close>: the \<open>Settings\<close> object and its defaults,
  \<open>loadSettings\<close> and \<open>saveSettings\<close> over the settings key of \<open>localStorage\<close>,
  \<open>updateSettingsFromInputs\<close> (the form of the settings panel), the model picked from the
  model dropdown, \<open>getModelDisplayName\<close>, \<open>buildApiUrl\<close> and the request body that
  \<open>sendToLmStudio\<close> builds from the settings and a session's messages.

  JavaScript numbers of the settings are modelled as \<open>real\<close> (the temperature) and
  \<open>int\<close> (\<open>maxTokens\<close>, always an integer). \<open>parseInt(s, 10)\<close> is modelled on
  the code units of the box; the number \<open>parseFloat\<close> reads from the temperature box is an
  input of the form (\<open>None\<close> for \<open>NaN\<close>). The box of \<open>maxTokens\<close> receives
  what \<open>Number.prototype.toString\<close> prints: plain digits below \<open>10\<^sup>21\<close>, exponent
  form from there on (\<open>js_number_of_int\<close>), which \<open>parseInt\<close> reads only up to the
  first digit.
\<close>

record settings =
  api_base_url :: js_string
  model_id :: js_string
  system_prompt :: js_string
  temperature :: real
  max_tokens :: "int option"

text \<open>\<open>DEFAULT_SETTINGS\<close>; the model id and the system prompt as their code units.\<close>

definition default_system_prompt :: js_string where
  "default_system_prompt =
     [0x3042, 0x306A, 0x305F, 0x306F, 0x65E5, 0x672C, 0x8A9E, 0x3067, 0x4E01, 0x5BE7, 0x306B,
      0x56DE, 0x7B54, 0x3059, 0x308B, 0x30A2, 0x30B7, 0x30B9, 0x30BF, 0x30F3, 0x30C8, 0x3067,
      0x3059, 0x3002]"

definition default_settings :: settings where
  "default_settings =
     \<lparr>api_base_url = js ''http://localhost:1234/v1'', model_id = js ''mistralai/ministral-3-3b'',
      system_prompt = default_system_prompt, temperature = 7 / 10, max_tokens = None\<rparr>"

subsection \<open>Persistence\<close>

text \<open>
  A parsed settings value is \<open>Partial<Settings>\<close>: each key present or absent. A JSON
  value that is not an object spreads no key of \<open>Settings\<close>, so it is the value with
  every key absent.
\<close>

record partial_settings =
  p_api_base_url :: "js_string option"
  p_model_id :: "js_string option"
  p_system_prompt :: "js_string option"
  p_temperature :: "real option"
  p_max_tokens :: "int option option"

text \<open>What \<open>localStorage.getItem(SETTINGS_KEY)\<close> returned, as \<open>loadSettings\<close> sees it.\<close>

datatype settings_blob = Settings_Empty_String | Settings_Json partial_settings | Settings_Invalid_Json

text \<open>\<open>{ ...DEFAULT_SETTINGS, ...parsed }\<close>: a key of \<open>parsed\<close> overrides the default.\<close>

definition merge_settings :: "settings \<Rightarrow> partial_settings \<Rightarrow> settings" where
  "merge_settings d p =
     \<lparr>api_base_url = case_option (api_base_url d) id (p_api_base_url p),
      model_id = case_option (model_id d) id (p_model_id p),
      system_prompt = case_option (system_prompt d) id (p_system_prompt p),
      temperature = case_option (temperature d) id (p_temperature p),
      max_tokens = case_option (max_tokens d) id (p_max_tokens p)\<rparr>"

text \<open>
  \<open>loadSettings\<close>: an absent key, the empty string and unparsable text give the
  defaults; in every case the temperature and \<open>maxTokens\<close> are then reset to theirs.
\<close>

definition load_settings :: "settings_blob option \<Rightarrow> settings" where
  "load_settings b =
     (let s = (case b of
                 Some (Settings_Json p) \<Rightarrow> merge_settings default_settings p
               | _ \<Rightarrow> default_settings)
      in s\<lparr>temperature := temperature default_settings, max_tokens := max_tokens default_settings\<rparr>)"

text \<open>\<open>saveSettings\<close>: \<open>JSON.stringify(settings)\<close> writes every key.\<close>

definition save_settings :: "settings \<Rightarrow> settings_blob" where
  "save_settings s =
     Settings_Json \<lparr>p_api_base_url = Some (api_base_url s), p_model_id = Some (model_id s),
                    p_system_prompt = Some (system_prompt s), p_temperature = Some (temperature s),
                    p_max_tokens = Some (max_tokens s)\<rparr>"

subsection \<open>The settings form\<close>

text \<open>\<open>parseInt(s, 10)\<close>: leading white space, an optional sign, the longest run of decimal
  digits; \<open>NaN\<close> (here \<open>None\<close>) when there is no digit.\<close>

definition is_digit :: "code_unit \<Rightarrow> bool" where
  "is_digit c \<longleftrightarrow> 0x30 \<le> c \<and> c \<le> 0x39"

definition digits_value :: "js_string \<Rightarrow> int" where
  "digits_value ds = foldl (\<lambda>n d. 10 * n + (uint d - 48)) 0 ds"

definition js_parse_int :: "js_string \<Rightarrow> int option" where
  "js_parse_int s =
     (let t = dropWhile is_js_space s;
          (neg, r) = (if take 1 t = [0x2D] then (True, drop 1 t)
                      else if take 1 t = [0x2B] then (False, drop 1 t) else (False, t));
          ds = takeWhile is_digit r
      in if ds = [] then None else Some (if neg then - digits_value ds else digits_value ds))"

text \<open>The values of the five input boxes when the form is read.\<close>

record settings_inputs =
  api_base_url_value :: js_string
  model_id_value :: js_string
  system_prompt_value :: js_string
  temperature_parsed :: "real option"
  max_tokens_value :: js_string

text \<open>\<open>x.trim() || d\<close>: the empty string is falsy.\<close>

definition trim_or :: "js_string \<Rightarrow> js_string \<Rightarrow> js_string" where
  "trim_or v d = (if js_trim v = [] then d else js_trim v)"

definition clamp_temperature :: "real option \<Rightarrow> real" where
  "clamp_temperature t =
     (case t of None \<Rightarrow> temperature default_settings | Some x \<Rightarrow> max 0 (min 2 x))"

definition parse_max_tokens :: "js_string \<Rightarrow> int option" where
  "parse_max_tokens v =
     (let raw = js_trim v in
      if raw = [] then None
      else (case js_parse_int raw of None \<Rightarrow> None | Some n \<Rightarrow> if n \<le> 0 then None else Some n))"

definition update_settings_from_inputs :: "settings_inputs \<Rightarrow> settings \<Rightarrow> settings" where
  "update_settings_from_inputs inp s =
     s\<lparr>api_base_url := trim_or (api_base_url_value inp) (api_base_url default_settings),
       model_id := trim_or (model_id_value inp) (model_id default_settings),
       system_prompt := trim_or (system_prompt_value inp) (system_prompt default_settings),
       temperature := clamp_temperature (temperature_parsed inp),
       max_tokens := parse_max_tokens (max_tokens_value inp)\<rparr>"

subsection \<open>Header label and request URL\<close>

text \<open>
  \<open>getModelDisplayName\<close>: the part of the model id after its last slash, or the whole id
  when that part is empty; the placeholder when no model id is set.
\<close>

definition model_unset_text :: js_string where
  "model_unset_text = [0x672A, 0x8A2D, 0x5B9A]"

definition get_model_display_name :: "settings \<Rightarrow> js_string" where
  "get_model_display_name s =
     (let raw = model_id s in
      if raw = [] then model_unset_text
      else (let last_part = last (js_split 0x2F raw) in if last_part = [] then raw else last_part))"

text \<open>\<open>buildApiUrl\<close>: \<open>replace(/\/$/, "")\<close> removes one slash at the very end.\<close>

definition build_api_url :: "settings \<Rightarrow> js_string \<Rightarrow> js_string" where
  "build_api_url s path =
     (let base = (if js_ends_with (api_base_url s) [0x2F] then butlast (api_base_url s)
                  else api_base_url s)
      in base @ path)"

subsection \<open>Settings events\<close>

text \<open>
  The settings state: the module variable \<open>settings\<close> and the stored value of its key.
  The handlers that change it are the save and test buttons (both read the form and call
  \<open>saveSettings\<close>) and a click in the model dropdown.
\<close>

record settings_state =
  cur_settings :: settings
  stored_settings :: "settings_blob option"

datatype settings_event = Save_Click settings_inputs | Test_Click settings_inputs | Pick_Model js_string

definition store_settings :: "settings \<Rightarrow> settings_state \<Rightarrow> settings_state" where
  "store_settings s st = st\<lparr>cur_settings := s, stored_settings := Some (save_settings s)\<rparr>"

fun settings_step :: "settings_state \<Rightarrow> settings_event \<Rightarrow> settings_state" where
  "settings_step st (Save_Click inp) =
     store_settings (update_settings_from_inputs inp (cur_settings st)) st"
| "settings_step st (Test_Click inp) =
     store_settings (update_settings_from_inputs inp (cur_settings st)) st"
| "settings_step st (Pick_Model i) = store_settings ((cur_settings st)\<lparr>model_id := i\<rparr>) st"

text \<open>Start-up calls \<open>loadSettings\<close>; then any sequence of settings events.\<close>

inductive settings_reachable :: "settings_blob option \<Rightarrow> settings_state \<Rightarrow> bool" where
  init: "settings_reachable b \<lparr>cur_settings = load_settings b, stored_settings = b\<rparr>"
| step: "settings_reachable b st \<Longrightarrow> settings_reachable b (settings_step st e)"

text \<open>The range the code keeps: a temperature in \<open>[0, 2]\<close>, no \<open>maxTokens\<close> below 1.\<close>

definition settings_ok :: "settings \<Rightarrow> bool" where
  "settings_ok s \<longleftrightarrow> 0 \<le> temperature s \<and> temperature s \<le> 2 \<and> pred_option (\<lambda>n. 0 < n) (max_tokens s)"

text \<open>
  \<open>applySettingsToInputs\<close>: the settings written into the five boxes. The temperature
  box holds \<open>temperature.toString()\<close>, which \<open>parseFloat\<close> reads back as the same
  number (the ECMAScript conversion of a finite number round-trips), so the form's parsed
  temperature is the setting itself.
\<close>

text \<open>
  \<open>Number.prototype.toString()\<close> of an integer (ECMAScript \<open>Number::toString\<close>):
  below \<open>10\<^sup>21\<close> in magnitude the decimal digits; from \<open>10\<^sup>21\<close> on the exponent form
  \<open>d[.ddd]e+k\<close>, with the significant digits (trailing zeros dropped) and \<open>k\<close> the
  number of digits less one. The integer stands for the double of the same value.
\<close>

definition js_number_of_int :: "int \<Rightarrow> js_string" where
  "js_number_of_int n =
     (if \<bar>n\<bar> < 10 ^ 21 then js_of_int n
      else
        (let ds = js_of_nat (nat \<bar>n\<bar>);
             sig = rev (dropWhile (\<lambda>c. c = 0x30) (rev ds))
         in (if n < 0 then js ''-'' else []) @ [hd sig]
            @ (if tl sig = [] then [] else 0x2E # tl sig)
            @ js ''e+'' @ js_of_nat (length ds - 1)))"

definition apply_settings_to_inputs :: "settings \<Rightarrow> settings_inputs" where
  "apply_settings_to_inputs s =
     \<lparr>api_base_url_value = api_base_url s, model_id_value = model_id s,
      system_prompt_value = system_prompt s, temperature_parsed = Some (temperature s),
      max_tokens_value = (case max_tokens s of None \<Rightarrow> [] | Some n \<Rightarrow> js_number_of_int n)\<rparr>"


subsection \<open>Lemmas\<close>

lemma parse_max_tokens_pos: "pred_option (\<lambda>n. 0 < n) (parse_max_tokens v)"
  by (auto simp: parse_max_tokens_def Let_def split: option.split)

lemma clamp_temperature_range: "0 \<le> clamp_temperature t \<and> clamp_temperature t \<le> 2"
  by (auto simp: clamp_temperature_def default_settings_def split: option.split)

lemma settings_ok_update: "settings_ok (update_settings_from_inputs inp s)"
  by (simp add: settings_ok_def update_settings_from_inputs_def clamp_temperature_range
      parse_max_tokens_pos)

lemma settings_ok_load: "settings_ok (load_settings b)"
  by (simp add: settings_ok_def load_settings_def Let_def default_settings_def)

lemma cur_settings_store [simp]: "cur_settings (store_settings s st) = s"
  by (simp add: store_settings_def)

lemma stored_settings_store [simp]: "stored_settings (store_settings s st) = Some (save_settings s)"
  by (simp add: store_settings_def)

lemma settings_ok_pick [simp]: "settings_ok (s\<lparr>model_id := i\<rparr>) = settings_ok s"
  by (simp add: settings_ok_def)


lemma uint_digit: "k < 10 \<Longrightarrow> uint (word_of_nat (48 + k) :: code_unit) = 48 + int k"
  by (simp only: uint_nat unat_of_nat) simp

lemma js_of_nat_digits: "\<forall>d \<in> set (js_of_nat n). is_digit d"
proof (induction n rule: js_of_nat.induct)
  case (1 n)
  have d: "is_digit (word_of_nat (48 + k))" if "k < 10" for k :: nat
    using that uint_digit [OF that] by (simp del: of_nat_add add: is_digit_def word_le_def)
  show ?case
    using 1 d [of n] d [of "n mod 10"] by (subst js_of_nat.simps) (auto simp del: of_nat_add)
qed


lemma js_of_nat_not_Nil [simp]: "js_of_nat n \<noteq> []"
  by (subst js_of_nat.simps) simp

lemma digit_not_space: "is_digit d \<Longrightarrow> \<not> is_js_space d \<and> d \<noteq> 0x2D \<and> d \<noteq> 0x2B"
  by (auto simp: is_digit_def is_js_space_def word_le_nat_alt)







lemma parse_max_tokens_Nil [simp]: "parse_max_tokens [] = None"
  by (simp add: parse_max_tokens_def js_trim_def)



lemma js_of_nat_hd: "0 < n \<Longrightarrow> hd (js_of_nat n) \<noteq> 0x30"
proof (induction n rule: js_of_nat.induct)
  case (1 n)
  show ?case
  proof (cases "n < 10")
    case True
    then have "uint (hd (js_of_nat n)) = 48 + int n"
      by (subst js_of_nat.simps) (simp del: of_nat_add add: uint_digit)
    with "1.prems" show ?thesis by auto
  next
    case False
    then have "hd (js_of_nat n) = hd (js_of_nat (n div 10))"
      by (subst js_of_nat.simps) simp
    with 1 False show ?thesis by simp
  qed
qed

lemma dropWhile_hd_id: "xs \<noteq> [] \<Longrightarrow> \<not> P (hd xs) \<Longrightarrow> dropWhile P xs = xs"
  by (cases xs) auto

lemma js_trim_ends:
  "s \<noteq> [] \<Longrightarrow> \<not> is_js_space (hd s) \<Longrightarrow> \<not> is_js_space (last s) \<Longrightarrow> js_trim s = s"
  by (simp add: js_trim_def dropWhile_hd_id hd_rev)

lemma digit_bounds: "is_digit d \<Longrightarrow> 48 \<le> uint d \<and> uint d \<le> 57"
  by (simp add: is_digit_def word_le_def)

text \<open>
  A \<open>maxTokens\<close> of \<open>10\<^sup>21\<close> or more is shown in exponent form, and \<open>parseInt\<close>
  reads only its first digit.
\<close>

lemma parse_max_tokens_exponent:
  assumes big: "10 ^ 21 \<le> n"
  shows "\<exists>d. 1 \<le> d \<and> d \<le> 9 \<and> parse_max_tokens (js_number_of_int n) = Some d"
proof -
  define ds where "ds = js_of_nat (nat n)"
  define sig where "sig = rev (dropWhile (\<lambda>c. c = 0x30) (rev ds))"
  define rest where "rest = (if tl sig = [] then [] else 0x2E # tl sig) @ js ''e+'' @ js_of_nat (length ds - 1)"
  have split: "ds = sig @ rev (takeWhile (\<lambda>c. c = 0x30) (rev ds))"
    unfolding sig_def by (metis rev_append rev_rev_ident takeWhile_dropWhile_id)
  have pos: "0 < nat n" using big by simp
  have hd0: "hd ds \<noteq> 0x30" using js_of_nat_hd [OF pos] by (simp add: ds_def)
  have "sig \<noteq> []"
  proof
    assume "sig = []"
    then have "ds = rev (takeWhile (\<lambda>c. c = 0x30) (rev ds))" using split by simp
    then have "\<forall>c \<in> set ds. c = 0x30" by (metis set_rev set_takeWhileD)
    with hd0 show False by (simp add: ds_def)
  qed
  then have hd: "hd sig = hd ds" by (subst split) simp
  have dig: "is_digit (hd ds)" using js_of_nat_digits [of "nat n"] by (simp add: ds_def)
  have str: "js_number_of_int n = hd ds # rest"
    using big hd by (simp add: js_number_of_int_def ds_def sig_def rest_def Let_def)
  have rest_hd: "hd rest \<in> {0x2E, 0x65}" by (simp add: rest_def js_lit)
  have rest_ne: "rest \<noteq> []" by (simp add: rest_def js_lit)
  have "is_digit (last (js_of_nat (length ds - 1)))"
    using js_of_nat_digits [of "length ds - 1"] by simp
  then have last_d: "is_digit (last (hd ds # rest))" by (simp add: rest_def)
  have nd: "\<not> is_digit (hd rest)" using rest_hd by (auto simp: is_digit_def)
  have trim: "js_trim (hd ds # rest) = hd ds # rest"
    using dig last_d by (intro js_trim_ends) (simp_all add: digit_not_space)
  have tw: "takeWhile is_digit (hd ds # rest) = [hd ds]"
    using dig nd rest_ne by (cases rest) auto
  have "js_parse_int (hd ds # rest) = Some (uint (hd ds) - 48)"
    using dig tw digit_not_space [OF dig] by (simp add: js_parse_int_def digits_value_def)
  moreover have "uint (hd ds) \<noteq> uint (0x30 :: code_unit)"
    using hd0 by (simp only: word_uint_eq_iff) simp
  then have "49 \<le> uint (hd ds)" using digit_bounds [OF dig] by simp
  ultimately show ?thesis
    using digit_bounds [OF dig] str trim by (simp add: parse_max_tokens_def)
qed


subsection \<open>Properties\<close>

text \<open>
  C12. The settings the client runs with always have a temperature in \<open>[0, 2]\<close> and a
  \<open>maxTokens\<close> that is absent or positive: after start-up and after any sequence of
  saves, connection tests and model picks, whatever was stored and typed.
\<close>

theorem settings_reachable_ok: "settings_reachable b st \<Longrightarrow> settings_ok (cur_settings st)"
proof (induction rule: settings_reachable.induct)
  case (init b)
  then show ?case by (simp add: settings_ok_load)
next
  case (step b st e)
  then show ?case by (cases e) (simp_all add: settings_ok_update)
qed

theorem settings_reachable_ok_witness:
  "settings_reachable None
     (settings_step \<lparr>cur_settings = load_settings None, stored_settings = None\<rparr> (Pick_Model (js ''m'')))
   \<and> settings_ok (cur_settings
     (settings_step \<lparr>cur_settings = load_settings None, stored_settings = None\<rparr> (Pick_Model (js ''m''))))"
  using settings_reachable_ok
    settings_reachable.step [OF settings_reachable.init [of None], of "Pick_Model (js ''m'')"]
  by blast

text \<open>
  C13. Reloading saved settings keeps the server URL, the model and the system prompt but
  not the temperature and \<open>maxTokens\<close>: \<open>loadSettings\<close> resets both to their defaults
  whatever was saved.
\<close>

theorem settings_reload_resets_sampling:
  "load_settings (Some (save_settings s)) = s\<lparr>temperature := 7 / 10, max_tokens := None\<rparr>"
  by (simp add: load_settings_def save_settings_def merge_settings_def default_settings_def)

text \<open>
  The model label: for a model id that is set and does not end with a slash, the label
  is the part after the last slash, a suffix of the id with no slash in it.
\<close>

theorem model_display_name_last_segment:
  assumes "model_id s \<noteq> []" and "\<not> js_ends_with (model_id s) [0x2F]"
  shows "(\<exists>p. model_id s = p @ get_model_display_name s \<and> (p = [] \<or> last p = 0x2F))
         \<and> 0x2F \<notin> set (get_model_display_name s)"
proof -
  define l where "l = last (js_split 0x2F (model_id s))"
  obtain p where p: "model_id s = p @ l" "p = [] \<or> last p = 0x2F"
    using js_split_last [where s = "model_id s" and d = "0x2F"] unfolding l_def [symmetric] by blast
  have "l \<noteq> []"
  proof
    assume "l = []"
    with p assms(1) have "last (model_id s) = 0x2F" by auto
    with assms show False by (simp add: js_ends_with_single)
  qed
  moreover have "0x2F \<notin> set l"
    using js_split_pieces_no_sep [where p = l and d = "0x2F" and s = "model_id s"] by (simp add: l_def)
  moreover have "get_model_display_name s = l"
    using assms(1) \<open>l \<noteq> []\<close> by (simp add: get_model_display_name_def Let_def l_def [symmetric])
  ultimately show ?thesis
    using p by auto
qed

theorem model_display_name_last_segment_witness:
  "model_id default_settings \<noteq> [] \<and> \<not> js_ends_with (model_id default_settings) [0x2F]
   \<and> get_model_display_name default_settings = js ''ministral-3-3b''"
  using model_display_name_last_segment [of default_settings]
  by (simp add: default_settings_def get_model_display_name_def js_lit)

text \<open>
  Request URLs: one slash at the end of the base URL is dropped, so a base with or
  without it gives the same URL; of two slashes one is kept.
\<close>

theorem build_api_url_trailing_slash:
  assumes "\<not> js_ends_with u [0x2F]"
  shows "build_api_url (s\<lparr>api_base_url := u\<rparr>) p = u @ p
    \<and> build_api_url (s\<lparr>api_base_url := u @ [0x2F]\<rparr>) p = u @ p
    \<and> build_api_url (s\<lparr>api_base_url := u @ [0x2F, 0x2F]\<rparr>) p = u @ [0x2F] @ p"
  using assms by (simp add: build_api_url_def js_ends_with_single butlast_append) blast

theorem build_api_url_trailing_slash_witness:
  "\<not> js_ends_with (js ''http://h/v1'') [0x2F]
   \<and> build_api_url (default_settings\<lparr>api_base_url := js ''http://h/v1/''\<rparr>) (js ''/models'')
       = js ''http://h/v1/models''"
  using build_api_url_trailing_slash [of "js ''http://h/v1''" default_settings "js ''/models''"]
  by (simp add: js_lit)



text \<open>
  C15. A \<open>maxTokens\<close> of \<open>10\<^sup>21\<close> or more does not survive the form: the form shows
  it in exponent form (\<open>1e+21\<close>), so saving the form unchanged stores its first digit,
  a limit between 1 and 9.
\<close>

theorem max_tokens_exponent_collapses:
  assumes "max_tokens s = Some n" and "10 ^ 21 \<le> n"
  shows "\<exists>d. 1 \<le> d \<and> d \<le> 9
    \<and> max_tokens (update_settings_from_inputs (apply_settings_to_inputs s) s) = Some d"
  using parse_max_tokens_exponent [OF assms(2)] assms(1)
  by (auto simp: update_settings_from_inputs_def apply_settings_to_inputs_def)

theorem max_tokens_exponent_collapses_witness:
  "\<exists>d. 1 \<le> d \<and> d \<le> 9 \<and> max_tokens (update_settings_from_inputs
       (apply_settings_to_inputs (default_settings\<lparr>max_tokens := Some (10 ^ 21)\<rparr>))
       (default_settings\<lparr>max_tokens := Some (10 ^ 21)\<rparr>)) = Some d"
  by (rule max_tokens_exponent_collapses [of _ "10 ^ 21"]) (simp_all only: order_refl, simp)

end
