(* ===== verification/Segmenter.thy ===== *)
theory Segmenter
  imports Prelude
begin

text \<open>
  The mixed-content renderer \<open>renderMessageContentWithTables\<close>
  (\<open>src/unnamed/part_000\<close>, imported by \<open>src/src/main.ts\<close> as
  \<open>markdownTableRenderer\<close>). The source writes the parsed blocks into DOM nodes;
  the model returns the same blocks as a list of \<open>segment\<close>s: a \<open><p>\<close> whose
  \<open>textContent\<close> is set is a \<open>Prose\<close> segment, a \<open><table>\<close> is a \<open>Table\<close>
  segment holding the \<open>textContent\<close> of its header cells and of its body rows.
  Each local helper of the source is one definition, and the outer \<open>while\<close> loop over
  the line index \<open>i\<close> is a recursion over the remaining lines \<open>drop i lines\<close>.
\<close>

datatype segment =
    Prose js_string
  | Table "js_string list" "js_string list list"

subsection \<open>Inline markdown stripping\<close>

text \<open>
  \<open>s.replace(/\*\*(.+?)\*\*/g, "$1")\<close>. After an opening \<open>**\<close>,
  \<open>bold_scan\<close> looks for the shortest non-empty run of code units other than line
  terminators that is followed by \<open>**\<close> (the lazy \<open>.+?\<close>); it returns the run
  and the text after the closing marker.
\<close>

fun bold_scan :: "js_string \<Rightarrow> js_string \<Rightarrow> (js_string \<times> js_string) option" where
  "bold_scan acc [] = None"
| "bold_scan acc (c # cs) =
     (if is_line_terminator c then None
      else if take 2 cs = [0x2A, 0x2A] then Some (acc @ [c], drop 2 cs)
      else bold_scan (acc @ [c]) cs)"

lemma bold_scan_shorter: "bold_scan acc xs = Some (m, r) \<Longrightarrow> length r < length xs"
  by (induction acc xs rule: bold_scan.induct) (auto split: if_splits)

text \<open>
  The global replacement scans left to right: at a match it emits the captured text and
  resumes after the match; elsewhere it copies one code unit and moves on.
\<close>

function strip_bold :: "js_string \<Rightarrow> js_string" where
  "strip_bold [] = []"
| "strip_bold (c # cs) =
     (if c = 0x2A \<and> take 1 cs = [0x2A] then
        (case bold_scan [] (drop 1 cs) of
           Some (m, rest) \<Rightarrow> m @ strip_bold rest
         | None \<Rightarrow> c # strip_bold cs)
      else c # strip_bold cs)"
  by pat_completeness auto
termination
  by (relation "measure length") (auto dest!: bold_scan_shorter)

text \<open>
  \<open>s.replace(/`([^`]+)`/g, "$1")\<close>: the greedy \<open>[^`]+\<close> takes every code unit up
  to the next backquote, so a match needs a non-empty run and a closing backquote.
\<close>

function strip_code :: "js_string \<Rightarrow> js_string" where
  "strip_code [] = []"
| "strip_code (c # cs) =
     (let m = takeWhile (\<lambda>x. x \<noteq> 0x60) cs; rest = dropWhile (\<lambda>x. x \<noteq> 0x60) cs in
      if c = 0x60 \<and> m \<noteq> [] \<and> rest \<noteq> [] then m @ strip_code (tl rest)
      else c # strip_code cs)"
  by pat_completeness auto
termination
  by (relation "measure length")
     (auto simp: Let_def less_Suc_eq_le intro: le_trans [OF diff_le_self length_dropWhile_le])

text \<open>\<open>stripInlineMarkdown\<close>: the bold pass first, then the code pass.\<close>

definition strip_inline_markdown :: "js_string \<Rightarrow> js_string" where
  "strip_inline_markdown s = strip_code (strip_bold s)"

subsection \<open>Rows and separator lines\<close>

definition pipe :: js_string where
  "pipe = [0x7C]"

text \<open>\<open>splitMarkdownRow\<close>: one leading and one trailing pipe are dropped, in that order.\<close>

definition split_markdown_row :: "js_string \<Rightarrow> js_string list" where
  "split_markdown_row line =
     (let work = js_trim line;
          work = (if js_starts_with work pipe then drop 1 work else work);
          work = (if js_ends_with work pipe then butlast work else work)
      in map (\<lambda>cell. strip_inline_markdown (js_trim cell)) (js_split 0x7C work))"

text \<open>\<open>isTableSeparatorLine\<close>: \<open>t.replace(/[|\s:\-]/g, "")\<close> deletes single code units.\<close>

definition is_sep_char :: "code_unit \<Rightarrow> bool" where
  "is_sep_char c \<longleftrightarrow> c = 0x7C \<or> is_js_space c \<or> c = 0x3A \<or> c = 0x2D"

definition is_table_separator_line :: "js_string \<Rightarrow> bool" where
  "is_table_separator_line line =
     (let t = js_trim line in
      if \<not> js_starts_with t pipe then False
      else (let stripped = filter (\<lambda>c. \<not> is_sep_char c) t
            in length stripped = 0 \<and> 0x2D \<in> set t))"

subsection \<open>The line loop\<close>

text \<open>The guard of the table branch, also the stop condition of the prose loop.\<close>

fun is_table_start :: "js_string list \<Rightarrow> bool" where
  "is_table_start (l # l' # ls) \<longleftrightarrow>
     js_starts_with (js_trim l) pipe \<and> is_table_separator_line l'"
| "is_table_start _ \<longleftrightarrow> False"

definition is_blank :: "js_string \<Rightarrow> bool" where
  "is_blank l \<longleftrightarrow> js_trim l = []"

text \<open>The inner \<open>while\<close> over body rows: the lines it consumes and the lines left.\<close>

fun table_body :: "js_string list \<Rightarrow> js_string list \<times> js_string list" where
  "table_body [] = ([], [])"
| "table_body (l # ls) =
     (if \<not> js_starts_with (js_trim l) pipe \<or> is_table_separator_line l \<or> js_trim l = []
      then ([], l # ls)
      else (let (rows, rest) = table_body ls in (l # rows, rest)))"

text \<open>
  The inner \<open>while\<close> that collects \<open>normalLines\<close>: it stops before a table start,
  or at a blank line once a line has been collected.
\<close>

fun prose_run :: "js_string list \<Rightarrow> js_string list \<Rightarrow> js_string list \<times> js_string list" where
  "prose_run acc [] = (acc, [])"
| "prose_run acc (l # ls) =
     (if is_table_start (l # ls) then (acc, l # ls)
      else if js_trim l = [] \<and> acc \<noteq> [] then (acc, l # ls)
      else prose_run (acc @ [l]) ls)"

lemma table_body_rest_le: "table_body ls = (rows, rest) \<Longrightarrow> length rest \<le> length ls"
  by (induction ls arbitrary: rows rule: table_body.induct)
     (auto split: if_splits prod.splits)

lemma prose_run_rest_le: "prose_run acc ls = (nl, rest) \<Longrightarrow> length rest \<le> length ls"
  by (induction acc ls rule: prose_run.induct) (auto split: if_splits)

text \<open>
  The outer loop. Its termination is the source's progress argument: the table branch
  consumes the header and the separator; entered at a line that does not start a table,
  the prose loop always takes that line (\<open>normalLines\<close> is still empty).
\<close>

function render_lines :: "js_string list \<Rightarrow> segment list" where
  "render_lines [] = []"
| "render_lines (l # ls) =
     (if is_table_start (l # ls) then
        (let (rows, rest) = table_body (tl ls)
         in Table (split_markdown_row l) (map split_markdown_row rows) # render_lines rest)
      else
        (let (nl, rest) = prose_run [] (l # ls)
         in (if nl = [] then [] else [Prose (strip_inline_markdown (js_join [0xA] nl))])
            @ render_lines (dropWhile is_blank rest)))"
  by pat_completeness auto
termination
  by (relation "measure length")
     (auto simp: less_Suc_eq_le dest!: table_body_rest_le [OF sym] prose_run_rest_le [OF sym]
           intro: le_trans [OF length_dropWhile_le])

text \<open>\<open>raw.replace(/\r\n/g, "\n")\<close>.\<close>

fun normalize_newlines :: "js_string \<Rightarrow> js_string" where
  "normalize_newlines [] = []"
| "normalize_newlines (c # cs) =
     (if c = 0xD \<and> take 1 cs = [0xA] then 0xA # normalize_newlines (drop 1 cs)
      else c # normalize_newlines cs)"

definition render_message_content :: "js_string \<Rightarrow> segment list" where
  "render_message_content raw = render_lines (js_split 0xA (normalize_newlines raw))"

subsection \<open>Specification-level predicates\<close>

text \<open>The condition under which the body loop takes a line, as one predicate.\<close>

definition is_body_row :: "js_string \<Rightarrow> bool" where
  "is_body_row l \<longleftrightarrow>
     js_starts_with (js_trim l) pipe \<and> \<not> is_table_separator_line l \<and> js_trim l \<noteq> []"

text \<open>A table segment has at least one header cell and every body row at least one cell.\<close>

fun segment_wf :: "segment \<Rightarrow> bool" where
  "segment_wf (Prose t) \<longleftrightarrow> True"
| "segment_wf (Table hdr rows) \<longleftrightarrow> hdr \<noteq> [] \<and> list_all (\<lambda>r. r \<noteq> []) rows"

text \<open>The line a table row is printed as: cells between pipes.\<close>

definition row_line :: "js_string list \<Rightarrow> js_string" where
  "row_line cells = pipe @ js_join pipe cells @ pipe"

lemmas seg_defs = render_message_content_def split_markdown_row_def is_table_separator_line_def
  is_sep_char_def strip_inline_markdown_def pipe_def is_blank_def is_body_row_def row_line_def

subsection \<open>Inline stripping\<close>

lemma bold_scan_length:
  "bold_scan acc xs = Some (m, r) \<Longrightarrow> length m + length r + 2 = length acc + length xs"
  by (induction acc xs rule: bold_scan.induct)
     (auto split: if_splits dest: arg_cong [where f = length])

lemma bold_scan_no_star:
  "0x2A \<notin> set m \<Longrightarrow> m \<noteq> [] \<Longrightarrow> \<not> (\<exists>c \<in> set m. is_line_terminator c) \<Longrightarrow>
   bold_scan acc (m @ 0x2A # 0x2A # rest) = Some (acc @ m, rest)"
proof (induction m arbitrary: acc)
  case Nil
  then show ?case by simp
next
  case (Cons c cs)
  then show ?case by (cases cs) auto
qed

lemma strip_bold_id: "0x2A \<notin> set s \<Longrightarrow> strip_bold s = s"
  by (induction s rule: strip_bold.induct) auto

lemma strip_code_id: "0x60 \<notin> set s \<Longrightarrow> strip_code s = s"
  by (induction s rule: strip_code.induct) (auto simp: Let_def)

lemma length_strip_bold: "length (strip_bold s) \<le> length s"
proof (induction s rule: strip_bold.induct)
  case (2 c cs)
  show ?case
  proof (cases "c = 0x2A \<and> take 1 cs = [0x2A]")
    case True
    show ?thesis
    proof (cases "bold_scan [] (drop 1 cs)")
      case None
      with True "2.IH" show ?thesis by auto
    next
      case (Some a)
      obtain m rest where a: "a = (m, rest)" by (cases a)
      with Some have "length m + length rest + 2 = length (drop 1 cs)"
        using bold_scan_length by fastforce
      moreover have "length (strip_bold rest) \<le> length rest"
        using "2.IH"(2) True Some a by blast
      ultimately show ?thesis using True Some a by simp
    qed
  next
    case False
    with "2.IH"(3) show ?thesis by auto
  qed
qed simp

lemma length_strip_code: "length (strip_code s) \<le> length s"
proof (induction s rule: strip_code.induct)
  case (2 c cs)
  let ?m = "takeWhile (\<lambda>x. x \<noteq> 0x60) cs" and ?r = "dropWhile (\<lambda>x. x \<noteq> 0x60) cs"
  have split: "length ?m + length ?r = length cs"
    by (metis length_append takeWhile_dropWhile_id)
  show ?case
  proof (cases "c = 0x60 \<and> ?m \<noteq> [] \<and> ?r \<noteq> []")
    case True
    with "2.IH"(1) [of ?m ?r] split show ?thesis by (simp add: Let_def)
  next
    case False
    with "2.IH"(2) [of ?m ?r] show ?thesis by (auto simp: Let_def)
  qed
qed simp

lemma strip_inline_markdown_id:
  "0x2A \<notin> set s \<Longrightarrow> 0x60 \<notin> set s \<Longrightarrow> strip_inline_markdown s = s"
  by (simp add: strip_inline_markdown_def strip_bold_id strip_code_id)

subsection \<open>Rows, separators and the line loop\<close>

lemma split_markdown_row_not_Nil [simp]: "split_markdown_row l \<noteq> []"
  by (simp add: split_markdown_row_def Let_def)

lemma table_body_eq:
  "table_body ls = (takeWhile is_body_row ls, dropWhile is_body_row ls)"
  by (induction ls) (auto simp: is_body_row_def)

lemma js_trim_pipes:
  "js_trim (pipe @ x @ pipe) = pipe @ x @ pipe"
  by (simp add: js_trim_def pipe_def is_js_space_def)

lemma strip_inline_markdown_cells:
  "list_all (\<lambda>c. 0x2A \<notin> set c \<and> 0x60 \<notin> set c \<and> js_trim c = c) cells \<Longrightarrow>
   map (\<lambda>c. strip_inline_markdown (js_trim c)) cells = cells"
  by (induction cells) (auto simp: strip_inline_markdown_id)

lemma render_lines_wf: "list_all segment_wf (render_lines ls)"
  by (induction ls rule: render_lines.induct)
     (auto simp: Let_def list_all_iff split: prod.splits)

text \<open>A message with no table line, no blank line and no markup is one paragraph of its text.\<close>

lemma normalize_newlines_id: "0xD \<notin> set s \<Longrightarrow> normalize_newlines s = s"
  by (induction s rule: normalize_newlines.induct) auto

lemma prose_run_plain:
  "\<forall>l \<in> set ls. \<not> is_blank l \<and> \<not> js_starts_with (js_trim l) pipe \<Longrightarrow> prose_run acc ls = (acc @ ls, [])"
proof (induction acc ls rule: prose_run.induct)
  case (1 acc)
  then show ?case by simp
next
  case (2 acc l ls)
  have "\<not> is_table_start (l # ls)" using "2.prems" by (cases ls) auto
  with 2 show ?case by (simp add: is_blank_def)
qed

lemma render_plain:
  assumes "0xD \<notin> set c" and "0x2A \<notin> set c" and "0x60 \<notin> set c"
    and "\<forall>l \<in> set (js_split 0xA c). \<not> is_blank l \<and> \<not> js_starts_with (js_trim l) pipe"
  shows "render_message_content c = [Prose c]"
proof -
  obtain l ls where split: "js_split 0xA c = l # ls" by (cases "js_split 0xA c") auto
  have "\<not> is_table_start (l # ls)" using assms(4) split by (cases ls) auto
  moreover have "prose_run [] (l # ls) = (l # ls, [])"
    using assms(4) split prose_run_plain [of "l # ls" "[]"] by simp
  moreover have "js_join [0xA] (l # ls) = c" using js_join_split [of "0xA" c] split by simp
  ultimately show ?thesis
    using assms(1-3) split
    by (simp add: render_message_content_def normalize_newlines_id strip_inline_markdown_id)
qed

subsection \<open>Properties of the renderer\<close>

text \<open>
  C11. Table detection: a line that starts with a pipe, followed by a separator line, opens
  a table; its body is the longest run of following lines that start with a pipe, are not
  blank and are not separator lines; the first line that breaks the run is not consumed
  and rendering resumes there.
\<close>

theorem render_lines_table:
  assumes "is_table_start (h # sep # ls)"
  shows "render_lines (h # sep # ls) =
           Table (split_markdown_row h) (map split_markdown_row (takeWhile is_body_row ls))
           # render_lines (dropWhile is_body_row ls)"
  using assms by (simp add: table_body_eq)

theorem render_lines_table_witness:
  "is_table_start [js ''|a|b|'', js ''|--|'', js ''|1|2|'', js ''after''] \<and>
   render_lines [js ''|a|b|'', js ''|--|'', js ''|1|2|'', js ''after''] =
     [Table [js ''a'', js ''b''] [[js ''1'', js ''2'']], Prose (js ''after'')]"
  using render_lines_table [of "js ''|a|b|''" "js ''|--|''" "[js ''|1|2|'', js ''after'']"]
  by (simp add: seg_defs js_lit)

text \<open>
  Separator lines: a line is a separator exactly when, trimmed, it starts with a pipe,
  consists only of pipes, white space, colons and hyphens, and contains a hyphen. The
  number of columns plays no part.
\<close>

theorem separator_line_iff:
  "is_table_separator_line l \<longleftrightarrow>
     (let t = js_trim l in take 1 t = pipe \<and> list_all is_sep_char t \<and> 0x2D \<in> set t)"
  by (simp add: is_table_separator_line_def js_starts_with_def pipe_def Let_def
      filter_empty_conv list_all_iff)

text \<open>
  Shape of the output: every table the renderer produces has at least one header cell
  and at least one cell in each body row, whatever the input.
\<close>

theorem render_message_content_wf: "list_all segment_wf (render_message_content raw)"
  by (simp add: render_message_content_def render_lines_wf)

text \<open>
  Row round trip: cells free of pipes, emphasis markers and surrounding white space,
  printed between pipes, split back into the same cells.
\<close>

theorem split_row_line:
  assumes "cells \<noteq> []"
    and "list_all (\<lambda>c. 0x7C \<notin> set c \<and> 0x2A \<notin> set c \<and> 0x60 \<notin> set c \<and> js_trim c = c) cells"
  shows "split_markdown_row (row_line cells) = cells"
proof -
  have pieces: "js_split 0x7C (js_join pipe cells) = cells"
    using assms by (simp add: pipe_def js_split_join list_all_iff)
  have t: "js_trim (row_line cells) = pipe @ js_join pipe cells @ pipe"
    by (simp add: row_line_def js_trim_pipes)
  have s: "js_starts_with (pipe @ js_join pipe cells @ pipe) pipe"
    by (simp add: js_starts_with_def pipe_def)
  have d: "drop 1 (pipe @ js_join pipe cells @ pipe) = js_join pipe cells @ pipe"
    by (simp add: pipe_def)
  have e: "js_ends_with (js_join pipe cells @ pipe) pipe"
    by (simp add: js_ends_with_def pipe_def)
  have b: "butlast (js_join pipe cells @ pipe) = js_join pipe cells"
    by (simp add: pipe_def)
  have "split_markdown_row (row_line cells) =
      map (\<lambda>c. strip_inline_markdown (js_trim c)) (js_split 0x7C (js_join pipe cells))"
    by (simp only: split_markdown_row_def Let_def t s d e b if_True)
  also have "\<dots> = cells"
    using assms(2) by (simp add: pieces strip_inline_markdown_cells list_all_iff)
  finally show ?thesis .
qed

theorem split_row_line_witness:
  "split_markdown_row (row_line [js ''a'', js ''b c'', []]) = [js ''a'', js ''b c'', []]"
  using split_row_line [of "[js ''a'', js ''b c'', []]"] by (simp add: js_lit)

text \<open>
  Bold markers: a bold span whose text has no asterisk and no line terminator is
  replaced by its text, and the scan goes on after the closing marker.
\<close>

theorem strip_bold_span:
  assumes "m \<noteq> []" and "0x2A \<notin> set m" and "list_all (\<lambda>c. \<not> is_line_terminator c) m"
  shows "strip_bold (0x2A # 0x2A # m @ 0x2A # 0x2A # rest) = m @ strip_bold rest"
  using assms bold_scan_no_star [of m "[]" rest] by (simp add: list_all_iff)

theorem strip_bold_span_witness:
  "strip_bold (js ''**bold** and x'') = js ''bold and x''"
  using strip_bold_span [of "js ''bold''" "js '' and x''"] by (simp add: js_lit)

text \<open>Stripping inline markdown never makes a text longer.\<close>

theorem strip_inline_markdown_length: "length (strip_inline_markdown s) \<le> length s"
  unfolding strip_inline_markdown_def
  using length_strip_code length_strip_bold le_trans by blast

text \<open>
  Code spans: a backquoted run with no backquote inside is replaced by its text, and
  the scan goes on after the closing backquote.
\<close>

theorem strip_code_span:
  assumes "m \<noteq> []" and "0x60 \<notin> set m"
  shows "strip_code (0x60 # m @ 0x60 # rest) = m @ strip_code rest"
proof -
  have "takeWhile (\<lambda>x. x \<noteq> 0x60) (m @ 0x60 # rest) = m"
    using assms(2) by (induction m) auto
  moreover have "dropWhile (\<lambda>x. x \<noteq> 0x60) (m @ 0x60 # rest) = 0x60 # rest"
    using assms(2) by (induction m) auto
  ultimately show ?thesis using assms(1) by (simp add: Let_def)
qed

theorem strip_code_span_witness:
  "strip_code (js ''`code` x'') = js ''code x''"
  using strip_code_span [of "js ''code''" "js '' x''"] by (simp add: js_lit)

subsection \<open>Behaviours the specification does not describe\<close>

text \<open>
  C29. Blank lines before any content are not skipped: when a message part starts with two
  blank lines, the prose loop takes the first (it has no line yet), stops at the second,
  and emits the first as a paragraph of its own; the renderer then goes on after the run
  of blank lines.
\<close>

theorem render_leading_blank_line:
  assumes "is_blank b" and "is_blank b'"
  shows "render_lines (b # b' # ls) = Prose (strip_inline_markdown b) # render_lines (dropWhile is_blank ls)"
proof -
  have e: "\<not> js_starts_with [] pipe" by (simp add: js_starts_with_def pipe_def)
  have t1: "\<not> is_table_start (b # b' # ls)" using assms(1) e by (simp add: is_blank_def)
  have t2: "\<not> is_table_start (b' # ls)" using assms(2) e by (cases ls) (simp_all add: is_blank_def)
  have pr: "prose_run [] (b # b' # ls) = ([b], b' # ls)"
    using t1 t2 assms(2) by (simp add: is_blank_def)
  show ?thesis using assms(2) by (simp del: is_table_start.simps prose_run.simps add: t1 pr)
qed

theorem render_leading_blank_line_witness:
  "render_lines ([] # [] # [js ''hello'']) = Prose [] # render_lines [js ''hello'']"
proof -
  have b: "is_blank []" by (simp add: is_blank_def js_trim_def)
  have h: "\<not> is_blank (js ''hello'')" by (simp add: is_blank_def js_trim_def is_js_space_def js_lit)
  have "strip_inline_markdown [] = []" by (simp add: strip_inline_markdown_id)
  then show ?thesis using render_leading_blank_line [OF b b, of "[js ''hello'']"] h by simp
qed

text \<open>
  Stripping is a single pass, so rendering is not idempotent on its own output:
  \<open>****a****\<close> renders as \<open>**a**\<close>, which renders as \<open>a\<close>.
\<close>

theorem render_not_idempotent:
  "render_message_content (js ''****a****'') = [Prose (js ''**a**'')]
   \<and> render_message_content (js ''**a**'') = [Prose (js ''a'')]"
  by (simp add: seg_defs js_lit)

text \<open>
  Body rows keep their own number of cells: a row shorter than the header is emitted
  as it is, so a table's rows need not have the header's length.
\<close>

theorem render_ragged_rows:
  "render_message_content (js ''|a|b|\<newline>|-|-|\<newline>|1|'')
     = [Table [js ''a'', js ''b''] [[js ''1'']]]"
  by (simp add: seg_defs js_lit)

end
