(* ===== verification/View.thy ===== *)
theory View
  imports Sessions Settings Segmenter
begin

text \<open>
  What the client shows and sends, as functions of the model state: \<open>renderSidebar\<close>,
  \<open>renderHeader\<close> and \<open>renderMessages\<close> of \<open>src/src/main.ts\<close> as lists of the
  items they build (DOM nodes reduced to the text and flags they carry), and the request
  that \<open>sendToLmStudio\<close> posts: its URL and its JSON body. This is where the session
  store, the settings and the segmenter of \<open>src/unnamed/part_000\<close> meet.
\<close>

subsection \<open>Sidebar and header\<close>

text \<open>One sidebar entry: the session id, the title shown, whether it is marked active.\<close>

record sidebar_item =
  item_session_id :: js_string
  item_title :: js_string
  item_active :: bool

text \<open>\<open>session.title || "\<dots>"\<close>: an empty title shows the untitled placeholder.\<close>

definition shown_title :: "chat_session \<Rightarrow> js_string" where
  "shown_title s = (if title s = [] then untitled_title else title s)"

definition render_sidebar :: "app \<Rightarrow> sidebar_item list" where
  "render_sidebar st =
     map (\<lambda>s. \<lparr>item_session_id = session_id s, item_title = shown_title s,
               item_active = (Some (session_id s) = current_session_id st)\<rparr>)
       (list_by_recency st)"

text \<open>
  \<open>renderHeader\<close>: the title element is written only when the selected id is truthy (not
  null and not the empty string), with \<open>session?.title ?? "\<dots>"\<close> (an empty title stays empty); the label is the model
  name.
\<close>

definition header_title :: "app \<Rightarrow> js_string option" where
  "header_title st =
     (case current_session_id st of
        None \<Rightarrow> None
      | Some i \<Rightarrow>
          if i = [] then None
          else Some (case get_current_session st of None \<Rightarrow> new_chat_title | Some s \<Rightarrow> title s))"

definition header_label :: "settings \<Rightarrow> js_string" where
  "header_label cfg = get_model_display_name cfg"

subsection \<open>Messages\<close>

text \<open>The hint shown for a session without messages.\<close>

definition empty_chat_hint :: js_string where
  "empty_chat_hint =
     [0x4E0B, 0x306E, 0x5165, 0x529B, 0x6B04, 0x306B, 0x30E1, 0x30C3, 0x30BB, 0x30FC, 0x30B8,
      0x3092, 0x5165, 0x529B, 0x3057, 0x3066, 0x4F1A, 0x8A71, 0x3092, 0x958B, 0x59CB, 0x3057,
      0x307E, 0x3057, 0x3087, 0x3046, 0xFF01]"

text \<open>
  A row of the message pane: the hint bubble, or a message with its role, the icon text
  (\<open>U\<close> or \<open>LM\<close>), the meta line (\<open>You\<close> or \<open>Assistant\<close>) and the segments
  \<open>renderMessageContentWithTables\<close> builds from its content.
\<close>

datatype message_row = Hint_Row js_string | Message_Row role js_string js_string "segment list"

definition render_message :: "message \<Rightarrow> message_row" where
  "render_message m =
     Message_Row (role m) (if role m = User then js ''U'' else js ''LM'')
       (if role m = User then js ''You'' else js ''Assistant'') (render_message_content (content m))"

definition render_messages :: "app \<Rightarrow> message_row list" where
  "render_messages st =
     (case get_current_session st of
        None \<Rightarrow> []
      | Some s \<Rightarrow> if messages s = [] then [Hint_Row empty_chat_hint] else map render_message (messages s))"

subsection \<open>The chat request\<close>

definition role_name :: "role \<Rightarrow> js_string" where
  "role_name r = (case r of User \<Rightarrow> js ''user'' | Assistant \<Rightarrow> js ''assistant'')"

text \<open>The JSON body; \<open>max_tokens\<close> is a key only when \<open>settings.maxTokens\<close> is not null.\<close>

record chat_payload =
  payload_model :: js_string
  payload_messages :: "(js_string \<times> js_string) list"
  payload_temperature :: real
  payload_max_tokens :: "int option"

definition build_payload :: "settings \<Rightarrow> chat_session \<Rightarrow> chat_payload" where
  "build_payload cfg s =
     \<lparr>payload_model = model_id cfg,
      payload_messages = (js ''system'', system_prompt cfg)
                         # map (\<lambda>m. (role_name (role m), content m)) (messages s),
      payload_temperature = temperature cfg,
      payload_max_tokens = max_tokens cfg\<rparr>"

definition chat_completions_url :: "settings \<Rightarrow> js_string" where
  "chat_completions_url cfg = build_api_url cfg (js ''/chat/completions'')"

subsection \<open>Lemmas\<close>

lemma current_ok_get_current:
  assumes "current_ok st"
  obtains c where "c \<in> set (sessions st)" and "current_session_id st = Some (session_id c)"
    and "get_current_session st = Some c"
proof -
  from assms obtain x where x: "x \<in> set (sessions st)" "current_session_id st = Some (session_id x)"
    by (auto simp: current_ok_def list_ex_iff)
  then have "find_session (session_id x) (sessions st) \<noteq> None"
    by (auto simp: find_session_None_iff list_ex_iff)
  then obtain c where c: "find_session (session_id x) (sessions st) = Some c" by blast
  from find_session_Some [OF c] have "c \<in> set (sessions st)" "session_id c = session_id x" by auto
  with x c show ?thesis by (intro that) (simp_all add: get_current_session_def)
qed

lemma render_sidebar_active:
  "c \<in> set (sessions st) \<Longrightarrow> current_session_id st = Some (session_id c) \<Longrightarrow>
   list_ex item_active (render_sidebar st)"
  by (auto simp: render_sidebar_def list_by_recency_def list_ex_iff)

lemma header_title_current:
  "get_current_session st = Some c \<Longrightarrow>
   header_title st = (if session_id c = [] then None else Some (title c))"
  by (auto simp: header_title_def get_current_session_def dest: find_session_Some split: option.splits)

lemma messages_title_first_message [simp]: "messages (title_first_message t s) = messages s"
  by (simp add: title_first_message_def)

end
