(* ===== verification/Lm_Client.thy ===== *)
theory Lm_Client
  imports Sessions Settings
begin

text \<open>
  The code of \<open>src/src/main.ts\<close> around the LM Studio server: what \<open>sendToLmStudio\<close>
  makes of the server's answer, \<open>ensureModelList\<close> and its cache
  \<open>availableModelIds\<close>, the connection indicator that \<open>testConnection\<close> and
  \<open>handleSend\<close> write, and the model dropdown of \<open>toggleModelDropdown\<close> and
  \<open>closeModelDropdown\<close>. The answers of the server are inputs; the suspended
  \<open>async\<close> bodies are explicit in the state, so clicks that arrive while a model list
  is loading are steps of their own.
\<close>

subsection \<open>The answer to a chat request\<close>

text \<open>
  The body of a \<open>/chat/completions\<close> answer: not JSON, or JSON whose \<open>choices\<close> is
  absent or a list holding each choice's \<open>message.content\<close> (absent or null as
  \<open>None\<close>).
\<close>

datatype chat_body = Chat_Body_Invalid | Chat_Body "js_string option list option"

text \<open>What \<open>fetch\<close> gives: a network error, or the status and the body.\<close>

datatype chat_fetch = Chat_Network_Error | Chat_Http nat chat_body

text \<open>\<open>res.ok\<close>: a status in the range 200 to 299.\<close>

definition http_ok :: "nat \<Rightarrow> bool" where
  "http_ok st \<longleftrightarrow> 200 \<le> st \<and> st \<le> 299"

text \<open>
  \<open>sendToLmStudio\<close> after the request: a throw (network error, \<open>!res.ok\<close>,
  \<open>res.json()\<close> failing) or \<open>data.choices?.[0]?.message?.content\<close>.
\<close>

definition chat_completion :: "chat_fetch \<Rightarrow> completion" where
  "chat_completion r =
     (case r of
        Chat_Network_Error \<Rightarrow> Completion_Failed
      | Chat_Http st b \<Rightarrow>
          if \<not> http_ok st then Completion_Failed
          else (case b of
                  Chat_Body_Invalid \<Rightarrow> Completion_Failed
                | Chat_Body None \<Rightarrow> Completion None
                | Chat_Body (Some []) \<Rightarrow> Completion None
                | Chat_Body (Some (c # _)) \<Rightarrow> Completion c))"

text \<open>A request the server answered with a 2xx status and a JSON body.\<close>

definition chat_answered :: "chat_fetch \<Rightarrow> bool" where
  "chat_answered r \<longleftrightarrow>
     (case r of Chat_Http st (Chat_Body _) \<Rightarrow> http_ok st | _ \<Rightarrow> False)"

text \<open>The content of the first choice of an answered request.\<close>

fun first_content :: "chat_fetch \<Rightarrow> js_string option" where
  "first_content (Chat_Http st (Chat_Body (Some (c # _)))) = c"
| "first_content _ = None"

subsection \<open>The model list\<close>

text \<open>
  The answer to \<open>GET /models\<close>: a failure (network, status, body, or a \<open>data\<close> that
  is not an array, whose \<open>map\<close> throws), or the \<open>data\<close> array with each entry's
  \<open>id\<close> when it is a string.
\<close>

datatype models_fetch = Models_Failed | Models_No_Data | Models_Data "js_string option list"

text \<open>
  \<open>data.data?.map((m) => m.id).filter((id) => typeof id === "string") ?? []\<close>, and
  \<open>[]\<close> in the \<open>catch\<close>.
\<close>

definition models_of :: "models_fetch \<Rightarrow> js_string list" where
  "models_of r = (case r of Models_Data xs \<Rightarrow> List.map_filter id xs | _ \<Rightarrow> [])"

text \<open>\<open>ensureModelList\<close>: a non-empty list is kept; otherwise the answer replaces it.\<close>

definition ensure_model_list :: "models_fetch \<Rightarrow> js_string list \<Rightarrow> js_string list" where
  "ensure_model_list r ids = (if ids \<noteq> [] then ids else models_of r)"

subsection \<open>The connection indicator\<close>

text \<open>The texts of \<open>connectionTextEl\<close>.\<close>

datatype conn_label = Conn_Initial | Conn_Testing | Conn_Ok | Conn_Offline | Conn_Generating | Conn_Error

text \<open>\<open>connectionTextEl\<close> and whether \<open>connectionDotEl\<close> has the class \<open>connected\<close>.\<close>

record indicator =
  conn_text :: conn_label
  dot_connected :: bool

text \<open>
  What writes the indicator: \<open>testConnection\<close> before and after its \<open>await\<close>, and
  \<open>handleSend\<close> before the request, after a reply and in its \<open>catch\<close>.
\<close>

datatype indicator_event =
    Test_Start
  | Test_Done "js_string list"
  | Send_Start
  | Send_Replied
  | Send_Failed

fun indicator_step :: "indicator \<Rightarrow> indicator_event \<Rightarrow> indicator" where
  "indicator_step ind Test_Start = \<lparr>conn_text = Conn_Testing, dot_connected = False\<rparr>"
| "indicator_step ind (Test_Done ids) =
     (if ids = [] then \<lparr>conn_text = Conn_Offline, dot_connected = False\<rparr>
      else \<lparr>conn_text = Conn_Ok, dot_connected = True\<rparr>)"
| "indicator_step ind Send_Start = ind\<lparr>conn_text := Conn_Generating\<rparr>"
| "indicator_step ind Send_Replied = ind\<lparr>conn_text := Conn_Ok\<rparr>"
| "indicator_step ind Send_Failed = \<lparr>conn_text = Conn_Error, dot_connected = False\<rparr>"

text \<open>
  \<open>testConnection\<close> with the list \<open>ensureModelList\<close> leaves: the texts before and
  after the \<open>await\<close>, the dot lit exactly when models are known (the empty list is the
  thrown \<open>no models\<close>).
\<close>

definition test_connection :: "models_fetch \<Rightarrow> js_string list \<Rightarrow> indicator \<Rightarrow> js_string list \<times> indicator" where
  "test_connection r ids ind =
     (let ids' = ensure_model_list r ids
      in (ids', indicator_step (indicator_step ind Test_Start) (Test_Done ids')))"

subsection \<open>The model dropdown\<close>

text \<open>
  \<open>availableModelIds\<close>, whether \<open>modelDropdownEl\<close> holds a dropdown, how many dropdown
  containers are in the document, how many \<open>toggleModelDropdown\<close> bodies are suspended
  in \<open>ensureModelList\<close>, and the settings (a model button sets \<open>settings.modelId\<close>).
\<close>

record dropdown_state =
  model_ids :: "js_string list"
  dropdown_ref :: bool
  attached :: nat
  loading :: nat
  dd_settings :: settings_state

text \<open>
  The events: a click on the model label; the model list arriving for the oldest
  suspended toggle; a click on a model button of any dropdown in the document; a click
  outside the label block (the document handler).
\<close>

datatype dropdown_event = Label_Click | Models_Arrive models_fetch | Model_Button js_string | Click_Outside

text \<open>\<open>closeModelDropdown\<close>: removes the dropdown \<open>modelDropdownEl\<close> refers to.\<close>

definition close_model_dropdown :: "dropdown_state \<Rightarrow> dropdown_state" where
  "close_model_dropdown st =
     (if dropdown_ref st then st\<lparr>dropdown_ref := False, attached := attached st - 1\<rparr> else st)"

text \<open>The end of the async body: the alert, or a new container that \<open>modelDropdownEl\<close> refers to.\<close>

definition open_dropdown :: "dropdown_state \<Rightarrow> dropdown_state" where
  "open_dropdown st =
     (if model_ids st = [] then st else st\<lparr>dropdown_ref := True, attached := attached st + 1\<rparr>)"

text \<open>
  \<open>toggleModelDropdown\<close>. With a cached list the \<open>await\<close> resumes before any other
  event, so the toggle is one step; with an empty list the body waits for the server.
\<close>

fun dropdown_step :: "dropdown_state \<Rightarrow> dropdown_event \<Rightarrow> dropdown_state" where
  "dropdown_step st Label_Click =
     (if dropdown_ref st then close_model_dropdown st
      else if model_ids st \<noteq> [] then open_dropdown st
      else st\<lparr>loading := loading st + 1\<rparr>)"
| "dropdown_step st (Models_Arrive r) =
     (if loading st = 0 then st
      else open_dropdown (st\<lparr>loading := loading st - 1, model_ids := models_of r\<rparr>))"
| "dropdown_step st (Model_Button i) =
     (if attached st = 0 then st
      else close_model_dropdown (st\<lparr>dd_settings := settings_step (dd_settings st) (Pick_Model i)\<rparr>))"
| "dropdown_step st Click_Outside = close_model_dropdown st"

text \<open>The module variables at start-up: no model list, no dropdown.\<close>

definition dropdown_init :: dropdown_state where
  "dropdown_init = \<lparr>model_ids = [], dropdown_ref = False, attached = 0, loading = 0,
                    dd_settings = \<lparr>cur_settings = default_settings, stored_settings = None\<rparr>\<rparr>"

text \<open>Dropdown containers in the document that \<open>modelDropdownEl\<close> does not refer to.\<close>

definition orphans :: "dropdown_state \<Rightarrow> nat" where
  "orphans st = attached st - (if dropdown_ref st then 1 else 0)"

text \<open>The intended shape: at most the one dropdown the variable refers to, and at most one
  toggle waiting, with none shown meanwhile.\<close>

definition dropdown_ok :: "dropdown_state \<Rightarrow> bool" where
  "dropdown_ok st \<longleftrightarrow>
     attached st = (if dropdown_ref st then 1 else 0) \<and> loading st \<le> 1 \<and> (loading st = 1 \<longrightarrow> \<not> dropdown_ref st)"

definition ref_ok :: "dropdown_state \<Rightarrow> bool" where
  "ref_ok st \<longleftrightarrow> (dropdown_ref st \<longrightarrow> 1 \<le> attached st)"

subsection \<open>Lemmas\<close>

lemma ref_ok_close [simp]: "ref_ok st \<Longrightarrow> ref_ok (close_model_dropdown st)"
  by (simp add: ref_ok_def close_model_dropdown_def)

lemmas dropdown_defs = close_model_dropdown_def open_dropdown_def

subsection \<open>Properties\<close>

text \<open>
  C18. The reply a send appends: the diagnostic message unless the server answered with a
  2xx status and a JSON body; then the first choice's content, or the fallback text when
  there is none. An empty content is kept: \<open>??\<close> falls back only on null and undefined.
\<close>

theorem chat_reply_text:
  "reply_text (chat_completion r) =
     (if \<not> chat_answered r then upstream_error_text
      else case first_content r of None \<Rightarrow> no_reply_text | Some c \<Rightarrow> c)"
  by (cases r rule: first_content.cases)
     (auto simp: chat_completion_def chat_answered_def reply_text_def
        split: chat_body.split option.split list.split)

text \<open>
  C19. The model dropdown works as intended as long as the label is not clicked again while
  a model list is loading: at most one dropdown is in the document, the one
  \<open>modelDropdownEl\<close> refers to, and at most one toggle waits.
\<close>

theorem dropdown_ok_step:
  "dropdown_ok st \<Longrightarrow> \<not> (e = Label_Click \<and> loading st \<noteq> 0) \<Longrightarrow> dropdown_ok (dropdown_step st e)"
  by (cases e) (auto simp: dropdown_ok_def dropdown_defs)

theorem dropdown_ok_step_witness:
  "dropdown_ok dropdown_init \<and> \<not> (Label_Click = Label_Click \<and> loading dropdown_init \<noteq> 0)
   \<and> dropdown_ok (dropdown_step dropdown_init Label_Click)"
  using dropdown_ok_step [of dropdown_init Label_Click]
  by (simp add: dropdown_ok_def dropdown_init_def)

text \<open>
  A dropdown that \<open>modelDropdownEl\<close> no longer refers to is never removed: no event
  lowers the number of such orphaned dropdowns.
\<close>

theorem orphans_never_removed:
  "ref_ok st \<Longrightarrow> orphans st \<le> orphans (dropdown_step st e) \<and> ref_ok (dropdown_step st e)"
  by (cases e) (auto simp: orphans_def ref_ok_def dropdown_defs)

theorem orphans_never_removed_witness:
  "ref_ok dropdown_init \<and> orphans dropdown_init \<le> orphans (dropdown_step dropdown_init Click_Outside)"
  using orphans_never_removed [of dropdown_init Click_Outside]
  by (simp add: ref_ok_def dropdown_init_def)

text \<open>
  C20. Two clicks on the model label while the list loads leak a dropdown: from any state
  without a dropdown and without a cached list, the two clicks, the two answers (each with
  models) and a click outside leave one more dropdown in the document that nothing refers
  to, so no later event removes it.
\<close>

theorem double_click_leaves_orphan:
  assumes "\<not> dropdown_ref st" and "model_ids st = []"
    and "models_of r1 \<noteq> []" and "models_of r2 \<noteq> []"
  shows "orphans (fold (\<lambda>e st. dropdown_step st e)
           [Label_Click, Label_Click, Models_Arrive r1, Models_Arrive r2, Click_Outside] st)
         = orphans st + 1"
  using assms by (simp add: dropdown_defs orphans_def)

theorem double_click_leaves_orphan_witness:
  "orphans (fold (\<lambda>e st. dropdown_step st e)
     [Label_Click, Label_Click, Models_Arrive (Models_Data [Some (js ''m'')]),
      Models_Arrive (Models_Data [Some (js ''m'')]), Click_Outside] dropdown_init) = 1"
  using double_click_leaves_orphan [of dropdown_init "Models_Data [Some (js ''m'')]"
      "Models_Data [Some (js ''m'')]"]
  by (simp add: dropdown_init_def orphans_def models_of_def map_filter_def)

text \<open>
  C21. The connection dot is lit only by a connection test that found models: a reply
  sets the text to OK but leaves a dot that an error turned off dark.
\<close>

theorem dot_lit_only_by_test:
  "dot_connected (indicator_step ind e) \<Longrightarrow> dot_connected ind \<or> (\<exists>ids. e = Test_Done ids \<and> ids \<noteq> [])"
  by (cases e) auto

theorem dot_lit_only_by_test_witness:
  "dot_connected (indicator_step \<lparr>conn_text = Conn_Initial, dot_connected = False\<rparr> (Test_Done [js ''m'']))
   \<and> (\<exists>ids. Test_Done [js ''m''] = Test_Done ids \<and> ids \<noteq> [])"
  using dot_lit_only_by_test [of "\<lparr>conn_text = Conn_Initial, dot_connected = False\<rparr>" "Test_Done [js ''m'']"]
  by simp

text \<open>After an error, a successful reply shows the OK text next to a dark dot.\<close>

lemma reply_after_error:
  "indicator_step (indicator_step (indicator_step (indicator_step ind Send_Start) Send_Failed)
     Send_Start) Send_Replied = \<lparr>conn_text = Conn_Ok, dot_connected = False\<rparr>"
  by simp

end
