(* ===== verification/Old_Client.thy ===== *)
theory Old_Client
  imports Store_Machine View Lm_Client
begin

text \<open>
  The older client \<open>src/src_old/main.ts\<close>. Its \<open>loadSessions\<close>, \<open>saveSessions\<close>,
  \<open>createNewSession\<close>, \<open>getCurrentSession\<close>, \<open>selectSession\<close>, \<open>handleSend\<close>,
  \<open>updateSettingsFromInputs\<close>, \<open>getModelDisplayName\<close>, \<open>buildApiUrl\<close> and
  \<open>sendToLmStudio\<close> have the text of their namesakes in \<open>src/src/main.ts\<close>, so the
  definitions of \<open>Sessions\<close> and \<open>Settings\<close> model them too. What differs is modelled
  here: \<open>loadSettings\<close> (no reset of the sampling settings, and an absent or empty key
  leaves \<open>settings\<close> as it was), \<open>renderMessages\<close> (the content is shown as plain
  text), \<open>renderSidebar\<close> (no per-item menu), \<open>testConnection\<close> (no model check),
  the save and test handlers of the settings panel, and the handlers \<open>setupEvents\<close>
  installs (no deletion, no search, no model dropdown). The old run is shown to be a run of
  the new store machine, and the old settings handlers to keep the settings in range.
\<close>

subsection \<open>Settings\<close>

text \<open>\<open>loadSettings\<close> of the old client, from the current value of \<open>settings\<close>.\<close>

definition load_settings_old :: "settings \<Rightarrow> settings_blob option \<Rightarrow> settings" where
  "load_settings_old cur b =
     (case b of
        Some (Settings_Json p) \<Rightarrow> merge_settings default_settings p
      | Some Settings_Invalid_Json \<Rightarrow> default_settings
      | _ \<Rightarrow> cur)"

text \<open>
  A stored settings value the client itself can have written: a temperature in \<open>[0, 2]\<close>
  and a positive \<open>maxTokens\<close> where the keys are present.
\<close>

definition settings_blob_ok :: "settings_blob option \<Rightarrow> bool" where
  "settings_blob_ok b \<longleftrightarrow>
     (case b of
        Some (Settings_Json p) \<Rightarrow>
          pred_option (\<lambda>t. 0 \<le> t \<and> t \<le> 2) (p_temperature p)
          \<and> pred_option (pred_option (\<lambda>n. 0 < n)) (p_max_tokens p)
      | _ \<Rightarrow> True)"

text \<open>The settings handlers of the old \<open>setupEvents\<close>: the save and test buttons.\<close>

datatype old_settings_event = Old_Save_Click settings_inputs | Old_Test_Click settings_inputs

fun old_settings_step :: "settings_state \<Rightarrow> old_settings_event \<Rightarrow> settings_state" where
  "old_settings_step st (Old_Save_Click inp) =
     store_settings (update_settings_from_inputs inp (cur_settings st)) st"
| "old_settings_step st (Old_Test_Click inp) =
     store_settings (update_settings_from_inputs inp (cur_settings st)) st"

text \<open>Start-up: \<open>settings\<close> starts as the defaults, then the old \<open>loadSettings\<close> runs.\<close>

inductive old_settings_reachable :: "settings_blob option \<Rightarrow> settings_state \<Rightarrow> bool" where
  init: "old_settings_reachable b \<lparr>cur_settings = load_settings_old default_settings b, stored_settings = b\<rparr>"
| step: "old_settings_reachable b st \<Longrightarrow> old_settings_reachable b (old_settings_step st e)"

subsection \<open>Connection test\<close>

text \<open>
  The old \<open>testConnection\<close>: the models request answered with an \<open>ok\<close> status lights
  the dot, whatever the list holds.
\<close>

definition test_connection_old :: "bool \<Rightarrow> indicator \<Rightarrow> indicator" where
  "test_connection_old res_ok ind =
     (if res_ok then \<lparr>conn_text = Conn_Ok, dot_connected = True\<rparr>
      else \<lparr>conn_text = Conn_Offline, dot_connected = False\<rparr>)"

subsection \<open>Sidebar\<close>

text \<open>The old \<open>renderSidebar\<close>: the same entries, without the per-item menu.\<close>

definition render_sidebar_old :: "app \<Rightarrow> sidebar_item list" where
  "render_sidebar_old st =
     map (\<lambda>s. \<lparr>item_session_id = session_id s, item_title = shown_title s,
               item_active = (Some (session_id s) = current_session_id st)\<rparr>)
       (sort_by_recency (sessions st))"

subsection \<open>Messages\<close>

text \<open>A row of the old message pane: the message content is the bubble's \<open>textContent\<close>.\<close>

datatype old_message_row = Old_Hint_Row js_string | Old_Message_Row role js_string js_string js_string

definition render_message_old :: "message \<Rightarrow> old_message_row" where
  "render_message_old m =
     Old_Message_Row (role m) (if role m = User then js ''U'' else js ''LM'')
       (if role m = User then js ''You'' else js ''Assistant'') (content m)"

definition render_messages_old :: "app \<Rightarrow> old_message_row list" where
  "render_messages_old st =
     (case get_current_session st of
        None \<Rightarrow> []
      | Some s \<Rightarrow>
          if messages s = [] then [Old_Hint_Row empty_chat_hint] else map render_message_old (messages s))"

subsection \<open>The old event loop\<close>

text \<open>The handlers of the old \<open>setupEvents\<close> and the sidebar that change the store.\<close>

datatype old_event =
    Old_New_Chat int js_string
  | Old_Select js_string
  | Old_Type_Input js_string
  | Old_Send int
  | Old_Reply completion int

fun old_step :: "sys \<Rightarrow> old_event \<Rightarrow> sys" where
  "old_step s (Old_New_Chat now rnd) = s\<lparr>app_st := new_chat now rnd (app_st s)\<rparr>"
| "old_step s (Old_Select i) = s\<lparr>app_st := select_session i (app_st s)\<rparr>"
| "old_step s (Old_Type_Input t) = s\<lparr>app_st := (app_st s)\<lparr>user_input := t\<rparr>\<rparr>"
| "old_step s (Old_Send now) =
     (let (st', p) = handle_send now (app_st s)
      in \<lparr>app_st = st', pending = (case p of None \<Rightarrow> pending s | Some i \<Rightarrow> Some i)\<rparr>)"
| "old_step s (Old_Reply r t2) =
     (case pending s of
        None \<Rightarrow> s
      | Some sid \<Rightarrow> \<lparr>app_st = finish_send sid r t2 (app_st s), pending = None\<rparr>)"

fun old_event_ok :: "sys \<Rightarrow> old_event \<Rightarrow> bool" where
  "old_event_ok s (Old_New_Chat now rnd) \<longleftrightarrow> clock_ok now s \<and> fresh_id (new_session_id now rnd) s"
| "old_event_ok s (Old_Select i) \<longleftrightarrow> list_ex (\<lambda>x. session_id x = i) (sessions (app_st s))"
| "old_event_ok s (Old_Type_Input t) \<longleftrightarrow> True"
| "old_event_ok s (Old_Send now) \<longleftrightarrow> clock_ok now s"
| "old_event_ok s (Old_Reply r t2) \<longleftrightarrow> pending s \<noteq> None \<and> clock_ok t2 s"

inductive old_reachable :: "stored_blob option \<Rightarrow> sys \<Rightarrow> bool" where
  start: "load_sessions now rnd (init_app blob) = Inr st \<Longrightarrow>
          old_reachable blob \<lparr>app_st = st, pending = None\<rparr>"
| step: "old_reachable blob s \<Longrightarrow> old_event_ok s e \<Longrightarrow> old_reachable blob (old_step s e)"

text \<open>Each old handler is the new handler of the same name.\<close>

fun new_event_of :: "old_event \<Rightarrow> event" where
  "new_event_of (Old_New_Chat now rnd) = New_Chat now rnd"
| "new_event_of (Old_Select i) = Select i"
| "new_event_of (Old_Type_Input t) = Type_Input t"
| "new_event_of (Old_Send now) = Send now"
| "new_event_of (Old_Reply r t2) = Reply r t2"

subsection \<open>Lemmas\<close>

lemma old_step_new: "old_step s e = step s (new_event_of e)"
  by (cases e) (simp_all add: step.simps(6))

lemma old_event_ok_new: "old_event_ok s e = event_ok s (new_event_of e)"
  by (cases e) simp_all

lemma settings_ok_load_old: "settings_blob_ok b \<Longrightarrow> settings_ok (load_settings_old default_settings b)"
  by (auto simp: settings_blob_ok_def load_settings_old_def merge_settings_def settings_ok_def
      default_settings_def split: option.splits settings_blob.splits)

lemma settings_blob_ok_save [simp]: "settings_blob_ok (Some (save_settings s)) \<longleftrightarrow> settings_ok s"
  by (simp add: settings_blob_ok_def save_settings_def settings_ok_def)

text \<open>The two versions list the same sidebar entries.\<close>

lemma render_sidebar_old_eq: "render_sidebar_old st = render_sidebar st"
  by (simp add: render_sidebar_old_def render_sidebar_def list_by_recency_def)

subsection \<open>Properties\<close>

text \<open>
  Refinement: every state the old client reaches, from any stored value and through any
  sequence of its events, is a state the new client reaches; so every invariant of the
  reachable states of \<open>Store_Machine\<close> holds for the old client too.
\<close>

theorem old_reachable_refines: "old_reachable blob s \<Longrightarrow> reachable blob s"
proof (induction rule: old_reachable.induct)
  case (start now rnd blob st)
  then show ?case by (rule reachable.start)
next
  case (step blob s e)
  then show ?case by (simp add: old_step_new old_event_ok_new reachable.step)
qed

theorem old_reachable_refines_witness:
  "reachable None (old_step \<lparr>app_st = \<lparr>sessions = [new_session new_chat_title 1 (js ''r'')],
             current_session_id = Some (new_session_id 1 (js ''r'')), is_sending = False,
             user_input = [],
             stored_sessions = Some (Sessions_Json [new_session new_chat_title 1 (js ''r'')])\<rparr>,
           pending = None\<rparr> (Old_Type_Input (js ''hi'')))"
proof -
  have "old_reachable None \<lparr>app_st = \<lparr>sessions = [new_session new_chat_title 1 (js ''r'')],
             current_session_id = Some (new_session_id 1 (js ''r'')), is_sending = False,
             user_input = [],
             stored_sessions = Some (Sessions_Json [new_session new_chat_title 1 (js ''r'')])\<rparr>,
           pending = None\<rparr>"
    by (rule old_reachable.start [of 1 "js ''r''"])
       (simp add: load_sessions_def init_app_def create_new_session_def save_sessions_def
         new_session_def Let_def)
  then show ?thesis
    by (intro old_reachable_refines old_reachable.step) simp_all
qed

text \<open>
  The old \<open>loadSettings\<close> restored saved settings exactly; the reset of the
  temperature and \<open>maxTokens\<close> in the new client (theory \<open>Settings\<close>) is a change
  of behaviour.
\<close>

theorem old_settings_reload_exact: "load_settings_old cur (Some (save_settings s)) = s"
  by (simp add: load_settings_old_def save_settings_def merge_settings_def)

text \<open>
  A message with no carriage return, no markup characters, no blank line and no line
  starting with a pipe is shown by the new client as the old client showed it: one text
  block holding its content, in the same row.
\<close>

theorem render_plain_as_old:
  assumes "0xD \<notin> set (content m)" and "0x2A \<notin> set (content m)" and "0x60 \<notin> set (content m)"
    and "\<forall>l \<in> set (js_split 0xA (content m)). \<not> is_blank l \<and> \<not> js_starts_with (js_trim l) pipe"
  shows "render_message m =
           (case render_message_old m of
              Old_Message_Row r i t c \<Rightarrow> Message_Row r i t [Prose c]
            | Old_Hint_Row h \<Rightarrow> Hint_Row h)"
  using render_plain [OF assms] by (simp add: render_message_def render_message_old_def)

theorem render_plain_as_old_witness:
  "render_message \<lparr>role = Assistant, content = js ''hello'', msg_created_at = 3\<rparr>
     = Message_Row Assistant (js ''LM'') (js ''Assistant'') [Prose (js ''hello'')]"
proof -
  have "\<forall>l \<in> set (js_split 0xA (js ''hello'')). \<not> is_blank l \<and> \<not> js_starts_with (js_trim l) pipe"
    by (simp add: is_blank_def pipe_def js_lit)
  then show ?thesis
    using render_plain_as_old [of "\<lparr>role = Assistant, content = js ''hello'', msg_created_at = 3\<rparr>"]
    by (simp add: render_message_old_def js_lit)
qed

text \<open>
  The old client kept its settings in range without resetting them: from a stored
  value it could have written itself, every run of its settings handlers keeps the
  temperature in \<open>[0, 2]\<close>, \<open>maxTokens\<close> absent or positive, and the stored value
  well-formed.
\<close>

theorem old_settings_ok:
  assumes "settings_blob_ok b" and "old_settings_reachable b st"
  shows "settings_ok (cur_settings st) \<and> settings_blob_ok (stored_settings st)"
  using assms(2,1)
proof (induction rule: old_settings_reachable.induct)
  case (init b)
  then show ?case by (simp add: settings_ok_load_old)
next
  case (step b st e)
  then show ?case by (cases e) (simp_all add: settings_ok_update)
qed

theorem old_settings_ok_witness:
  "settings_blob_ok None
   \<and> settings_ok (cur_settings (old_settings_step
       \<lparr>cur_settings = load_settings_old default_settings None, stored_settings = None\<rparr>
       (Old_Save_Click \<lparr>api_base_url_value = [], model_id_value = [], system_prompt_value = [],
                        temperature_parsed = Some 5, max_tokens_value = js ''-3''\<rparr>)))"
proof -
  have h: "settings_blob_ok None" by (simp add: settings_blob_ok_def)
  then show ?thesis
    by (intro conjI conjunct1 [OF old_settings_ok [OF _ old_settings_reachable.step
        [OF old_settings_reachable.init]]])
qed

text \<open>
  The two connection tests disagree on a server that answers \<open>/models\<close> with an
  \<open>ok\<close> status and no models: the old client reports it connected, the new one
  (which requires a model in the list) does not.
\<close>

theorem test_connection_old_ignores_models:
  "dot_connected (test_connection_old True ind)
   \<and> \<not> dot_connected (snd (test_connection (Models_Data []) [] ind))"
  by (simp add: test_connection_old_def test_connection_def ensure_model_list_def models_of_def
      map_filter_simps)

end
