(* ===== verification/Segmenter_Loop.thy ===== *)
theory Segmenter_Loop
  imports Segmenter "HOL-Library.While_Combinator"
begin

text \<open>
  \<open>renderMessageContentWithTables\<close> of \<open>src/unnamed/part_000\<close> as it is written: an
  index \<open>i\<close> over \<open>lines\<close>, the outer \<open>while (i < lines.length)\<close> and its three
  inner \<open>while\<close> loops (body rows, \<open>normalLines\<close>, blank lines), with the library's
  \<open>while_option\<close> and \<open>while\<close>. The outer loop is shown to stop on every input and to
  compute what the recursive \<open>render_lines\<close> of \<open>Segmenter\<close> computes, so every
  property proved of \<open>render_lines\<close> is a property of the loop the code runs.
\<close>

text \<open>The table test of line 33: a trimmed pipe line with a separator line after it.\<close>

definition table_at :: "js_string list \<Rightarrow> nat \<Rightarrow> bool" where
  "table_at ls i \<longleftrightarrow>
     js_starts_with (js_trim (ls ! i)) pipe \<and> i + 1 < length ls \<and> is_table_separator_line (ls ! (i + 1))"

text \<open>Lines 53 to 70: \<open>i += 2\<close>, then the body rows until a line that is not one.\<close>

definition body_rows_loop :: "js_string list \<Rightarrow> nat \<times> js_string list list \<Rightarrow> nat \<times> js_string list list" where
  "body_rows_loop ls =
     while (\<lambda>(i, rows). i < length ls \<and>
              \<not> (\<not> js_starts_with (js_trim (ls ! i)) pipe \<or> is_table_separator_line (ls ! i)
                 \<or> js_trim (ls ! i) = []))
           (\<lambda>(i, rows). (i + 1, rows @ [split_markdown_row (ls ! i)]))"

text \<open>Lines 83 to 97: \<open>normalLines\<close> up to a table start, or a blank line once one is taken.\<close>

definition normal_lines_loop :: "js_string list \<Rightarrow> nat \<times> js_string list \<Rightarrow> nat \<times> js_string list" where
  "normal_lines_loop ls =
     while (\<lambda>(i, nl). i < length ls \<and> \<not> table_at ls i \<and> \<not> (js_trim (ls ! i) = [] \<and> nl \<noteq> []))
           (\<lambda>(i, nl). (i + 1, nl @ [ls ! i]))"

text \<open>Lines 105 to 107: skip blank lines.\<close>

definition skip_blank_loop :: "js_string list \<Rightarrow> nat \<Rightarrow> nat" where
  "skip_blank_loop ls = while (\<lambda>i. i < length ls \<and> js_trim (ls ! i) = []) Suc"

text \<open>One pass of the outer loop (lines 31 to 107); the fragment is the list of segments.\<close>

definition outer_step :: "js_string list \<Rightarrow> nat \<times> segment list \<Rightarrow> nat \<times> segment list" where
  "outer_step ls s =
     (let (i, frag) = s in
      if table_at ls i then
        (let (j, rows) = body_rows_loop ls (i + 2, [])
         in (j, frag @ [Table (split_markdown_row (ls ! i)) rows]))
      else
        (let (j, nl) = normal_lines_loop ls (i, []);
             frag' = (if nl = [] then frag
                      else frag @ [Prose (strip_inline_markdown (js_join [0xA] nl))])
         in (skip_blank_loop ls j, frag')))"

definition render_loop :: "js_string list \<Rightarrow> (nat \<times> segment list) option" where
  "render_loop ls = while_option (\<lambda>(i, frag). i < length ls) (outer_step ls) (0, [])"

definition render_message_content_loop :: "js_string \<Rightarrow> segment list option" where
  "render_message_content_loop raw = map_option snd (render_loop (js_split 0xA (normalize_newlines raw)))"

subsection \<open>The inner loops\<close>

lemma drop_nth_Cons: "i < length ls \<Longrightarrow> drop i ls = ls ! i # drop (Suc i) ls"
  by (simp add: Cons_nth_drop_Suc)

lemma table_at_iff: "i < length ls \<Longrightarrow> table_at ls i \<longleftrightarrow> is_table_start (drop i ls)"
proof -
  assume i: "i < length ls"
  show ?thesis
  proof (cases "Suc i < length ls")
    case True
    then show ?thesis using i
      by (simp add: table_at_def drop_nth_Cons [OF i] drop_nth_Cons [OF True])
  next
    case False
    then have "drop (Suc i) ls = []" by simp
    with False i show ?thesis by (simp add: table_at_def drop_nth_Cons [OF i])
  qed
qed

lemma body_rows_loop_eq:
  "body_rows_loop ls (i, rows) =
     (i + length (takeWhile is_body_row (drop i ls)), rows @ map split_markdown_row (takeWhile is_body_row (drop i ls)))"
proof (induction "length ls - i" arbitrary: i rows)
  case 0
  then show ?case by (simp add: body_rows_loop_def while_unfold [of _ _ "(i, rows)"])
next
  case (Suc k)
  then have i: "i < length ls" by simp
  show ?case
  proof (cases "is_body_row (ls ! i)")
    case True
    have "body_rows_loop ls (i, rows) = body_rows_loop ls (Suc i, rows @ [split_markdown_row (ls ! i)])"
      using i True unfolding body_rows_loop_def by (subst while_unfold) (simp add: is_body_row_def)
    with Suc.hyps(1) [of "Suc i"] Suc.hyps(2) True show ?thesis
      by (simp add: drop_nth_Cons [OF i])
  next
    case False
    then show ?thesis
      using i unfolding body_rows_loop_def by (subst while_unfold) (auto simp: is_body_row_def drop_nth_Cons [OF i])
  qed
qed

lemma normal_lines_loop_eq:
  "i \<le> length ls \<Longrightarrow> normal_lines_loop ls (i, nl) = (j, nl') \<Longrightarrow>
   prose_run nl (drop i ls) = (nl', drop j ls) \<and> i \<le> j \<and> j \<le> length ls"
proof (induction "length ls - i" arbitrary: i nl)
  case 0
  then have "normal_lines_loop ls (i, nl) = (i, nl)"
    unfolding normal_lines_loop_def by (subst while_unfold) simp
  with 0 show ?case by simp
next
  case (Suc k)
  then have i: "i < length ls" by simp
  show ?case
  proof (cases "\<not> table_at ls i \<and> \<not> (js_trim (ls ! i) = [] \<and> nl \<noteq> [])")
    case True
    then have "normal_lines_loop ls (i, nl) = normal_lines_loop ls (Suc i, nl @ [ls ! i])"
      using i unfolding normal_lines_loop_def by (subst while_unfold) simp
    with Suc.prems(2) have "normal_lines_loop ls (Suc i, nl @ [ls ! i]) = (j, nl')" by simp
    with Suc.hyps(1) [of "Suc i"] Suc.hyps(2) i
    have "prose_run (nl @ [ls ! i]) (drop (Suc i) ls) = (nl', drop j ls) \<and> Suc i \<le> j \<and> j \<le> length ls"
      by simp
    with True i show ?thesis by (auto simp: drop_nth_Cons [OF i] table_at_iff)
  next
    case False
    then have "normal_lines_loop ls (i, nl) = (i, nl)"
      using i unfolding normal_lines_loop_def by (subst while_unfold) auto
    with Suc.prems(2) have "j = i" "nl' = nl" by simp_all
    moreover have "prose_run nl (drop i ls) = (nl, drop i ls)"
      using False by (auto simp: drop_nth_Cons [OF i] table_at_iff [OF i])
    ultimately show ?thesis using i by simp
  qed
qed

lemma skip_blank_loop_eq:
  "skip_blank_loop ls j = j + length (takeWhile is_blank (drop j ls))"
proof (induction "length ls - j" arbitrary: j)
  case 0
  then show ?case by (simp add: skip_blank_loop_def while_unfold [of _ _ j])
next
  case (Suc k)
  then have j: "j < length ls" by simp
  show ?case
  proof (cases "is_blank (ls ! j)")
    case True
    then have "skip_blank_loop ls j = skip_blank_loop ls (Suc j)"
      using j unfolding skip_blank_loop_def by (subst while_unfold) (simp add: is_blank_def)
    with Suc.hyps(1) [of "Suc j"] Suc.hyps(2) True show ?thesis by (simp add: drop_nth_Cons [OF j])
  next
    case False
    then show ?thesis
      using j unfolding skip_blank_loop_def by (subst while_unfold) (simp add: is_blank_def drop_nth_Cons [OF j])
  qed
qed

lemma drop_skip_blank: "drop (skip_blank_loop ls j) ls = dropWhile is_blank (drop j ls)"
  by (simp add: skip_blank_loop_eq dropWhile_eq_drop add.commute)

text \<open>One pass of the outer loop renders the segments of the lines it consumes.\<close>

lemma outer_step_render:
  assumes i: "i < length ls" and st: "outer_step ls (i, frag) = (j, frag')"
  shows "i < j \<and> j \<le> length ls \<and> frag' @ render_lines (drop j ls) = frag @ render_lines (drop i ls)"
proof (cases "table_at ls i")
  case True
  let ?tw = "takeWhile is_body_row (drop (i + 2) ls)"
  from True have start: "is_table_start (drop i ls)" by (simp add: table_at_iff [OF i])
  from True have ii: "Suc i < length ls" by (simp add: table_at_def)
  have j: "j = i + 2 + length ?tw" and f: "frag' = frag @ [Table (split_markdown_row (ls ! i)) (map split_markdown_row ?tw)]"
    using st True by (simp_all add: outer_step_def body_rows_loop_eq)
  have "length ?tw \<le> length ls - (i + 2)"
    using length_takeWhile_le [of is_body_row "drop (i + 2) ls"] by simp
  with ii have le: "j \<le> length ls" using j by simp
  have d: "drop i ls = ls ! i # ls ! Suc i # drop (i + 2) ls"
    using drop_nth_Cons [OF i] drop_nth_Cons [OF ii] by simp
  have "drop j ls = dropWhile is_body_row (drop (i + 2) ls)"
    by (simp add: j dropWhile_eq_drop add.commute)
  then show ?thesis
    using start le j f by (simp add: d table_body_eq)
next
  case False
  obtain j0 nl where nl: "normal_lines_loop ls (i, []) = (j0, nl)" by fastforce
  from normal_lines_loop_eq [OF less_imp_le [OF i] nl]
  have pr: "prose_run [] (drop i ls) = (nl, drop j0 ls)" and "j0 \<le> length ls" by simp_all
  have nstart: "\<not> is_table_start (drop i ls)" using False by (simp add: table_at_iff [OF i])
  have "prose_run [] (drop i ls) = prose_run [ls ! i] (drop (Suc i) ls)"
    using nstart by (simp add: drop_nth_Cons [OF i])
  then have "length (drop j0 ls) \<le> length (drop (Suc i) ls)"
    using pr prose_run_rest_le [of "[ls ! i]" "drop (Suc i) ls" nl "drop j0 ls"] by simp
  then have i_j0: "i < j0" using i \<open>j0 \<le> length ls\<close> by simp
  have j: "j = skip_blank_loop ls j0"
    and f: "frag' = (if nl = [] then frag else frag @ [Prose (strip_inline_markdown (js_join [0xA] nl))])"
    using st False nl by (simp_all add: outer_step_def Let_def)
  have "j \<le> length ls"
    using j \<open>j0 \<le> length ls\<close> length_takeWhile_le [of is_blank "drop j0 ls"] by (simp add: skip_blank_loop_eq)
  moreover have "i < j" using i_j0 j by (simp add: skip_blank_loop_eq)
  moreover have "frag' @ render_lines (drop j ls) = frag @ render_lines (drop i ls)"
    using nstart pr f by (simp add: drop_nth_Cons [OF i] j drop_skip_blank)
  ultimately show ?thesis by simp
qed

lemma render_loop_from:
  "i \<le> length ls \<Longrightarrow>
   while_option (\<lambda>(i, frag). i < length ls) (outer_step ls) (i, frag)
     = Some (length ls, frag @ render_lines (drop i ls))"
proof (induction "length ls - i" arbitrary: i frag rule: less_induct)
  case less
  show ?case
  proof (cases "i < length ls")
    case False
    with less.prems show ?thesis by (subst while_option_unfold) simp
  next
    case True
    obtain j frag' where st: "outer_step ls (i, frag) = (j, frag')" by fastforce
    from outer_step_render [OF True st] have j: "i < j" "j \<le> length ls"
      and r: "frag' @ render_lines (drop j ls) = frag @ render_lines (drop i ls)" by simp_all
    have "while_option (\<lambda>(i, frag). i < length ls) (outer_step ls) (i, frag)
          = while_option (\<lambda>(i, frag). i < length ls) (outer_step ls) (j, frag')"
      using True st by (subst while_option_unfold) simp
    also have "\<dots> = Some (length ls, frag' @ render_lines (drop j ls))"
      using less.hyps [of j frag'] j True by simp
    finally show ?thesis using r by simp
  qed
qed

subsection \<open>Properties\<close>

text \<open>
  C16. Termination: the outer \<open>while (i < lines.length)\<close> of the renderer stops on every
  list of lines: each pass consumes at least one line.
\<close>

theorem render_loop_terminates: "\<exists>r. render_loop ls = Some r"
  unfolding render_loop_def
proof (rule measure_while_option_Some [where P = "\<lambda>_. True" and f = "\<lambda>(i, frag). length ls - i"])
  fix s :: "nat \<times> segment list"
  assume "(\<lambda>(i, frag). i < length ls) s"
  then obtain i frag where s: "s = (i, frag)" and i: "i < length ls" by (cases s) auto
  obtain j frag' where st: "outer_step ls (i, frag) = (j, frag')" by fastforce
  from outer_step_render [OF i st] have "length ls - j < length ls - i" using i by arith
  then show "True \<and> (\<lambda>(i, frag). length ls - i) (outer_step ls s) < (\<lambda>(i, frag). length ls - i) s"
    by (simp add: s st)
qed simp

text \<open>
  The loop the code runs computes the recursive renderer: for every raw text the
  index-based loops give exactly the segments of \<open>render_message_content\<close>.
\<close>

theorem render_loop_equiv: "render_message_content_loop raw = Some (render_message_content raw)"
  using render_loop_from [of 0 "js_split 0xA (normalize_newlines raw)" "[]"]
  by (simp add: render_message_content_loop_def render_loop_def render_message_content_def)

end
