(* ===== verification/Chrome.thy ===== *)
theory Chrome
  imports Store_Machine
begin

text \<open>
  The window chrome of \<open>src/src/main.ts\<close> around the store: the header menu of
  \<open>toggleHeaderMenu\<close> and \<open>closeHeaderMenu\<close> (whose delete button calls
  \<open>deleteSession\<close> on the selected session), the settings panel that the user card
  toggles, the document click handler and the Escape key. The store events of
  \<open>Store_Machine\<close> are embedded unchanged, so a run of the whole window is a run of the
  store machine.
\<close>

text \<open>Whether \<open>headerMenuDropdownEl\<close> holds a menu, and the \<open>hidden\<close> class of the panel.\<close>

record chrome =
  header_menu_open :: bool
  panel_hidden :: bool

record window =
  core :: sys
  win_chrome :: chrome

text \<open>
  Where a click that reaches the document handler landed (the toggle button, the user
  card and the menu buttons stop propagation, so their clicks are events of their own).
\<close>

datatype click_target = Target_Header_Right | Target_Panel | Target_User_Card | Target_Other

datatype window_event =
    Store_Event event
  | Settings_Toggle_Click
  | Header_Delete_Click bool int js_string
  | Header_Export_Click
  | User_Card_Click
  | Document_Click click_target
  | Escape_Key

definition close_header_menu :: "chrome \<Rightarrow> chrome" where
  "close_header_menu c = c\<lparr>header_menu_open := False\<rparr>"

definition toggle_header_menu :: "chrome \<Rightarrow> chrome" where
  "toggle_header_menu c = (if header_menu_open c then close_header_menu c else c\<lparr>header_menu_open := True\<rparr>)"

text \<open>The document click handler: the header menu part and the settings panel part.\<close>

definition document_click :: "click_target \<Rightarrow> chrome \<Rightarrow> chrome" where
  "document_click t c =
     (let c1 = (if header_menu_open c \<and> t \<noteq> Target_Header_Right then close_header_menu c else c)
      in if \<not> panel_hidden c1 \<and> t \<noteq> Target_Panel \<and> t \<noteq> Target_User_Card
         then c1\<lparr>panel_hidden := True\<rparr> else c1)"

text \<open>
  The delete button of the header menu: nothing without a selected session or without
  the user's confirmation; otherwise \<open>deleteSession(session.id)\<close> and the menu closes.
\<close>

definition header_delete :: "bool \<Rightarrow> int \<Rightarrow> js_string \<Rightarrow> window \<Rightarrow> window" where
  "header_delete confirmed now rnd w =
     (case get_current_session (app_st (core w)) of
        None \<Rightarrow> w
      | Some s \<Rightarrow>
          if \<not> confirmed then w
          else \<lparr>core = step (core w) (Delete (session_id s) now rnd),
                win_chrome = close_header_menu (win_chrome w)\<rparr>)"

fun window_step :: "window \<Rightarrow> window_event \<Rightarrow> window" where
  "window_step w (Store_Event e) = w\<lparr>core := step (core w) e\<rparr>"
| "window_step w Settings_Toggle_Click = w\<lparr>win_chrome := toggle_header_menu (win_chrome w)\<rparr>"
| "window_step w (Header_Delete_Click b now rnd) = header_delete b now rnd w"
| "window_step w Header_Export_Click = w\<lparr>win_chrome := close_header_menu (win_chrome w)\<rparr>"
| "window_step w User_Card_Click =
     w\<lparr>win_chrome := (win_chrome w)\<lparr>panel_hidden := \<not> panel_hidden (win_chrome w)\<rparr>\<rparr>"
| "window_step w (Document_Click t) = w\<lparr>win_chrome := document_click t (win_chrome w)\<rparr>"
| "window_step w Escape_Key = w\<lparr>win_chrome := (win_chrome w)\<lparr>panel_hidden := True\<rparr>\<rparr>"

text \<open>The store event a window event performs, if any.\<close>

fun store_event_of :: "window \<Rightarrow> window_event \<Rightarrow> event option" where
  "store_event_of w (Store_Event e) = Some e"
| "store_event_of w (Header_Delete_Click b now rnd) =
     (case get_current_session (app_st (core w)) of
        None \<Rightarrow> None
      | Some s \<Rightarrow> if b then Some (Delete (session_id s) now rnd) else None)"
| "store_event_of w _ = None"

definition window_event_ok :: "window \<Rightarrow> window_event \<Rightarrow> bool" where
  "window_event_ok w e \<longleftrightarrow> pred_option (event_ok (core w)) (store_event_of w e)"

inductive window_reachable :: "stored_blob option \<Rightarrow> window \<Rightarrow> bool" where
  start: "load_sessions now rnd (init_app blob) = Inr st \<Longrightarrow>
          window_reachable blob \<lparr>core = \<lparr>app_st = st, pending = None\<rparr>,
                                 win_chrome = \<lparr>header_menu_open = False, panel_hidden = True\<rparr>\<rparr>"
| step: "window_reachable blob w \<Longrightarrow> window_event_ok w e \<Longrightarrow> window_reachable blob (window_step w e)"

subsection \<open>Lemmas\<close>

text \<open>Each window event is the store event it performs, or leaves the store alone.\<close>

lemma core_window_step:
  "core (window_step w e) = (case store_event_of w e of None \<Rightarrow> core w | Some e' \<Rightarrow> step (core w) e')"
  by (cases e) (auto simp: header_delete_def split: option.split)

subsection \<open>Properties\<close>

text \<open>
  Refinement: every state of the whole window, reached by any mix of store events,
  header-menu deletions, menu and panel clicks and key presses, has a store part that the
  store machine reaches; so every invariant of \<open>Store_Machine\<close> holds in the window.
\<close>

theorem window_reachable_core: "window_reachable blob w \<Longrightarrow> reachable blob (core w)"
proof (induction rule: window_reachable.induct)
  case (start now rnd blob st)
  then show ?case by (simp add: reachable.start)
next
  case (step blob w e)
  then show ?case
    by (auto simp: core_window_step window_event_ok_def reachable.step split: option.split)
qed

theorem window_reachable_core_witness:
  "reachable None (core (window_step
     \<lparr>core = \<lparr>app_st = \<lparr>sessions = [new_session new_chat_title 1 (js ''r'')],
             current_session_id = Some (new_session_id 1 (js ''r'')), is_sending = False,
             user_input = [],
             stored_sessions = Some (Sessions_Json [new_session new_chat_title 1 (js ''r'')])\<rparr>,
           pending = None\<rparr>,
      win_chrome = \<lparr>header_menu_open = False, panel_hidden = True\<rparr>\<rparr> Settings_Toggle_Click))"
proof -
  have "window_reachable None
     \<lparr>core = \<lparr>app_st = \<lparr>sessions = [new_session new_chat_title 1 (js ''r'')],
             current_session_id = Some (new_session_id 1 (js ''r'')), is_sending = False,
             user_input = [],
             stored_sessions = Some (Sessions_Json [new_session new_chat_title 1 (js ''r'')])\<rparr>,
           pending = None\<rparr>,
      win_chrome = \<lparr>header_menu_open = False, panel_hidden = True\<rparr>\<rparr>"
    by (rule window_reachable.start [of 1 "js ''r''"])
       (simp add: load_sessions_def init_app_def create_new_session_def save_sessions_def
         new_session_def Let_def)
  then show ?thesis
    by (intro window_reachable_core window_reachable.step) (simp_all add: window_event_ok_def)
qed

end
