(* ===== verification/Client.thy ===== *)
theory Client
  imports Chrome Lm_Client
begin

text \<open>
  The whole client of \<open>src/src/main.ts\<close> after \<open>DOMContentLoaded\<close>: the window of
  \<open>Chrome\<close> (the store and the header menu and panel), the model list, dropdown and
  settings of \<open>Lm_Client\<close>, the connection indicator, and the \<open>testConnection\<close> bodies
  suspended in \<open>ensureModelList\<close>. One DOM event may act on several parts: the document
  click handler closes the header menu, the model dropdown and the panel; a send or a reply
  also writes the indicator; the test button saves the settings and starts a connection
  test, whose model list is the cache the dropdown reads.
\<close>

record client =
  cl_window :: window
  cl_models :: dropdown_state
  cl_indicator :: indicator
  cl_tests :: nat

text \<open>
  The events: a window event (the document click apart), a document click with where it
  landed and whether it landed inside the block of the model label, a dropdown event (the
  outside click apart), the save and test buttons, and the model list arriving for the
  oldest suspended connection test.
\<close>

datatype client_event =
    Window_Event window_event
  | Page_Click click_target bool
  | Dropdown_Event dropdown_event
  | Save_Settings_Click settings_inputs
  | Test_Connection_Click settings_inputs
  | Test_Arrive models_fetch

text \<open>
  What \<open>handleSend\<close> writes into the indicator: the generating text when a request
  starts, then the OK text after a reply or the error state in the \<open>catch\<close>.
\<close>

definition send_indicator :: "sys \<Rightarrow> event \<Rightarrow> indicator \<Rightarrow> indicator" where
  "send_indicator s e ind =
     (case e of
        Send now \<Rightarrow>
          (if snd (handle_send now (app_st s)) = None then ind else indicator_step ind Send_Start)
      | Reply r t2 \<Rightarrow>
          (if pending s = None then ind
           else indicator_step ind (if r = Completion_Failed then Send_Failed else Send_Replied))
      | _ \<Rightarrow> ind)"

text \<open>
  \<open>testConnection\<close> up to its \<open>await\<close>: with a cached model list the body resumes
  before any other event and finishes; otherwise it waits for the server.
\<close>

definition start_test :: "client \<Rightarrow> client" where
  "start_test c =
     (let ind = indicator_step (cl_indicator c) Test_Start;
          ids = model_ids (cl_models c)
      in if ids \<noteq> [] then c\<lparr>cl_indicator := indicator_step ind (Test_Done ids)\<rparr>
         else c\<lparr>cl_indicator := ind, cl_tests := cl_tests c + 1\<rparr>)"

definition panel_settings :: "settings_event \<Rightarrow> client \<Rightarrow> client" where
  "panel_settings e c =
     c\<lparr>cl_models := (cl_models c)\<lparr>dd_settings := settings_step (dd_settings (cl_models c)) e\<rparr>\<rparr>"

fun client_step :: "client \<Rightarrow> client_event \<Rightarrow> client" where
  "client_step c (Window_Event e) =
     c\<lparr>cl_window := window_step (cl_window c) e,
       cl_indicator := (case store_event_of (cl_window c) e of
                          None \<Rightarrow> cl_indicator c
                        | Some ev \<Rightarrow> send_indicator (core (cl_window c)) ev (cl_indicator c))\<rparr>"
| "client_step c (Page_Click t in_block) =
     c\<lparr>cl_window := window_step (cl_window c) (Document_Click t),
       cl_models := (if in_block then cl_models c else close_model_dropdown (cl_models c))\<rparr>"
| "client_step c (Dropdown_Event e) = c\<lparr>cl_models := dropdown_step (cl_models c) e\<rparr>"
| "client_step c (Save_Settings_Click inp) = panel_settings (Save_Click inp) c"
| "client_step c (Test_Connection_Click inp) = start_test (panel_settings (Test_Click inp) c)"
| "client_step c (Test_Arrive r) =
     (if cl_tests c = 0 then c
      else c\<lparr>cl_models := (cl_models c)\<lparr>model_ids := models_of r\<rparr>,
             cl_indicator := indicator_step (cl_indicator c) (Test_Done (models_of r)),
             cl_tests := cl_tests c - 1\<rparr>)"

text \<open>
  The document click and the outside click are the events \<open>Page_Click\<close> joins, so
  they do not occur alone; the window events keep the store's environment guard.
\<close>

fun client_event_ok :: "client \<Rightarrow> client_event \<Rightarrow> bool" where
  "client_event_ok c (Window_Event (Document_Click t)) \<longleftrightarrow> False"
| "client_event_ok c (Window_Event e) \<longleftrightarrow> window_event_ok (cl_window c) e"
| "client_event_ok c (Dropdown_Event Click_Outside) \<longleftrightarrow> False"
| "client_event_ok c _ \<longleftrightarrow> True"

text \<open>
  Start-up: \<open>loadSettings\<close>, \<open>loadSessions\<close>, then \<open>testConnection\<close> with the
  empty model list, which waits for the server; the connection text is the page's own
  until then.
\<close>

definition client_init :: "settings_blob option \<Rightarrow> app \<Rightarrow> client" where
  "client_init sb st =
     start_test
       \<lparr>cl_window = \<lparr>core = \<lparr>app_st = st, pending = None\<rparr>,
                      win_chrome = \<lparr>header_menu_open = False, panel_hidden = True\<rparr>\<rparr>,
        cl_models = dropdown_init\<lparr>dd_settings := \<lparr>cur_settings = load_settings sb, stored_settings = sb\<rparr>\<rparr>,
        cl_indicator = \<lparr>conn_text = Conn_Initial, dot_connected = False\<rparr>,
        cl_tests = 0\<rparr>"

inductive client_reachable :: "settings_blob option \<Rightarrow> stored_blob option \<Rightarrow> client \<Rightarrow> bool" where
  start: "load_sessions now rnd (init_app blob) = Inr st \<Longrightarrow> client_reachable sb blob (client_init sb st)"
| step: "client_reachable sb blob c \<Longrightarrow> client_event_ok c e \<Longrightarrow> client_reachable sb blob (client_step c e)"

text \<open>The window event and the settings event a client event performs, if any.\<close>

fun window_event_of :: "client_event \<Rightarrow> window_event option" where
  "window_event_of (Window_Event e) = Some e"
| "window_event_of (Page_Click t b) = Some (Document_Click t)"
| "window_event_of _ = None"

fun settings_event_of :: "client \<Rightarrow> client_event \<Rightarrow> settings_event option" where
  "settings_event_of c (Dropdown_Event (Model_Button i)) =
     (if attached (cl_models c) = 0 then None else Some (Pick_Model i))"
| "settings_event_of c (Save_Settings_Click inp) = Some (Save_Click inp)"
| "settings_event_of c (Test_Connection_Click inp) = Some (Test_Click inp)"
| "settings_event_of c _ = None"

subsection \<open>Lemmas\<close>

lemma window_client_step:
  "cl_window (client_step c e) =
     (case window_event_of e of None \<Rightarrow> cl_window c | Some we \<Rightarrow> window_step (cl_window c) we)"
  by (cases e) (simp_all add: panel_settings_def start_test_def Let_def)

lemma window_event_of_ok:
  "client_event_ok c e \<Longrightarrow> window_event_of e = Some we \<Longrightarrow> window_event_ok (cl_window c) we"
  by (cases "(c, e)" rule: client_event_ok.cases) (auto simp: window_event_ok_def)

lemma settings_client_step:
  "dd_settings (cl_models (client_step c e)) =
     (case settings_event_of c e of
        None \<Rightarrow> dd_settings (cl_models c)
      | Some se \<Rightarrow> settings_step (dd_settings (cl_models c)) se)"
  by (cases "(c, e)" rule: settings_event_of.cases)
     (simp_all add: panel_settings_def start_test_def Let_def close_model_dropdown_def
        open_dropdown_def)

lemma indicator_send_not_testing:
  "conn_text (send_indicator s e ind) = Conn_Testing \<Longrightarrow> conn_text ind = Conn_Testing"
  by (auto simp: send_indicator_def split: event.splits if_splits)

lemma start_test_testing:
  "conn_text (cl_indicator (start_test c)) = Conn_Testing \<Longrightarrow> cl_tests (start_test c) = cl_tests c + 1"
  by (simp add: start_test_def Let_def split: if_splits)

text \<open>The testing label is shown only while a connection test waits for the server.\<close>

lemma client_testing_pending:
  "client_reachable sb blob c \<Longrightarrow> conn_text (cl_indicator c) = Conn_Testing \<Longrightarrow> 0 < cl_tests c"
proof (induction rule: client_reachable.induct)
  case (start now rnd blob st sb)
  then show ?case by (simp add: client_init_def start_test_def dropdown_init_def)
next
  case (step sb blob c e)
  then show ?case
    by (cases e)
       (auto simp: panel_settings_def dest: indicator_send_not_testing start_test_testing
          split: option.splits if_splits)
qed

lemma load_sessions_None:
  "load_sessions now rnd (init_app None) = Inr (projr (load_sessions now rnd (init_app None)))"
  by (simp add: load_sessions_def init_app_def create_new_session_def Let_def)

subsection \<open>Properties\<close>

text \<open>
  Composition: in every state of the whole client, reached by any interleaving of
  store events, window clicks, dropdown clicks, settings saves, connection tests and model
  lists arriving, the window part is reachable in the window machine and the settings part
  in the settings machine; so the invariants of both hold in the whole client.
\<close>

theorem client_reachable_parts:
  "client_reachable sb blob c \<Longrightarrow>
   window_reachable blob (cl_window c) \<and> settings_reachable sb (dd_settings (cl_models c))"
proof (induction rule: client_reachable.induct)
  case (start now rnd blob st sb)
  have "window_reachable blob \<lparr>core = \<lparr>app_st = st, pending = None\<rparr>,
                                win_chrome = \<lparr>header_menu_open = False, panel_hidden = True\<rparr>\<rparr>"
    using start by (rule window_reachable.start)
  then show ?case
    by (simp add: client_init_def start_test_def Let_def dropdown_init_def settings_reachable.init)
next
  case (step sb blob c e)
  have "window_reachable blob (cl_window (client_step c e))"
    using step window_event_of_ok [OF step(2)]
    by (auto simp: window_client_step intro: window_reachable.step split: option.split)
  moreover have "settings_reachable sb (dd_settings (cl_models (client_step c e)))"
    using step(3) by (auto simp: settings_client_step intro: settings_reachable.step split: option.split)
  ultimately show ?case by simp
qed

theorem client_reachable_parts_witness:
  "window_reachable None (cl_window (client_step
       (client_init None (projr (load_sessions 1 (js ''r'') (init_app None)))) (Test_Arrive Models_Failed)))
   \<and> settings_reachable None (dd_settings (cl_models (client_step
       (client_init None (projr (load_sessions 1 (js ''r'') (init_app None)))) (Test_Arrive Models_Failed))))"
  by (rule client_reachable_parts [OF client_reachable.step
        [OF client_reachable.start [OF load_sessions_None]]]) simp

text \<open>
  C22. Liveness of the connection indicator: in every state of the whole client that
  shows the testing label, a connection test is waiting for the server, and its answer,
  whatever it is, replaces the label by the OK or the offline text.
\<close>

theorem testing_label_clears:
  assumes "client_reachable sb blob c" and "conn_text (cl_indicator c) = Conn_Testing"
  shows "client_event_ok c (Test_Arrive r)
    \<and> conn_text (cl_indicator (client_step c (Test_Arrive r))) \<in> {Conn_Ok, Conn_Offline}"
  using client_testing_pending [OF assms] by simp

theorem testing_label_clears_witness:
  "conn_text (cl_indicator (client_step
       (client_init None (projr (load_sessions 1 (js ''r'') (init_app None))))
       (Test_Arrive (Models_Data [Some (js ''m'')])))) \<in> {Conn_Ok, Conn_Offline}"
proof -
  have "conn_text (cl_indicator (client_init None (projr (load_sessions 1 (js ''r'') (init_app None)))))
          = Conn_Testing"
    by (simp add: client_init_def start_test_def dropdown_init_def)
  then show ?thesis
    using testing_label_clears [OF client_reachable.start [OF load_sessions_None]] by blast
qed

end
