(* ===== verification/Display.thy ===== *)
theory Display
  imports Client View
begin

text \<open>
  What the page shows, as the DOM holds it: the sidebar entries \<open>renderSidebar\<close> last
  wrote, the header title and model label \<open>renderHeader\<close> last wrote, the message rows
  \<open>renderMessages\<close> last wrote, and the per-item menus of the sidebar that are open. The
  DOM changes only when a handler calls a render function, so each handler of
  \<open>src/src/main.ts\<close> is paired with the render calls it makes; a view the handler does
  not repaint keeps what it showed.
\<close>

record screen =
  shown_sidebar :: "sidebar_item list"
  shown_header :: "js_string option"
  shown_label :: js_string
  shown_messages :: "message_row list"
  item_menus :: "js_string list"

text \<open>What a handler repaints after it has changed the state.\<close>

datatype repaint = No_Repaint | Repaint_All | Repaint_Messages | Repaint_Header

text \<open>
  \<open>renderSidebar\<close> empties \<open>chatListEl\<close>, so the per-item menus go with the old
  entries; \<open>renderHeader\<close> writes the title only when the selected id is truthy.
\<close>

definition repaint_sidebar :: "app \<Rightarrow> screen \<Rightarrow> screen" where
  "repaint_sidebar st scr = scr\<lparr>shown_sidebar := render_sidebar st, item_menus := []\<rparr>"

definition repaint_header :: "app \<Rightarrow> settings \<Rightarrow> screen \<Rightarrow> screen" where
  "repaint_header st cfg scr =
     scr\<lparr>shown_header := (case header_title st of None \<Rightarrow> shown_header scr | Some t \<Rightarrow> Some t),
         shown_label := header_label cfg\<rparr>"

definition repaint_messages :: "app \<Rightarrow> screen \<Rightarrow> screen" where
  "repaint_messages st scr = scr\<lparr>shown_messages := render_messages st\<rparr>"

fun repaint_screen :: "repaint \<Rightarrow> app \<Rightarrow> settings \<Rightarrow> screen \<Rightarrow> screen" where
  "repaint_screen No_Repaint st cfg scr = scr"
| "repaint_screen Repaint_All st cfg scr =
     repaint_messages st (repaint_header st cfg (repaint_sidebar st scr))"
| "repaint_screen Repaint_Messages st cfg scr = repaint_messages st scr"
| "repaint_screen Repaint_Header st cfg scr = repaint_header st cfg scr"

text \<open>
  The render calls of the store handlers, on the branch the handler takes:
  \<open>deleteSession\<close> and \<open>selectSession\<close> return early on an unknown or already
  selected id, \<open>searchChat\<close> renders only when it selects a session, \<open>handleSend\<close>
  renders everything when a request starts and only the messages after the reply.
\<close>

fun store_repaint :: "sys \<Rightarrow> event \<Rightarrow> repaint" where
  "store_repaint s (New_Chat now rnd) = Repaint_All"
| "store_repaint s (Delete i now rnd) =
     (if find_session i (sessions (app_st s)) = None then No_Repaint else Repaint_All)"
| "store_repaint s (Select i) =
     (if current_session_id (app_st s) = Some i then No_Repaint else Repaint_All)"
| "store_repaint s (Search k a) =
     (case fst (search_chat k a (app_st s)) of
        Search_Jumped \<Rightarrow> Repaint_All
      | Search_Chosen \<Rightarrow> Repaint_All
      | _ \<Rightarrow> No_Repaint)"
| "store_repaint s (Type_Input t) = No_Repaint"
| "store_repaint s (Send now) =
     (if snd (handle_send now (app_st s)) = None then No_Repaint else Repaint_All)"
| "store_repaint s (Reply r t2) = (if pending s = None then No_Repaint else Repaint_Messages)"

text \<open>
  The render calls of the other listeners: a model button and the save button call
  \<open>renderHeader\<close>; the test button, the menus, the panel and the arriving model lists
  render nothing.
\<close>

fun client_repaint :: "client \<Rightarrow> client_event \<Rightarrow> repaint" where
  "client_repaint c (Window_Event e) =
     (case store_event_of (cl_window c) e of
        None \<Rightarrow> No_Repaint
      | Some ev \<Rightarrow> store_repaint (core (cl_window c)) ev)"
| "client_repaint c (Dropdown_Event (Model_Button i)) =
     (if attached (cl_models c) = 0 then No_Repaint else Repaint_Header)"
| "client_repaint c (Save_Settings_Click inp) = Repaint_Header"
| "client_repaint c _ = No_Repaint"

record ui =
  ui_client :: client
  ui_screen :: screen

abbreviation ui_app :: "ui \<Rightarrow> app" where
  "ui_app u \<equiv> app_st (core (cl_window (ui_client u)))"

abbreviation ui_settings :: "ui \<Rightarrow> settings" where
  "ui_settings u \<equiv> cur_settings (dd_settings (cl_models (ui_client u)))"

text \<open>
  The events: a listener of the whole client, a click on the menu button of a sidebar
  entry (it toggles that entry's own menu), and a click on the delete button of an open
  entry menu with the answer to \<open>window.confirm\<close>.
\<close>

datatype ui_event =
    UI_Event client_event
  | Item_Menu_Click js_string
  | Item_Delete_Click js_string bool int js_string

definition ui_client_step :: "ui \<Rightarrow> client_event \<Rightarrow> ui" where
  "ui_client_step u e =
     (let c' = client_step (ui_client u) e
      in \<lparr>ui_client = c',
          ui_screen = repaint_screen (client_repaint (ui_client u) e)
                        (app_st (core (cl_window c'))) (cur_settings (dd_settings (cl_models c')))
                        (ui_screen u)\<rparr>)"

definition toggle_item_menu :: "js_string \<Rightarrow> screen \<Rightarrow> screen" where
  "toggle_item_menu i scr =
     scr\<lparr>item_menus := (if i \<in> set (item_menus scr) then removeAll i (item_menus scr)
                       else i # item_menus scr)\<rparr>"

fun ui_step :: "ui \<Rightarrow> ui_event \<Rightarrow> ui" where
  "ui_step u (UI_Event e) = ui_client_step u e"
| "ui_step u (Item_Menu_Click i) = u\<lparr>ui_screen := toggle_item_menu i (ui_screen u)\<rparr>"
| "ui_step u (Item_Delete_Click i confirmed now rnd) =
     (if confirmed then ui_client_step u (Window_Event (Store_Event (Delete i now rnd))) else u)"

text \<open>
  A deletion from the sidebar comes from the delete button of an open entry menu, and a
  menu button belongs to an entry the sidebar shows.
\<close>

fun ui_event_ok :: "ui \<Rightarrow> ui_event \<Rightarrow> bool" where
  "ui_event_ok u (UI_Event (Window_Event (Store_Event (Delete i now rnd)))) \<longleftrightarrow> False"
| "ui_event_ok u (UI_Event e) \<longleftrightarrow> client_event_ok (ui_client u) e"
| "ui_event_ok u (Item_Menu_Click i) \<longleftrightarrow> i \<in> set (map item_session_id (shown_sidebar (ui_screen u)))"
| "ui_event_ok u (Item_Delete_Click i b now rnd) \<longleftrightarrow>
     i \<in> set (item_menus (ui_screen u))
     \<and> client_event_ok (ui_client u) (Window_Event (Store_Event (Delete i now rnd)))"

text \<open>The page before the first render, and start-up: the three render calls after \<open>loadSessions\<close>.\<close>

definition blank_screen :: screen where
  "blank_screen = \<lparr>shown_sidebar = [], shown_header = None, shown_label = [], shown_messages = [],
                   item_menus = []\<rparr>"

definition ui_init :: "settings_blob option \<Rightarrow> app \<Rightarrow> ui" where
  "ui_init sb st =
     \<lparr>ui_client = client_init sb st,
      ui_screen = repaint_screen Repaint_All st (load_settings sb) blank_screen\<rparr>"

inductive ui_reachable :: "settings_blob option \<Rightarrow> stored_blob option \<Rightarrow> ui \<Rightarrow> bool" where
  start: "load_sessions now rnd (init_app blob) = Inr st \<Longrightarrow> ui_reachable sb blob (ui_init sb st)"
| step: "ui_reachable sb blob u \<Longrightarrow> ui_event_ok u e \<Longrightarrow> ui_reachable sb blob (ui_step u e)"

text \<open>The views that are up to date: what a repaint of everything would show.\<close>

definition screen_ok :: "app \<Rightarrow> screen \<Rightarrow> bool" where
  "screen_ok st scr \<longleftrightarrow>
     shown_messages scr = render_messages st
     \<and> (header_title st = None \<or> shown_header scr = header_title st)
     \<and> mset (shown_sidebar scr) = mset (render_sidebar st)
     \<and> set (item_menus scr) \<subseteq> set (map item_session_id (shown_sidebar scr))"


text \<open>What the sidebar entries and the header title read of a session.\<close>

definition entry_key :: "chat_session \<Rightarrow> js_string \<times> js_string" where
  "entry_key s = (session_id s, title s)"

subsection \<open>Lemmas\<close>

lemma map_entry_key_update:
  "(\<And>s. entry_key (f s) = entry_key s) \<Longrightarrow> map entry_key (update_session i f ss) = map entry_key ss"
  by (induction ss) auto

lemma find_session_title:
  "map_option title (find_session i ss) = map_option snd (find (\<lambda>k. fst k = i) (map entry_key ss))"
  by (induction ss) (simp_all add: find_session_def entry_key_def)

lemma header_title_entry_key:
  "current_session_id st' = current_session_id st \<Longrightarrow> map entry_key (sessions st') = map entry_key (sessions st) \<Longrightarrow>
   header_title st' = header_title st"
proof -
  assume c: "current_session_id st' = current_session_id st"
    and k: "map entry_key (sessions st') = map entry_key (sessions st)"
  have t: "map_option title (get_current_session st') = map_option title (get_current_session st)"
    using c k by (simp add: get_current_session_def find_session_title split: option.split)
  have o: "\<And>x. (case x of None \<Rightarrow> new_chat_title | Some s \<Rightarrow> title s)
                   = (case map_option title x of None \<Rightarrow> new_chat_title | Some t \<Rightarrow> t)"
    by (simp split: option.split)
  show ?thesis unfolding header_title_def by (simp only: o t c)
qed

lemma mset_render_sidebar:
  "mset (render_sidebar st) =
     mset (map (\<lambda>(i, t). \<lparr>item_session_id = i, item_title = (if t = [] then untitled_title else t),
                          item_active = (Some i = current_session_id st)\<rparr>)
            (map entry_key (sessions st)))"
  unfolding render_sidebar_def list_by_recency_def mset_map sort_by_recency_mset
  by (simp add: shown_title_def entry_key_def image_mset.compositionality comp_def)

lemma render_sidebar_entry_key:
  "current_session_id st' = current_session_id st \<Longrightarrow> map entry_key (sessions st') = map entry_key (sessions st) \<Longrightarrow>
   mset (render_sidebar st') = mset (render_sidebar st)"
  by (simp only: mset_render_sidebar)

lemma render_messages_same:
  "current_session_id st' = current_session_id st \<Longrightarrow> sessions st' = sessions st \<Longrightarrow>
   render_messages st' = render_messages st"
  by (simp only: render_messages_def get_current_session_def)

lemma search_chat_no_jump:
  "fst (search_chat k a st) \<notin> {Search_Jumped, Search_Chosen} \<Longrightarrow> snd (search_chat k a st) = st"
  by (auto simp: search_chat_def Let_def split: prompt_answer.splits)

lemma handle_send_no_request: "snd (handle_send now st) = None \<Longrightarrow> fst (handle_send now st) = st"
  by (auto simp: handle_send_def Let_def split: option.splits if_splits)

text \<open>A store handler that repaints nothing changes neither the sessions nor the selection.\<close>

lemma store_no_repaint:
  "store_repaint s ev = No_Repaint \<Longrightarrow>
   sessions (app_st (step s ev)) = sessions (app_st s)
   \<and> current_session_id (app_st (step s ev)) = current_session_id (app_st s)"
proof (cases ev)
  case (Search k a)
  assume "store_repaint s ev = No_Repaint"
  with Search have "fst (search_chat k a (app_st s)) \<notin> {Search_Jumped, Search_Chosen}"
    by (auto split: search_outcome.splits)
  with Search show ?thesis by (simp add: search_chat_no_jump)
next
  case (Send now)
  assume "store_repaint s ev = No_Repaint"
  with Send show ?thesis by (simp add: app_st_step_send handle_send_no_request split: if_splits)
next
  case (Reply r t2)
  assume "store_repaint s ev = No_Repaint"
  with Reply show ?thesis by (simp split: if_splits)
qed (simp_all add: delete_session_def select_session_def split: if_splits)

lemma store_repaint_messages:
  "store_repaint s ev = Repaint_Messages \<Longrightarrow>
   current_session_id (app_st (step s ev)) = current_session_id (app_st s)
   \<and> map entry_key (sessions (app_st (step s ev))) = map entry_key (sessions (app_st s))"
proof (cases ev)
  case (Reply r t2)
  assume "store_repaint s ev = Repaint_Messages"
  with Reply obtain sid where "pending s = Some sid" by (cases "pending s") auto
  with Reply show ?thesis
    by (simp add: finish_send_def save_sessions_def map_entry_key_update push_message_def entry_key_def)
qed (simp_all split: if_splits search_outcome.splits)


lemma store_repaint_not_header: "store_repaint s ev \<noteq> Repaint_Header"
  by (cases ev) (simp_all split: search_outcome.split)

lemma cl_window_start_test [simp]: "cl_window (start_test c) = cl_window c"
  by (simp add: start_test_def Let_def)

lemma cl_window_panel_settings [simp]: "cl_window (panel_settings e c) = cl_window c"
  by (simp add: panel_settings_def)

text \<open>What each kind of repaint leaves unchanged in the state it paints.\<close>

lemma client_no_repaint:
  "client_repaint c e = No_Repaint \<Longrightarrow>
   sessions (app_st (core (cl_window (client_step c e)))) = sessions (app_st (core (cl_window c)))
   \<and> current_session_id (app_st (core (cl_window (client_step c e))))
       = current_session_id (app_st (core (cl_window c)))"
  by (cases e) (auto simp: core_window_step store_no_repaint split: option.splits)

lemma client_repaint_messages:
  "client_repaint c e = Repaint_Messages \<Longrightarrow>
   current_session_id (app_st (core (cl_window (client_step c e))))
     = current_session_id (app_st (core (cl_window c)))
   \<and> map entry_key (sessions (app_st (core (cl_window (client_step c e)))))
     = map entry_key (sessions (app_st (core (cl_window c))))"
  by (cases e) (auto simp: core_window_step store_repaint_messages split: option.splits if_splits)

lemma client_repaint_header:
  "client_repaint c e = Repaint_Header \<Longrightarrow>
   app_st (core (cl_window (client_step c e))) = app_st (core (cl_window c))"
  by (cases e) (auto simp: core_window_step store_repaint_not_header split: option.splits)

lemma screen_ok_repaint_all: "screen_ok st (repaint_messages st (repaint_header st cfg (repaint_sidebar st scr)))"
  by (simp add: screen_ok_def repaint_sidebar_def repaint_header_def repaint_messages_def
      split: option.split)

lemma screen_ok_header: "screen_ok st scr \<Longrightarrow> screen_ok st (repaint_header st cfg scr)"
  by (auto simp: screen_ok_def repaint_header_def split: option.split)

lemma screen_ok_keys:
  "screen_ok st scr \<Longrightarrow> current_session_id st' = current_session_id st \<Longrightarrow>
   map entry_key (sessions st') = map entry_key (sessions st) \<Longrightarrow>
   screen_ok st' (repaint_messages st' scr)"
  using header_title_entry_key [of st' st] render_sidebar_entry_key [of st' st]
  by (simp add: screen_ok_def repaint_messages_def)

lemma screen_ok_same:
  "screen_ok st scr \<Longrightarrow> current_session_id st' = current_session_id st \<Longrightarrow> sessions st' = sessions st \<Longrightarrow>
   screen_ok st' scr"
  using header_title_entry_key [of st' st] render_sidebar_entry_key [of st' st]
    render_messages_same [of st' st]
  by (simp add: screen_ok_def)

lemma screen_ok_toggle:
  "screen_ok st scr \<Longrightarrow> i \<in> set (map item_session_id (shown_sidebar scr)) \<Longrightarrow>
   screen_ok st (toggle_item_menu i scr)"
  by (auto simp: screen_ok_def toggle_item_menu_def)

text \<open>Every listener leaves the page showing the state, up to the order of the sidebar.\<close>

lemma screen_ok_client_step:
  assumes "screen_ok (ui_app u) (ui_screen u)"
  shows "screen_ok (ui_app (ui_client_step u e)) (ui_screen (ui_client_step u e))"
proof (cases "client_repaint (ui_client u) e")
  case No_Repaint
  then show ?thesis
    using assms client_no_repaint [OF No_Repaint] by (simp add: ui_client_step_def Let_def screen_ok_same)
next
  case Repaint_All
  then show ?thesis by (simp add: ui_client_step_def Let_def screen_ok_repaint_all)
next
  case Repaint_Messages
  then show ?thesis
    using assms client_repaint_messages [OF Repaint_Messages] by (simp add: ui_client_step_def Let_def screen_ok_keys)
next
  case Repaint_Header
  then show ?thesis
    using assms client_repaint_header [OF Repaint_Header] by (simp add: ui_client_step_def Let_def screen_ok_header)
qed

lemma app_client_init [simp]: "app_st (core (cl_window (client_init sb st))) = st"
  by (simp add: client_init_def)

subsection \<open>Properties\<close>

text \<open>
  C23. The page is never out of date except for the order of the sidebar: in every state
  reached from start-up by any interleaving of the listeners and the per-item menus, the
  message pane shows the rows of the selected session, the header shows its title
  whenever \<open>renderHeader\<close> would write one, the sidebar holds exactly the entries
  \<open>renderSidebar\<close> would build (the same multiset), and every open entry menu belongs
  to a shown entry.
\<close>

theorem ui_screen_ok: "ui_reachable sb blob u \<Longrightarrow> screen_ok (ui_app u) (ui_screen u)"
proof (induction rule: ui_reachable.induct)
  case (start now rnd blob st sb)
  then show ?case by (simp add: ui_init_def screen_ok_repaint_all)
next
  case (step sb blob u e)
  then show ?case
    by (cases e) (auto simp: screen_ok_client_step screen_ok_toggle)
qed

theorem ui_screen_ok_witness:
  "screen_ok (ui_app (ui_init None (projr (load_sessions 1 (js ''r'') (init_app None)))))
     (ui_screen (ui_init None (projr (load_sessions 1 (js ''r'') (init_app None)))))"
  by (rule ui_screen_ok [OF ui_reachable.start [OF load_sessions_None]])

text \<open>
  C24. The sidebar can show the sessions out of order: after a reply arrives for a
  session while another session was created during the request, the reply's session has
  the greatest \<open>updatedAt\<close>, but \<open>handleSend\<close> calls only \<open>renderMessages\<close> after
  the reply, so the sidebar still lists the new session first.
\<close>

theorem reply_sidebar_stale:
  "\<exists>u. ui_reachable None None u \<and> shown_sidebar (ui_screen u) \<noteq> render_sidebar (ui_app u)"
proof -
  let ?u0 = "ui_init None (projr (load_sessions 1 (js ''r'') (init_app None)))"
  let ?u1 = "ui_step ?u0 (UI_Event (Window_Event (Store_Event (Type_Input (js ''hi'')))))"
  let ?u2 = "ui_step ?u1 (UI_Event (Window_Event (Store_Event (Send 2))))"
  let ?u3 = "ui_step ?u2 (UI_Event (Window_Event (Store_Event (New_Chat 3 (js ''s'')))))"
  let ?u4 = "ui_step ?u3 (UI_Event (Window_Event (Store_Event (Reply (Completion (Some (js ''ok''))) 4))))"
  note defs = ui_client_step_def Let_def ui_init_def client_init_def start_test_def
    load_sessions_def init_app_def create_new_session_def save_sessions_def new_chat_def
    handle_send_def get_current_session_def find_session_def title_first_message_def
    push_message_def finish_send_def window_event_ok_def clock_ok_def fresh_id_def
    new_session_def new_session_id_def js_of_int_def js_of_nat.simps js_lit dropdown_init_def
    app_st_step_send pending_step_send
  have r: "ui_reachable None None ?u4"
    by (intro ui_reachable.step ui_reachable.start [OF load_sessions_None]) (simp_all add: defs)
  have "map item_session_id (shown_sidebar (ui_screen ?u4)) \<noteq> map item_session_id (render_sidebar (ui_app ?u4))"
    by (simp add: defs repaint_sidebar_def repaint_header_def repaint_messages_def render_sidebar_def
        list_by_recency_def sort_by_recency_def)
  then show ?thesis using r by auto
qed

text \<open>
  C25. The model label can show a model that is no longer set: the test button saves the
  settings read from the form but renders nothing, so after a test with a new model id the
  header still names the old model.
\<close>

theorem test_click_label_stale:
  "\<exists>u. ui_reachable None None u \<and> shown_label (ui_screen u) \<noteq> header_label (ui_settings u)"
proof -
  let ?u0 = "ui_init None (projr (load_sessions 1 (js ''r'') (init_app None)))"
  let ?inp = "\<lparr>api_base_url_value = js ''http://h'', model_id_value = js ''m'',
               system_prompt_value = js ''p'', temperature_parsed = Some 1, max_tokens_value = []\<rparr>"
  have r: "ui_reachable None None (ui_step ?u0 (UI_Event (Test_Connection_Click ?inp)))"
    by (intro ui_reachable.step ui_reachable.start [OF load_sessions_None]) simp
  have l0: "shown_label (ui_screen (ui_step ?u0 (UI_Event (Test_Connection_Click ?inp))))
              = js ''ministral-3-3b''"
    by (simp add: ui_client_step_def ui_init_def repaint_header_def repaint_sidebar_def
        repaint_messages_def header_label_def get_model_display_name_def load_settings_def
        default_settings_def js_lit)
  have l1: "header_label (ui_settings (ui_step ?u0 (UI_Event (Test_Connection_Click ?inp)))) = js ''m''"
    by (simp add: ui_client_step_def Let_def panel_settings_def start_test_def client_init_def
        update_settings_from_inputs_def store_settings_def trim_or_def header_label_def
        get_model_display_name_def js_lit)
  show ?thesis using r l0 l1 by (intro exI [of _ "ui_step ?u0 (UI_Event (Test_Connection_Click ?inp))"]) (simp add: js_lit)
qed


end
