(* ===== verification/Spec2Isabelle.thy ===== *)
theory Spec2Isabelle
  imports Old_Client Segmenter_Loop Display
begin

text \<open>
  \<^bold>\<open>A verification library for the LM Studio web chat client.\<close>

  \<^bold>\<open>The program.\<close> \<open>src/src/main.ts\<close> is a browser chat client: it keeps a list of
  chat sessions in module-level variables (\<open>sessions\<close>, \<open>currentSessionId\<close>,
  \<open>isSending\<close>) and the \<open>settings\<close> object, persists each as one JSON value in
  \<open>localStorage\<close>, posts the selected session's messages to an LM Studio server and
  renders each message with \<open>renderMessageContentWithTables\<close>
  (\<open>src/unnamed/part_000\<close>), which splits the text into paragraphs and pipe tables.
  \<open>src/src_old/main.ts\<close> is an older copy of the same client: its shared functions have
  the same text, it lacks \<open>deleteSession\<close> and \<open>searchChat\<close>, and it renders message
  text without parsing tables. The store holds message contents and the renderer reads
  them; the settings decide the URL and the body of each request.

  \<^bold>\<open>How the theories model it.\<close>
  \<^item> \<open>Prelude\<close>: strings are lists of UTF-16 code units (\<open>16 word\<close>), so lengths
    and \<open>slice\<close> count what JavaScript counts; the JavaScript built-ins the code calls
    (\<open>trim\<close>, the class \<open>\s\<close>, \<open>startsWith\<close>, \<open>endsWith\<close>, \<open>includes\<close>,
    \<open>split\<close>, \<open>join\<close>, \<open>toLowerCase\<close>, \<open>Number.toString\<close>) as functions, with
    shared lemmas (\<open>split\<close>/\<open>join\<close> inverse, \<open>includes\<close> is the infix relation,
    the last piece of a split).
  \<^item> \<open>Segmenter\<close> models \<open>part_000\<close>: \<open>stripInlineMarkdown\<close> as the two global
    regular-expression replacements (\<open>strip_bold\<close> with the lazy scan \<open>bold_scan\<close>,
    \<open>strip_code\<close>), \<open>splitMarkdownRow\<close>, \<open>isTableSeparatorLine\<close>, the body-row and
    prose loops (\<open>table_body\<close>, \<open>prose_run\<close>) and the outer loop \<open>render_lines\<close>,
    a recursion over the remaining lines whose termination proof is the source's progress
    argument. DOM nodes become \<open>Prose\<close> and \<open>Table\<close> segments holding their text.
  \<^item> \<open>Sessions\<close> models the store of \<open>main.ts\<close>: records \<open>message\<close>,
    \<open>chat_session\<close> and \<open>app\<close> (the module state, the input box and the stored
    value), and one definition per function that changes them: \<open>load_sessions\<close>,
    \<open>save_sessions\<close>, \<open>create_new_session\<close>, \<open>new_chat\<close>, \<open>select_session\<close>,
    \<open>delete_session\<close>, \<open>search_chat\<close>, and \<open>handleSend\<close> split at its
    \<open>await\<close> into \<open>handle_send\<close> and \<open>finish_send\<close>. Exceptions are values
    (\<open>app_error + app\<close>); the in-place mutation of the found session object is
    \<open>update_session\<close> on the first session with its id; \<open>Array.prototype.sort\<close> is
    the library's stable \<open>sort_key\<close>.
  \<^item> \<open>Store_Machine\<close> puts the store handlers together: a \<open>sys\<close> state (module state
    and the id held by a suspended \<open>handleSend\<close>), an \<open>event\<close> per handler, a step
    function, and the inductive set of states \<open>reachable\<close> from \<open>loadSessions\<close>.
    Events carry \<open>Date.now()\<close>, the random id suffix, typed text, prompt answers and
    request outcomes, so every interleaving of user actions with a pending request is a run.
  \<^item> \<open>Settings\<close> models \<open>loadSettings\<close> (the spread of the parsed value over the
    defaults, then the reset of temperature and \<open>maxTokens\<close>), \<open>saveSettings\<close>,
    \<open>updateSettingsFromInputs\<close> (with \<open>parseInt\<close> on code units; the value
    \<open>parseFloat\<close> reads is an input), \<open>applySettingsToInputs\<close> (the five box
    values, \<open>maxTokens\<close> printed by \<open>Number.prototype.toString\<close>, which switches
    to exponent form from \<open>10\<^sup>21\<close> on: \<open>js_number_of_int\<close>), the model dropdown, \<open>getModelDisplayName\<close> and \<open>buildApiUrl\<close>, with a step function and \<open>settings_reachable\<close> for the settings
    handlers.
  \<^item> \<open>Segmenter_Loop\<close> models the same function as the code is written: an index over
    the lines, the outer \<open>while\<close> as \<open>while_option\<close> and its three inner loops as
    \<open>while\<close>; it is proved to stop and to equal \<open>render_lines\<close>.
  \<^item> \<open>Lm_Client\<close> models the code around the server: the answer of
    \<open>/chat/completions\<close> as an input turned into a reply or a throw
    (\<open>chat_completion\<close>), \<open>ensureModelList\<close> and its cache, \<open>testConnection\<close>
    and the connection indicator, and the model dropdown, whose \<open>async\<close> toggle is
    split at its \<open>await\<close> (\<open>dropdown_step\<close> counts the suspended toggles and the
    dropdowns in the document).
  \<^item> \<open>Chrome\<close> models the window around the store: the header menu (its delete button
    performs the store's \<open>Delete\<close>), the settings panel toggled by the user card, the
    document click handler and the Escape key, as \<open>window_step\<close> over the store state.
  \<^item> \<open>Client\<close> composes them as the listeners of \<open>setupEvents\<close> do: one record for
    the window, the dropdown with the settings, the connection indicator and the number of
    \<open>testConnection\<close> bodies waiting in \<open>ensureModelList\<close>; one \<open>client_step\<close>
    per DOM event, which acts on every part the listener touches (the document click closes
    the header menu, the model dropdown and the panel; a send writes the indicator; a
    connection test fills the model list the dropdown reads); and \<open>client_reachable\<close>
    from \<open>DOMContentLoaded\<close>, which itself starts a connection test.
  \<^item> \<open>Display\<close> models the page as the DOM holds it: what \<open>renderSidebar\<close>,
    \<open>renderHeader\<close> and \<open>renderMessages\<close> last wrote, and the per-item menus of the
    sidebar. Each listener of \<open>Client\<close> is paired with the render calls it makes on the
    branch it takes (\<open>store_repaint\<close>, \<open>client_repaint\<close>), so a view that a handler
    does not repaint keeps what it showed; \<open>ui_reachable\<close> adds the item menus and
    their delete buttons.
  \<^item> \<open>Old_Client\<close> models what \<open>src/src_old/main.ts\<close> does differently: its
    \<open>loadSettings\<close>, its \<open>renderMessages\<close> (plain text), \<open>renderSidebar\<close> (no
    per-item menu), \<open>testConnection\<close> (an \<open>ok\<close> status is enough), its settings
    handlers (\<open>old_settings_step\<close>, \<open>old_settings_reachable\<close>) and its smaller set of
    store handlers (\<open>old_step\<close>, \<open>old_reachable\<close>), each old handler being the new one
    of the same name. The old functions whose text equals the new one (\<open>loadSessions\<close>,
    \<open>handleSend\<close>, \<open>updateSettingsFromInputs\<close> and the others) are modelled once,
    by the definitions mapped to \<open>src/src/main.ts\<close>.
  \<^item> \<open>View\<close> models what \<open>renderSidebar\<close>, \<open>renderHeader\<close> and
    \<open>renderMessages\<close> write (texts, the active flag, message rows holding the segments of
    their content) and the URL and body of the request of \<open>sendToLmStudio\<close>.

  \<^bold>\<open>What is proved.\<close> For the store: in every reachable state the selection is a listed
  session (C1), the stored snapshot equals the list (C8), \<open>isSending\<close> holds exactly
  while a request is pending (C9), and, under a monotone clock and non-repeating random
  ids, ids are distinct and \<open>createdAt \<le> updatedAt\<close> (C10); from every reachable state
  an enabled event re-enables sending (C17, liveness); the sidebar order is a stable
  descending sort (C2); deletion, sending, reply delivery, titles and loading behave as
  stated on every branch, errors included (C3 to C7, C26, C27). For the renderer: table
  detection and the extent of a table body (C11); the index-based loops the code runs stop
  on every input (C16) and compute the recursive renderer. For the settings: the
  temperature and \<open>maxTokens\<close> ranges in every reachable settings state (C12), the
  save/load behaviour (C13), the form round trip for every \<open>maxTokens\<close> below
  \<open>10\<^sup>21\<close> (C14), and that from \<open>10\<^sup>21\<close> on the round trip turns
  \<open>maxTokens\<close> into a single digit (C15). For the server side: the reply appended for
  every answer of the server (C18), the model dropdown kept to one instance when the label
  is not clicked during loading (C19), an orphaned dropdown left by two quick clicks on the
  label from any closed state with an empty model cache (C20), the connection dot lit only
  by a connection test (C21). For the composition: the connection-testing label never
  stays (C22, liveness). For the page: the message pane, the header title and the sidebar
  entries are always those of the current state, and open item menus belong to shown
  entries (C23), while the sidebar order can be stale after a reply (C24) and the model
  label after a connection test (C25). C28 and C29 are behaviours the specification does
  not describe: a reply to a deleted session is dropped, and a content starting with two
  blank lines renders an empty paragraph first.

  The unnumbered lemmas of the theories (the old client's runs as runs of the new store
  machine, the composition lemmas \<open>window_reachable_core\<close> and
  \<open>client_reachable_parts\<close>, what the window shows and what a send posts, the loop
  equivalence \<open>render_loop_equiv\<close>) carry these properties.

  \<^bold>\<open>Assumptions and bounds.\<close> No fuel is needed: every loop is a terminating recursion,
  or a \<open>while_option\<close> proved to return (C16).
  The step relation assumes the clock is not behind any stored \<open>updatedAt\<close> and the
  generated id is new (\<open>event_ok\<close>); only C10 depends on these. A stored array is taken
  to hold session objects and stored settings to have keys of the declared types.
  \<open>toLowerCase\<close> is modelled for Latin, Greek, Cyrillic and full-width letters only;
  \<open>parseInt\<close> is exact (the code's numbers stay far below \<open>2\<^sup>53\<close>).

  \<^bold>\<open>Not modelled.\<close> DOM construction that holds no model state (element creation, class
  names, scrolling, the dropdown menus themselves), the HTTP requests themselves (every
  answer of the server is an input), the settings panel's status texts, the digits
  \<open>Number.prototype.toString\<close> prints for the temperature (only that
  \<open>parseFloat\<close> reads them back as the same number), the per-item menus of the sidebar
  (their delete button performs the modelled \<open>deleteSession\<close>), and JSON serialisation
  (a stored value is its parsed form). In \<open>Lm_Client\<close> a connection test is one step
  (\<open>test_connection\<close>); \<open>Client\<close> splits it at its \<open>await\<close>.
\<close>

section \<open>Properties across components\<close>

text \<open>
  What the window shows in every reachable state: the header carries the title of the
  selected session (unless its id is the empty string, which is falsy), the message pane shows the hint for an empty session and otherwise one
  row per message of that session, in order, its content segmented by
  \<open>renderMessageContentWithTables\<close>; the sidebar marks an entry active.
\<close>

theorem reachable_view:
  assumes "reachable blob s"
  shows "\<exists>c \<in> set (sessions (app_st s)).
           current_session_id (app_st s) = Some (session_id c)
         \<and> header_title (app_st s) = (if session_id c = [] then None else Some (title c))
         \<and> render_messages (app_st s)
             = (if messages c = [] then [Hint_Row empty_chat_hint] else map render_message (messages c))
         \<and> list_ex item_active (render_sidebar (app_st s))"
proof -
  have "current_ok (app_st s)"
    using assms by (induction rule: reachable.induct) (simp_all add: current_ok_load current_ok_step)
  then obtain c where "c \<in> set (sessions (app_st s))" "current_session_id (app_st s) = Some (session_id c)"
    "get_current_session (app_st s) = Some c"
    by (rule current_ok_get_current)
  then show ?thesis
    by (intro bexI [of _ c]) (simp_all add: header_title_current render_sidebar_active render_messages_def)
qed

theorem reachable_view_witness:
  "render_messages (app_st \<lparr>app_st = \<lparr>sessions = [new_session new_chat_title 1 (js ''r'')],
             current_session_id = Some (new_session_id 1 (js ''r'')), is_sending = False,
             user_input = [],
             stored_sessions = Some (Sessions_Json [new_session new_chat_title 1 (js ''r'')])\<rparr>, pending = None\<rparr>)
     = [Hint_Row empty_chat_hint]
   \<and> header_title (app_st \<lparr>app_st = \<lparr>sessions = [new_session new_chat_title 1 (js ''r'')],
             current_session_id = Some (new_session_id 1 (js ''r'')), is_sending = False,
             user_input = [],
             stored_sessions = Some (Sessions_Json [new_session new_chat_title 1 (js ''r'')])\<rparr>, pending = None\<rparr>)
     = Some new_chat_title"
  using reachable_view [OF reachable_loaded_empty] by (simp add: new_session_def new_session_id_def js_lit)

text \<open>
  The request a send posts: the system prompt of the settings, then every earlier
  message of the session, then the message just typed (trimmed), with the model,
  temperature and \<open>maxTokens\<close> of the settings.
\<close>

theorem send_request_carries_history:
  assumes "\<not> is_sending st" and "get_current_session st = Some c"
    and "js_trim (user_input st) \<noteq> []"
  shows "\<exists>c'. snd (handle_send now st) = Some (session_id c)
    \<and> find_session (session_id c) (sessions (fst (handle_send now st))) = Some c'
    \<and> payload_messages (build_payload cfg c')
        = (js ''system'', system_prompt cfg) # map (\<lambda>m. (role_name (role m), content m)) (messages c)
          @ [(js ''user'', js_trim (user_input st))]
    \<and> payload_model (build_payload cfg c') = model_id cfg
    \<and> payload_temperature (build_payload cfg c') = temperature cfg
    \<and> payload_max_tokens (build_payload cfg c') = max_tokens cfg"
  using handle_send_session [OF assms, of now]
  by (simp add: build_payload_def push_message_def role_name_def)

theorem send_request_carries_history_witness:
  "\<not> is_sending \<lparr>sessions = [new_session [] 1 (js ''a'')],
      current_session_id = Some (new_session_id 1 (js ''a'')), is_sending = False,
      user_input = js '' hi '', stored_sessions = None\<rparr>
   \<and> get_current_session \<lparr>sessions = [new_session [] 1 (js ''a'')],
      current_session_id = Some (new_session_id 1 (js ''a'')), is_sending = False,
      user_input = js '' hi '', stored_sessions = None\<rparr> = Some (new_session [] 1 (js ''a''))
   \<and> (\<exists>c'. find_session (new_session_id 1 (js ''a''))
            (sessions (fst (handle_send 9 \<lparr>sessions = [new_session [] 1 (js ''a'')],
               current_session_id = Some (new_session_id 1 (js ''a'')), is_sending = False,
               user_input = js '' hi '', stored_sessions = None\<rparr>))) = Some c'
       \<and> payload_messages (build_payload default_settings c')
           = [(js ''system'', default_system_prompt), (js ''user'', js ''hi'')])"
proof -
  let ?st = "\<lparr>sessions = [new_session [] 1 (js ''a'')],
      current_session_id = Some (new_session_id 1 (js ''a'')), is_sending = False,
      user_input = js '' hi '', stored_sessions = None\<rparr>"
  have h: "\<not> is_sending ?st" "get_current_session ?st = Some (new_session [] 1 (js ''a''))"
      "js_trim (user_input ?st) \<noteq> []"
    by (simp_all add: get_current_session_def find_session_def new_session_def js_lit)
  obtain c' where c': "find_session (new_session_id 1 (js ''a'')) (sessions (fst (handle_send 9 ?st))) = Some c'"
      "payload_messages (build_payload default_settings c')
         = (js ''system'', system_prompt default_settings)
           # map (\<lambda>m. (role_name (role m), content m)) (messages (new_session [] 1 (js ''a'')))
           @ [(js ''user'', js_trim (user_input ?st))]"
    using send_request_carries_history [OF h, of 9 default_settings] by (auto simp: new_session_def)
  have "payload_messages (build_payload default_settings c')
          = [(js ''system'', default_system_prompt), (js ''user'', js ''hi'')]"
    using c'(2) by (simp add: new_session_def default_settings_def js_lit)
  with h(1,2) c'(1) show ?thesis by blast
qed

end
